theory Spec2Isabelle
  imports Main "HOL-Library.Multiset"
begin

section \<open>Types and terms of the object variant (src/obj.ts, lines 1-189)\<close>

text \<open>
  A \<open>Param\<close> and a \<open>PropertyType\<close> are both the object \<open>{ name; type }\<close> of the
  source, modelled as a pair. The numeral carried by \<open>number\<close> is never inspected by
  the checker.
\<close>

datatype Type =
    Boolean
  | Number
  | Func "(string \<times> Type) list" Type
  | Object "(string \<times> Type) list"

type_synonym Param = "string \<times> Type"
type_synonym PropertyType = "string \<times> Type"

datatype Term =
    Ttrue
  | Tfalse
  | Tif Term Term Term
  | Tnumber int
  | Tadd Term Term
  | Tvar string
  | Tfunc "Param list" Term
  | Tcall Term "Term list"
  | Tseq Term Term
  | Tconst string Term Term
  | TobjectNew "(string \<times> Term) list"
  | TobjectGet Term string

type_synonym PropertyTerm = "string \<times> Term"

text \<open>
  \<open>TypeEnv = Record<string, Type>\<close>: a finite map from names to types, which stands for
  a JavaScript object with these own properties and the default prototype. The map
  follows the source for every name that is an ordinary property key. It does not
  describe two things that JavaScript does with such an object: the read \<open>tyEnv[name]\<close>
  of a key inherited from \<open>Object.prototype\<close> (\<open>toString\<close>, \<open>constructor\<close>, ...) is not
  \<open>undefined\<close> although the name was never bound, and the write
  \<open>newTyEnv["__proto__"] = type\<close> sets the prototype of the object instead of adding a
  binding. These names are outside the model; a theorem about what a name is bound to
  after a write excludes them in its hypotheses.
\<close>

type_synonym TypeEnv = "string \<rightharpoonup> Type"


text \<open>
  \<open>error(message, term)\<close> throws \<open>new Error(`${message} at ${JSON.stringify(term)}`)\<close>;
  the thrown value is modelled by the message and the term it is raised at.
\<close>

type_synonym error = "string \<times> Term"

text \<open>\<open>props.find((prop) => prop.name === name)\<close>: the first entry with that name.\<close>

fun find_prop :: "(string \<times> 'a) list \<Rightarrow> string \<Rightarrow> 'a option" where
  "find_prop [] name = None"
| "find_prop ((n, v) # props) name = (if n = name then Some v else find_prop props name)"

lemma find_prop_size [termination_simp]:
  "find_prop props name = Some ty \<Longrightarrow> size ty < Suc (size_list (size_prod (\<lambda>_. 0) size) props)"
  by (induction props) (auto split: if_splits)

subsection \<open>typeEq (src/obj.ts, lines 51-90)\<close>

function (sequential) typeEq :: "Type \<Rightarrow> Type \<Rightarrow> bool"
  and typeEq_params :: "Param list \<Rightarrow> Param list \<Rightarrow> bool"
  and typeEq_props :: "PropertyType list \<Rightarrow> PropertyType list \<Rightarrow> bool"
where
  "typeEq ty1 Boolean = (case ty1 of Boolean \<Rightarrow> True | _ \<Rightarrow> False)"
| "typeEq ty1 Number = (case ty1 of Number \<Rightarrow> True | _ \<Rightarrow> False)"
| "typeEq (Func params1 retType1) (Func params2 retType2) =
     (if length params1 \<noteq> length params2 then False
      else if \<not> typeEq_params params1 params2 then False
      else if \<not> typeEq retType1 retType2 then False
      else True)"
| "typeEq ty1 (Func params2 retType2) = False"
| "typeEq (Object props1) (Object props2) =
     (if length props1 \<noteq> length props2 then False
      else typeEq_props props1 props2)"
| "typeEq ty1 (Object props2) = False"
| "typeEq_params ((n1, ty1) # params1) ((n2, ty2) # params2) =
     (if \<not> typeEq ty1 ty2 then False else typeEq_params params1 params2)"
| "typeEq_params params1 params2 = True"
| "typeEq_props props1 ((name2, ty2) # props2) =
     (case find_prop props1 name2 of
        None \<Rightarrow> False
      | Some ty1 \<Rightarrow> if \<not> typeEq ty1 ty2 then False else typeEq_props props1 props2)"
| "typeEq_props props1 [] = True"
  by pat_completeness auto
termination
  by (relation "measure (\<lambda>x. case x of
        Inl (a, b) \<Rightarrow> 2 * (size a + size b) + 1
      | Inr (Inl (ps, qs)) \<Rightarrow> 2 * (size_list (size_prod (\<lambda>_. 0) size) ps + size_list (size_prod (\<lambda>_. 0) size) qs)
      | Inr (Inr (ps, qs)) \<Rightarrow> 2 * (size_list (size_prod (\<lambda>_. 0) size) ps + size_list (size_prod (\<lambda>_. 0) size) qs) + 2)")
    (auto dest: find_prop_size)

subsection \<open>typecheck (src/obj.ts, lines 93-189)\<close>

text \<open>
  \<open>const newTyEnv = { ...tyEnv }; for (const { name, type } of t.params) newTyEnv[name] = type\<close>:
  the parameters are written into the copy from left to right. For a parameter named
  \<open>__proto__\<close> the source does not add a binding (see above): \<open>extend_params\<close> stands
  for the source on parameter lists without that name.
\<close>

definition extend_params :: "TypeEnv \<Rightarrow> Param list \<Rightarrow> TypeEnv" where
  "extend_params tyEnv params = fold (\<lambda>(name, type) newTyEnv. newTyEnv(name \<mapsto> type)) params tyEnv"

text \<open>
  A throw is the \<open>Inl\<close> of the result, and every later step of the source is skipped.
  \<open>typecheck_args\<close> is the loop over \<open>t.args\<close> of the \<open>call\<close> case; it runs after
  the two lengths were found equal, and \<open>t\<close> is the call term that its error names.
  \<open>typecheck_props\<close> is the \<open>t.props.map(...)\<close> of the \<open>objectNew\<close> case.
\<close>

fun typecheck :: "Term \<Rightarrow> TypeEnv \<Rightarrow> error + Type"
  and typecheck_args :: "Term list \<Rightarrow> Param list \<Rightarrow> TypeEnv \<Rightarrow> Term \<Rightarrow> error + unit"
  and typecheck_props :: "PropertyTerm list \<Rightarrow> TypeEnv \<Rightarrow> error + PropertyType list"
where
  "typecheck Ttrue tyEnv = Inr Boolean"
| "typecheck Tfalse tyEnv = Inr Boolean"
| "typecheck (Tif cond thn els) tyEnv =
     (case typecheck cond tyEnv of
        Inl e \<Rightarrow> Inl e
      | Inr condTy \<Rightarrow>
          if condTy \<noteq> Boolean then Inl (''boolean expected'', cond)
          else (case typecheck thn tyEnv of
            Inl e \<Rightarrow> Inl e
          | Inr thnTy \<Rightarrow>
              (case typecheck els tyEnv of
                 Inl e \<Rightarrow> Inl e
               | Inr elsTy \<Rightarrow>
                   if \<not> typeEq thnTy elsTy
                   then Inl (''then and else must have the same type'', Tif cond thn els)
                   else Inr thnTy)))"
| "typecheck (Tnumber n) tyEnv = Inr Number"
| "typecheck (Tadd left right) tyEnv =
     (case typecheck left tyEnv of
        Inl e \<Rightarrow> Inl e
      | Inr leftTy \<Rightarrow>
          if leftTy \<noteq> Number then Inl (''number expected'', left)
          else (case typecheck right tyEnv of
            Inl e \<Rightarrow> Inl e
          | Inr rightTy \<Rightarrow>
              if rightTy \<noteq> Number then Inl (''number expected'', right)
              else Inr Number))"
| "typecheck (Tvar name) tyEnv =
     (case tyEnv name of
        None \<Rightarrow> Inl (''unknown variable: '' @ name, Tvar name)
      | Some ty \<Rightarrow> Inr ty)"
| "typecheck (Tfunc params body) tyEnv =
     (case typecheck body (extend_params tyEnv params) of
        Inl e \<Rightarrow> Inl e
      | Inr retType \<Rightarrow> Inr (Func params retType))"
| "typecheck (Tcall func args) tyEnv =
     (case typecheck func tyEnv of
        Inl e \<Rightarrow> Inl e
      | Inr funcTy \<Rightarrow>
          (case funcTy of
             Func params retType \<Rightarrow>
               if length params \<noteq> length args
               then Inl (''wrong number of arguments'', Tcall func args)
               else (case typecheck_args args params tyEnv (Tcall func args) of
                 Inl e \<Rightarrow> Inl e
               | Inr _ \<Rightarrow> Inr retType)
           | _ \<Rightarrow> Inl (''function type expected'', Tcall func args)))"
| "typecheck (Tseq body rest) tyEnv =
     (case typecheck body tyEnv of
        Inl e \<Rightarrow> Inl e
      | Inr _ \<Rightarrow> typecheck rest tyEnv)"
| "typecheck (Tconst name init rest) tyEnv =
     (case typecheck init tyEnv of
        Inl e \<Rightarrow> Inl e
      | Inr ty \<Rightarrow> typecheck rest (tyEnv(name \<mapsto> ty)))"
| "typecheck (TobjectNew props) tyEnv =
     (case typecheck_props props tyEnv of
        Inl e \<Rightarrow> Inl e
      | Inr props' \<Rightarrow> Inr (Object props'))"
| "typecheck (TobjectGet obj propName) tyEnv =
     (case typecheck obj tyEnv of
        Inl e \<Rightarrow> Inl e
      | Inr objectTy \<Rightarrow>
          (case objectTy of
             Object props \<Rightarrow>
               (case find_prop props propName of
                  None \<Rightarrow> Inl (''unknown property: '' @ propName, TobjectGet obj propName)
                | Some ty \<Rightarrow> Inr ty)
           | _ \<Rightarrow> Inl (''object type expected'', TobjectGet obj propName)))"
| "typecheck_args (arg # args) (param # params) tyEnv t =
     (case typecheck arg tyEnv of
        Inl e \<Rightarrow> Inl e
      | Inr argTy \<Rightarrow>
          if \<not> typeEq argTy (snd param) then Inl (''parameter type mismatch'', t)
          else typecheck_args args params tyEnv t)"
| "typecheck_args args params tyEnv t = Inr ()"
| "typecheck_props [] tyEnv = Inr []"
| "typecheck_props ((name, term) # props) tyEnv =
     (case typecheck term tyEnv of
        Inl e \<Rightarrow> Inl e
      | Inr ty \<Rightarrow>
          (case typecheck_props props tyEnv of
             Inl e \<Rightarrow> Inl e
           | Inr props' \<Rightarrow> Inr ((name, ty) # props')))"

section \<open>The arithmetic variant (src/arith.ts)\<close>

text \<open>
  What the three smaller variants throw: a bare string (\<open>throw "..."\<close>), an
  \<open>Error\<close> object (\<open>throw new Error("...")\<close>), or the \<open>TypeError\<close> that JavaScript
  raises when a property of \<open>null\<close> is read.
\<close>

datatype thrown = Str string | Error string | TypeError

datatype Type_arith = Boolean_a | Number_a

datatype Term_arith =
    Atrue
  | Afalse
  | Aif Term_arith Term_arith Term_arith
  | Anumber int
  | Aadd Term_arith Term_arith

fun typecheck_arith :: "Term_arith \<Rightarrow> thrown + Type_arith" where
  "typecheck_arith Atrue = Inr Boolean_a"
| "typecheck_arith Afalse = Inr Boolean_a"
| "typecheck_arith (Aif cond thn els) =
     (case typecheck_arith cond of
        Inl e \<Rightarrow> Inl e
      | Inr condTy \<Rightarrow>
          if condTy \<noteq> Boolean_a then Inl (Str ''boolean expected'')
          else (case typecheck_arith thn of
            Inl e \<Rightarrow> Inl e
          | Inr thnTy \<Rightarrow>
              (case typecheck_arith els of
                 Inl e \<Rightarrow> Inl e
               | Inr elsTy \<Rightarrow>
                   if thnTy \<noteq> elsTy then Inl (Str ''then and else have different types'')
                   else Inr thnTy)))"
| "typecheck_arith (Anumber n) = Inr Number_a"
| "typecheck_arith (Aadd left right) =
     (case typecheck_arith left of
        Inl e \<Rightarrow> Inl e
      | Inr leftTy \<Rightarrow>
          if leftTy \<noteq> Number_a then Inl (Str ''number expected'')
          else (case typecheck_arith right of
            Inl e \<Rightarrow> Inl e
          | Inr rightTy \<Rightarrow>
              if rightTy \<noteq> Number_a then Inl (Str ''number expected'')
              else Inr Number_a))"

section \<open>The function variant (src/basic.ts)\<close>

datatype Type_basic =
    Boolean_b
  | Number_b
  | Func_b "(string \<times> Type_basic) list" Type_basic

type_synonym Param_basic = "string \<times> Type_basic"

datatype Term_basic =
    Btrue
  | Bfalse
  | Bif Term_basic Term_basic Term_basic
  | Bnumber int
  | Badd Term_basic Term_basic
  | Bvar string
  | Bfunc "Param_basic list" Term_basic
  | Bcall Term_basic "Term_basic list"
  | Bseq Term_basic Term_basic
  | Bconst string Term_basic Term_basic

type_synonym TypeEnv_basic = "string \<rightharpoonup> Type_basic"

subsection \<open>typeEq (src/basic.ts, lines 29-51)\<close>

fun typeEq_basic :: "Type_basic \<Rightarrow> Type_basic \<Rightarrow> bool"
  and typeEq_params_basic :: "Param_basic list \<Rightarrow> Param_basic list \<Rightarrow> bool"
where
  "typeEq_basic ty1 Boolean_b = (case ty1 of Boolean_b \<Rightarrow> True | _ \<Rightarrow> False)"
| "typeEq_basic ty1 Number_b = (case ty1 of Number_b \<Rightarrow> True | _ \<Rightarrow> False)"
| "typeEq_basic (Func_b params1 retType1) (Func_b params2 retType2) =
     (if length params1 \<noteq> length params2 then False
      else if \<not> typeEq_params_basic params1 params2 then False
      else if \<not> typeEq_basic retType1 retType2 then False
      else True)"
| "typeEq_basic ty1 (Func_b params2 retType2) = False"
| "typeEq_params_basic ((n1, ty1) # params1) ((n2, ty2) # params2) =
     (if \<not> typeEq_basic ty1 ty2 then False else typeEq_params_basic params1 params2)"
| "typeEq_params_basic params1 params2 = True"

subsection \<open>typecheck (src/basic.ts, lines 53-120)\<close>

text \<open>
  As in the object variant, \<open>extend_params_basic\<close> stands for the source on parameter
  lists without the name \<open>__proto__\<close>.
\<close>

definition extend_params_basic :: "TypeEnv_basic \<Rightarrow> Param_basic list \<Rightarrow> TypeEnv_basic" where
  "extend_params_basic tyEnv params =
     fold (\<lambda>(name, type) newTyEnv. newTyEnv(name \<mapsto> type)) params tyEnv"

text \<open>
  \<open>seq\<close> and \<open>const\<close> are terms of this variant's \<open>Term\<close> type, but its \<open>switch\<close>
  has no case for them: they reach \<open>default\<close>.
\<close>

fun typecheck_basic :: "Term_basic \<Rightarrow> TypeEnv_basic \<Rightarrow> thrown + Type_basic"
  and typecheck_args_basic ::
    "Term_basic list \<Rightarrow> Param_basic list \<Rightarrow> TypeEnv_basic \<Rightarrow> thrown + unit"
where
  "typecheck_basic Btrue tyEnv = Inr Boolean_b"
| "typecheck_basic Bfalse tyEnv = Inr Boolean_b"
| "typecheck_basic (Bif cond thn els) tyEnv =
     (case typecheck_basic cond tyEnv of
        Inl e \<Rightarrow> Inl e
      | Inr condTy \<Rightarrow>
          if condTy \<noteq> Boolean_b then Inl (Str ''boolean expected'')
          else (case typecheck_basic thn tyEnv of
            Inl e \<Rightarrow> Inl e
          | Inr thnTy \<Rightarrow>
              (case typecheck_basic els tyEnv of
                 Inl e \<Rightarrow> Inl e
               | Inr elsTy \<Rightarrow>
                   if \<not> typeEq_basic thnTy elsTy
                   then Inl (Str ''then and else must have the same type'')
                   else Inr thnTy)))"
| "typecheck_basic (Bnumber n) tyEnv = Inr Number_b"
| "typecheck_basic (Badd left right) tyEnv =
     (case typecheck_basic left tyEnv of
        Inl e \<Rightarrow> Inl e
      | Inr leftTy \<Rightarrow>
          if leftTy \<noteq> Number_b then Inl (Str ''number expected'')
          else (case typecheck_basic right tyEnv of
            Inl e \<Rightarrow> Inl e
          | Inr rightTy \<Rightarrow>
              if rightTy \<noteq> Number_b then Inl (Str ''number expected'')
              else Inr Number_b))"
| "typecheck_basic (Bvar name) tyEnv =
     (case tyEnv name of
        None \<Rightarrow> Inl (Error (''unknown variable: '' @ name))
      | Some ty \<Rightarrow> Inr ty)"
| "typecheck_basic (Bfunc params body) tyEnv =
     (case typecheck_basic body (extend_params_basic tyEnv params) of
        Inl e \<Rightarrow> Inl e
      | Inr retType \<Rightarrow> Inr (Func_b params retType))"
| "typecheck_basic (Bcall func args) tyEnv =
     (case typecheck_basic func tyEnv of
        Inl e \<Rightarrow> Inl e
      | Inr funcTy \<Rightarrow>
          (case funcTy of
             Func_b params retType \<Rightarrow>
               if length params \<noteq> length args
               then Inl (Error ''wrong number of arguments'')
               else (case typecheck_args_basic args params tyEnv of
                 Inl e \<Rightarrow> Inl e
               | Inr _ \<Rightarrow> Inr retType)
           | _ \<Rightarrow> Inl (Error ''function type expected'')))"
| "typecheck_basic (Bseq body rest) tyEnv = Inl (Error ''not implemented yet'')"
| "typecheck_basic (Bconst name init rest) tyEnv = Inl (Error ''not implemented yet'')"
| "typecheck_args_basic (arg # args) (param # params) tyEnv =
     (case typecheck_basic arg tyEnv of
        Inl e \<Rightarrow> Inl e
      | Inr argTy \<Rightarrow>
          if \<not> typeEq_basic argTy (snd param) then Inl (Error ''parameter type mismatch'')
          else typecheck_args_basic args params tyEnv)"
| "typecheck_args_basic args params tyEnv = Inr ()"

section \<open>The seq2/const2 variant (src/obj.ts, lines 198-347)\<close>

text \<open>
  The \<open>seq2\<close> case declares \<open>let lastTy: Type | null = null\<close> and ends with
  \<open>return lastTy!\<close>. The \<open>!\<close> is erased by the compiler, so at run time a \<open>null\<close>
  can flow wherever this variant's signatures say \<open>Type\<close>: out of \<open>typecheck\<close>, into
  the environment, into the \<open>retType\<close> of a \<open>Func\<close>, and into \<open>typeEq\<close>. The datatype
  below is that run-time universe: the three declared shapes and \<open>Null_s\<close>.
\<close>

datatype Type_seq2 =
    Null_s
  | Boolean_s
  | Number_s
  | Func_s "(string \<times> Type_seq2) list" Type_seq2

type_synonym Param_seq2 = "string \<times> Type_seq2"

datatype Term_seq2 =
    Strue
  | Sfalse
  | Sif Term_seq2 Term_seq2 Term_seq2
  | Snumber int
  | Sadd Term_seq2 Term_seq2
  | Svar string
  | Sfunc "Param_seq2 list" Term_seq2
  | Scall Term_seq2 "Term_seq2 list"
  | Sseq Term_seq2 Term_seq2
  | Sconst string Term_seq2 Term_seq2
  | Sseq2 "Term_seq2 list"
  | Sconst2 string Term_seq2

type_synonym TypeEnv_seq2 = "string \<rightharpoonup> Type_seq2"

subsection \<open>typeEq (src/obj.ts, lines 228-250)\<close>

text \<open>
  \<open>switch (ty2.tag)\<close> reads \<open>ty2\<close> first, and every case reads \<open>ty1.tag\<close> next:
  either read throws a \<open>TypeError\<close> on \<open>null\<close>.
\<close>

fun typeEq_seq2 :: "Type_seq2 \<Rightarrow> Type_seq2 \<Rightarrow> thrown + bool"
  and typeEq_params_seq2 :: "Param_seq2 list \<Rightarrow> Param_seq2 list \<Rightarrow> thrown + bool"
where
  "typeEq_seq2 ty1 Null_s = Inl TypeError"
| "typeEq_seq2 Null_s ty2 = Inl TypeError"
| "typeEq_seq2 ty1 Boolean_s = Inr (case ty1 of Boolean_s \<Rightarrow> True | _ \<Rightarrow> False)"
| "typeEq_seq2 ty1 Number_s = Inr (case ty1 of Number_s \<Rightarrow> True | _ \<Rightarrow> False)"
| "typeEq_seq2 (Func_s params1 retType1) (Func_s params2 retType2) =
     (if length params1 \<noteq> length params2 then Inr False
      else (case typeEq_params_seq2 params1 params2 of
        Inl e \<Rightarrow> Inl e
      | Inr ok \<Rightarrow>
          if \<not> ok then Inr False
          else (case typeEq_seq2 retType1 retType2 of
            Inl e \<Rightarrow> Inl e
          | Inr ok' \<Rightarrow> if \<not> ok' then Inr False else Inr True)))"
| "typeEq_seq2 ty1 (Func_s params2 retType2) = Inr False"
| "typeEq_params_seq2 ((n1, ty1) # params1) ((n2, ty2) # params2) =
     (case typeEq_seq2 ty1 ty2 of
        Inl e \<Rightarrow> Inl e
      | Inr ok \<Rightarrow> if \<not> ok then Inr False else typeEq_params_seq2 params1 params2)"
| "typeEq_params_seq2 params1 params2 = Inr True"

subsection \<open>typecheck (src/obj.ts, lines 252-347)\<close>

text \<open>
  As in the object variant, \<open>extend_params_seq2\<close> stands for the source on parameter
  lists without the name \<open>__proto__\<close>.
\<close>

definition extend_params_seq2 :: "TypeEnv_seq2 \<Rightarrow> Param_seq2 list \<Rightarrow> TypeEnv_seq2" where
  "extend_params_seq2 tyEnv params =
     fold (\<lambda>(name, type) newTyEnv. newTyEnv(name \<mapsto> type)) params tyEnv"

text \<open>
  \<open>typecheck_body\<close> is the \<open>for (const term of t.body)\<close> loop of the \<open>seq2\<close> case, with
  its two loop variables: the environment that \<open>const2\<close> rebinds and \<open>lastTy\<close>.
  \<open>tyEnv[t.name] === undefined\<close> is false for a name bound to \<open>null\<close>, which the
  \<open>var\<close> case therefore returns.
\<close>

fun typecheck_seq2 :: "Term_seq2 \<Rightarrow> TypeEnv_seq2 \<Rightarrow> thrown + Type_seq2"
  and typecheck_args_seq2 ::
    "Term_seq2 list \<Rightarrow> Param_seq2 list \<Rightarrow> TypeEnv_seq2 \<Rightarrow> thrown + unit"
  and typecheck_body :: "Term_seq2 list \<Rightarrow> TypeEnv_seq2 \<Rightarrow> Type_seq2 \<Rightarrow> thrown + Type_seq2"
where
  "typecheck_seq2 Strue tyEnv = Inr Boolean_s"
| "typecheck_seq2 Sfalse tyEnv = Inr Boolean_s"
| "typecheck_seq2 (Sif cond thn els) tyEnv =
     (case typecheck_seq2 cond tyEnv of
        Inl e \<Rightarrow> Inl e
      | Inr condTy \<Rightarrow>
          if condTy = Null_s then Inl TypeError
          else if condTy \<noteq> Boolean_s then Inl (Str ''boolean expected'')
          else (case typecheck_seq2 thn tyEnv of
            Inl e \<Rightarrow> Inl e
          | Inr thnTy \<Rightarrow>
              (case typecheck_seq2 els tyEnv of
                 Inl e \<Rightarrow> Inl e
               | Inr elsTy \<Rightarrow>
                   (case typeEq_seq2 thnTy elsTy of
                      Inl e \<Rightarrow> Inl e
                    | Inr ok \<Rightarrow>
                        if \<not> ok then Inl (Str ''then and else must have the same type'')
                        else Inr thnTy))))"
| "typecheck_seq2 (Snumber n) tyEnv = Inr Number_s"
| "typecheck_seq2 (Sadd left right) tyEnv =
     (case typecheck_seq2 left tyEnv of
        Inl e \<Rightarrow> Inl e
      | Inr leftTy \<Rightarrow>
          if leftTy = Null_s then Inl TypeError
          else if leftTy \<noteq> Number_s then Inl (Str ''number expected'')
          else (case typecheck_seq2 right tyEnv of
            Inl e \<Rightarrow> Inl e
          | Inr rightTy \<Rightarrow>
              if rightTy = Null_s then Inl TypeError
              else if rightTy \<noteq> Number_s then Inl (Str ''number expected'')
              else Inr Number_s))"
| "typecheck_seq2 (Svar name) tyEnv =
     (case tyEnv name of
        None \<Rightarrow> Inl (Error (''unknown variable: '' @ name))
      | Some ty \<Rightarrow> Inr ty)"
| "typecheck_seq2 (Sfunc params body) tyEnv =
     (case typecheck_seq2 body (extend_params_seq2 tyEnv params) of
        Inl e \<Rightarrow> Inl e
      | Inr retType \<Rightarrow> Inr (Func_s params retType))"
| "typecheck_seq2 (Scall func args) tyEnv =
     (case typecheck_seq2 func tyEnv of
        Inl e \<Rightarrow> Inl e
      | Inr funcTy \<Rightarrow>
          (case funcTy of
             Null_s \<Rightarrow> Inl TypeError
           | Func_s params retType \<Rightarrow>
               if length params \<noteq> length args
               then Inl (Error ''wrong number of arguments'')
               else (case typecheck_args_seq2 args params tyEnv of
                 Inl e \<Rightarrow> Inl e
               | Inr _ \<Rightarrow> Inr retType)
           | _ \<Rightarrow> Inl (Error ''function type expected'')))"
| "typecheck_seq2 (Sseq body rest) tyEnv =
     (case typecheck_seq2 body tyEnv of
        Inl e \<Rightarrow> Inl e
      | Inr _ \<Rightarrow> typecheck_seq2 rest tyEnv)"
| "typecheck_seq2 (Sseq2 body) tyEnv = typecheck_body body tyEnv Null_s"
| "typecheck_seq2 (Sconst name init rest) tyEnv =
     (case typecheck_seq2 init tyEnv of
        Inl e \<Rightarrow> Inl e
      | Inr ty \<Rightarrow> typecheck_seq2 rest (tyEnv(name \<mapsto> ty)))"
| "typecheck_seq2 (Sconst2 name init) tyEnv = Inl (Error ''not implemented yet'')"
| "typecheck_args_seq2 (arg # args) (param # params) tyEnv =
     (case typecheck_seq2 arg tyEnv of
        Inl e \<Rightarrow> Inl e
      | Inr argTy \<Rightarrow>
          (case typeEq_seq2 argTy (snd param) of
             Inl e \<Rightarrow> Inl e
           | Inr ok \<Rightarrow>
               if \<not> ok then Inl (Error ''parameter type mismatch'')
               else typecheck_args_seq2 args params tyEnv))"
| "typecheck_args_seq2 args params tyEnv = Inr ()"
| "typecheck_body [] tyEnv lastTy = Inr lastTy"
| "typecheck_body (Sconst2 name init # body) tyEnv lastTy =
     (case typecheck_seq2 init tyEnv of
        Inl e \<Rightarrow> Inl e
      | Inr ty \<Rightarrow> typecheck_body body (tyEnv(name \<mapsto> ty)) lastTy)"
| "typecheck_body (term # body) tyEnv lastTy =
     (case typecheck_seq2 term tyEnv of
        Inl e \<Rightarrow> Inl e
      | Inr ty \<Rightarrow> typecheck_body body tyEnv ty)"

section \<open>The seq2/const2 variant: bindings and sequences\<close>

text \<open>
  A sequence made of \<open>const2\<close> bindings only never assigns \<open>lastTy\<close>: whenever the loop
  returns, it returns the \<open>lastTy\<close> it started with.
\<close>

lemma typecheck_body_only_bindings:
  "(\<forall>s \<in> set body. \<exists>name init. s = Sconst2 name init) \<Longrightarrow>
   typecheck_body body tyEnv lastTy = Inr ty \<Longrightarrow> ty = lastTy"
  by (induction body arbitrary: tyEnv) (auto split: sum.splits)

lemma typecheck_seq2_only_bindings:
  "(\<forall>s \<in> set body. \<exists>name init. s = Sconst2 name init) \<Longrightarrow>
   typecheck_seq2 (Sseq2 body) tyEnv = Inr ty \<Longrightarrow> ty = Null_s"
  using typecheck_body_only_bindings [of body tyEnv Null_s ty] by simp

text \<open>
  Claim C1. For a \<open>seq2\<close> term with no non-binding statement the claim expects
  \<open>typecheck\<close> to fail with an error. The source instead returns normally, and what it
  returns is not a type but the \<open>null\<close> that \<open>lastTy\<close> was initialised with: here for
  the empty sequence and for the sequence \<open>[const2 x = 1]\<close>, both in the empty
  environment.
\<close>

theorem C1_seq2_without_result_returns_null:
  "typecheck_seq2 (Sseq2 []) Map.empty = Inr Null_s \<and>
   typecheck_seq2 (Sseq2 [Sconst2 ''x'' (Snumber 1)]) Map.empty = Inr Null_s"
  by simp

text \<open>
  Claim C9. In the seq2/const2 variant a \<open>const2\<close> term handed to \<open>typecheck\<close> itself,
  rather than met by the loop of a \<open>seq2\<close> case, matches no case of the \<open>switch\<close> and
  fails with the error "not implemented yet", whatever its name, its initialiser and
  the environment are. As an element of a \<open>seq2\<close> body it is consumed by the loop: its
  initialiser is checked and the rest of the body is checked with the name bound.
\<close>

theorem C9_const2_outside_seq2_not_implemented:
  "typecheck_seq2 (Sconst2 name init) tyEnv = Inl (Error ''not implemented yet'') \<and>
   typecheck_seq2 (Sseq2 (Sconst2 name init # body)) tyEnv =
     (case typecheck_seq2 init tyEnv of
        Inl e \<Rightarrow> Inl e
      | Inr ty \<Rightarrow> typecheck_seq2 (Sseq2 body) (tyEnv(name \<mapsto> ty)))"
  by (simp split: sum.split)

section \<open>The conditional (src/basic.ts, lines 59-69; src/arith.ts, lines 19-31)\<close>

text \<open>
  A conditional has a type exactly when its condition has the type Boolean and its two
  branches have types that are equal; the type is then the one of the first branch.
\<close>

lemma if_basic_Inr_iff:
  "typecheck_basic (Bif cond thn els) tyEnv = Inr ty \<longleftrightarrow>
     typecheck_basic cond tyEnv = Inr Boolean_b \<and> typecheck_basic thn tyEnv = Inr ty \<and>
     (\<exists>elsTy. typecheck_basic els tyEnv = Inr elsTy \<and> typeEq_basic ty elsTy)"
  by (auto split: sum.splits if_splits)

lemma if_arith_Inr_iff:
  "typecheck_arith (Aif cond thn els) = Inr ty \<longleftrightarrow>
     typecheck_arith cond = Inr Boolean_a \<and> typecheck_arith thn = Inr ty \<and>
     typecheck_arith els = Inr ty"
  by (auto split: sum.splits if_splits)

text \<open>In every other case it fails, and this is the error it fails with.\<close>

lemma if_basic_cond_fails:
  "typecheck_basic cond tyEnv = Inl err \<Longrightarrow> typecheck_basic (Bif cond thn els) tyEnv = Inl err"
  by simp

lemma if_basic_boolean_expected:
  "typecheck_basic cond tyEnv = Inr condTy \<Longrightarrow> condTy \<noteq> Boolean_b \<Longrightarrow>
   typecheck_basic (Bif cond thn els) tyEnv = Inl (Str ''boolean expected'')"
  by simp

lemma if_basic_thn_fails:
  "typecheck_basic cond tyEnv = Inr Boolean_b \<Longrightarrow> typecheck_basic thn tyEnv = Inl err \<Longrightarrow>
   typecheck_basic (Bif cond thn els) tyEnv = Inl err"
  by simp

lemma if_basic_els_fails:
  "typecheck_basic cond tyEnv = Inr Boolean_b \<Longrightarrow> typecheck_basic thn tyEnv = Inr thnTy \<Longrightarrow>
   typecheck_basic els tyEnv = Inl err \<Longrightarrow>
   typecheck_basic (Bif cond thn els) tyEnv = Inl err"
  by simp

lemma if_basic_mismatch:
  "typecheck_basic cond tyEnv = Inr Boolean_b \<Longrightarrow> typecheck_basic thn tyEnv = Inr thnTy \<Longrightarrow>
   typecheck_basic els tyEnv = Inr elsTy \<Longrightarrow> \<not> typeEq_basic thnTy elsTy \<Longrightarrow>
   typecheck_basic (Bif cond thn els) tyEnv = Inl (Str ''then and else must have the same type'')"
  by simp

lemma if_arith_cond_fails:
  "typecheck_arith cond = Inl err \<Longrightarrow> typecheck_arith (Aif cond thn els) = Inl err"
  by simp

lemma if_arith_boolean_expected:
  "typecheck_arith cond = Inr condTy \<Longrightarrow> condTy \<noteq> Boolean_a \<Longrightarrow>
   typecheck_arith (Aif cond thn els) = Inl (Str ''boolean expected'')"
  by simp

lemma if_arith_thn_fails:
  "typecheck_arith cond = Inr Boolean_a \<Longrightarrow> typecheck_arith thn = Inl err \<Longrightarrow>
   typecheck_arith (Aif cond thn els) = Inl err"
  by simp

lemma if_arith_els_fails:
  "typecheck_arith cond = Inr Boolean_a \<Longrightarrow> typecheck_arith thn = Inr thnTy \<Longrightarrow>
   typecheck_arith els = Inl err \<Longrightarrow>
   typecheck_arith (Aif cond thn els) = Inl err"
  by simp

lemma if_arith_mismatch:
  "typecheck_arith cond = Inr Boolean_a \<Longrightarrow> typecheck_arith thn = Inr thnTy \<Longrightarrow>
   typecheck_arith els = Inr elsTy \<Longrightarrow> thnTy \<noteq> elsTy \<Longrightarrow>
   typecheck_arith (Aif cond thn els) = Inl (Str ''then and else have different types'')"
  by simp

text \<open>
  Claim C6. For every conditional \<open>if(c, t, e)\<close> and every environment, in the function
  variant and in the arithmetic variant (which has no environment, and compares the
  tags of the two branch types where the function variant calls \<open>typeEq\<close>): the check
  returns a type exactly when \<open>c\<close> has the type Boolean and \<open>t\<close> and \<open>e\<close> have types that
  are equal, and the type it returns is the type of \<open>t\<close>; in every other case it fails.
  It fails with the error of \<open>c\<close> when \<open>c\<close> fails, with "boolean expected" when \<open>c\<close> has
  another type than Boolean, whatever \<open>t\<close> and \<open>e\<close> are; otherwise with the error of \<open>t\<close>
  when \<open>t\<close> fails, otherwise with the error of \<open>e\<close> when \<open>e\<close> fails, and otherwise with
  the then/else mismatch error when the two branch types are not equal.
\<close>

theorem C6_if_rule:
  "(typecheck_basic (Bif cond thn els) tyEnv = Inr ty \<longleftrightarrow>
      typecheck_basic cond tyEnv = Inr Boolean_b \<and> typecheck_basic thn tyEnv = Inr ty \<and>
      (\<exists>elsTy. typecheck_basic els tyEnv = Inr elsTy \<and> typeEq_basic ty elsTy)) \<and>
   (\<not> (typecheck_basic cond tyEnv = Inr Boolean_b \<and>
        (\<exists>thnTy elsTy. typecheck_basic thn tyEnv = Inr thnTy \<and>
           typecheck_basic els tyEnv = Inr elsTy \<and> typeEq_basic thnTy elsTy)) \<longrightarrow>
      (\<exists>e. typecheck_basic (Bif cond thn els) tyEnv = Inl e)) \<and>
   (typecheck_basic cond tyEnv = Inl err \<longrightarrow>
      typecheck_basic (Bif cond thn els) tyEnv = Inl err) \<and>
   (typecheck_basic cond tyEnv = Inr condTy \<and> condTy \<noteq> Boolean_b \<longrightarrow>
      typecheck_basic (Bif cond thn els) tyEnv = Inl (Str ''boolean expected'')) \<and>
   (typecheck_basic cond tyEnv = Inr Boolean_b \<and> typecheck_basic thn tyEnv = Inl err \<longrightarrow>
      typecheck_basic (Bif cond thn els) tyEnv = Inl err) \<and>
   (typecheck_basic cond tyEnv = Inr Boolean_b \<and> typecheck_basic thn tyEnv = Inr thnTy \<and>
    typecheck_basic els tyEnv = Inl err \<longrightarrow>
      typecheck_basic (Bif cond thn els) tyEnv = Inl err) \<and>
   (typecheck_basic cond tyEnv = Inr Boolean_b \<and> typecheck_basic thn tyEnv = Inr thnTy \<and>
    typecheck_basic els tyEnv = Inr elsTy \<and> \<not> typeEq_basic thnTy elsTy \<longrightarrow>
      typecheck_basic (Bif cond thn els) tyEnv =
        Inl (Str ''then and else must have the same type'')) \<and>
   (typecheck_arith (Aif acond athn aels) = Inr aty \<longleftrightarrow>
      typecheck_arith acond = Inr Boolean_a \<and> typecheck_arith athn = Inr aty \<and>
      typecheck_arith aels = Inr aty) \<and>
   (\<not> (typecheck_arith acond = Inr Boolean_a \<and>
        (\<exists>thnTy. typecheck_arith athn = Inr thnTy \<and> typecheck_arith aels = Inr thnTy)) \<longrightarrow>
      (\<exists>e. typecheck_arith (Aif acond athn aels) = Inl e)) \<and>
   (typecheck_arith acond = Inl aerr \<longrightarrow>
      typecheck_arith (Aif acond athn aels) = Inl aerr) \<and>
   (typecheck_arith acond = Inr acondTy \<and> acondTy \<noteq> Boolean_a \<longrightarrow>
      typecheck_arith (Aif acond athn aels) = Inl (Str ''boolean expected'')) \<and>
   (typecheck_arith acond = Inr Boolean_a \<and> typecheck_arith athn = Inl aerr \<longrightarrow>
      typecheck_arith (Aif acond athn aels) = Inl aerr) \<and>
   (typecheck_arith acond = Inr Boolean_a \<and> typecheck_arith athn = Inr athnTy \<and>
    typecheck_arith aels = Inl aerr \<longrightarrow>
      typecheck_arith (Aif acond athn aels) = Inl aerr) \<and>
   (typecheck_arith acond = Inr Boolean_a \<and> typecheck_arith athn = Inr athnTy \<and>
    typecheck_arith aels = Inr aelsTy \<and> athnTy \<noteq> aelsTy \<longrightarrow>
      typecheck_arith (Aif acond athn aels) = Inl (Str ''then and else have different types''))"
proof (intro conjI)
  show "typecheck_basic (Bif cond thn els) tyEnv = Inr ty \<longleftrightarrow>
      typecheck_basic cond tyEnv = Inr Boolean_b \<and> typecheck_basic thn tyEnv = Inr ty \<and>
      (\<exists>elsTy. typecheck_basic els tyEnv = Inr elsTy \<and> typeEq_basic ty elsTy)"
    by (rule if_basic_Inr_iff)
  show "\<not> (typecheck_basic cond tyEnv = Inr Boolean_b \<and>
        (\<exists>thnTy elsTy. typecheck_basic thn tyEnv = Inr thnTy \<and>
           typecheck_basic els tyEnv = Inr elsTy \<and> typeEq_basic thnTy elsTy)) \<longrightarrow>
      (\<exists>e. typecheck_basic (Bif cond thn els) tyEnv = Inl e)"
  proof
    assume no: "\<not> (typecheck_basic cond tyEnv = Inr Boolean_b \<and>
        (\<exists>thnTy elsTy. typecheck_basic thn tyEnv = Inr thnTy \<and>
           typecheck_basic els tyEnv = Inr elsTy \<and> typeEq_basic thnTy elsTy))"
    show "\<exists>e. typecheck_basic (Bif cond thn els) tyEnv = Inl e"
    proof (cases "typecheck_basic (Bif cond thn els) tyEnv")
      case (Inl e)
      then show ?thesis by blast
    next
      case (Inr ty')
      then have "typecheck_basic cond tyEnv = Inr Boolean_b \<and>
          typecheck_basic thn tyEnv = Inr ty' \<and>
          (\<exists>elsTy. typecheck_basic els tyEnv = Inr elsTy \<and> typeEq_basic ty' elsTy)"
        by (simp only: if_basic_Inr_iff)
      with no show ?thesis by blast
    qed
  qed
  show "typecheck_basic cond tyEnv = Inl err \<longrightarrow>
      typecheck_basic (Bif cond thn els) tyEnv = Inl err"
    using if_basic_cond_fails by blast
  show "typecheck_basic cond tyEnv = Inr condTy \<and> condTy \<noteq> Boolean_b \<longrightarrow>
      typecheck_basic (Bif cond thn els) tyEnv = Inl (Str ''boolean expected'')"
    using if_basic_boolean_expected by blast
  show "typecheck_basic cond tyEnv = Inr Boolean_b \<and> typecheck_basic thn tyEnv = Inl err \<longrightarrow>
      typecheck_basic (Bif cond thn els) tyEnv = Inl err"
    using if_basic_thn_fails by blast
  show "typecheck_basic cond tyEnv = Inr Boolean_b \<and> typecheck_basic thn tyEnv = Inr thnTy \<and>
    typecheck_basic els tyEnv = Inl err \<longrightarrow>
      typecheck_basic (Bif cond thn els) tyEnv = Inl err"
    using if_basic_els_fails by blast
  show "typecheck_basic cond tyEnv = Inr Boolean_b \<and> typecheck_basic thn tyEnv = Inr thnTy \<and>
    typecheck_basic els tyEnv = Inr elsTy \<and> \<not> typeEq_basic thnTy elsTy \<longrightarrow>
      typecheck_basic (Bif cond thn els) tyEnv =
        Inl (Str ''then and else must have the same type'')"
    using if_basic_mismatch by blast
  show "typecheck_arith (Aif acond athn aels) = Inr aty \<longleftrightarrow>
      typecheck_arith acond = Inr Boolean_a \<and> typecheck_arith athn = Inr aty \<and>
      typecheck_arith aels = Inr aty"
    by (rule if_arith_Inr_iff)
  show "\<not> (typecheck_arith acond = Inr Boolean_a \<and>
        (\<exists>thnTy. typecheck_arith athn = Inr thnTy \<and> typecheck_arith aels = Inr thnTy)) \<longrightarrow>
      (\<exists>e. typecheck_arith (Aif acond athn aels) = Inl e)"
  proof
    assume no: "\<not> (typecheck_arith acond = Inr Boolean_a \<and>
        (\<exists>thnTy. typecheck_arith athn = Inr thnTy \<and> typecheck_arith aels = Inr thnTy))"
    show "\<exists>e. typecheck_arith (Aif acond athn aels) = Inl e"
    proof (cases "typecheck_arith (Aif acond athn aels)")
      case (Inl e)
      then show ?thesis by blast
    next
      case (Inr ty')
      then have "typecheck_arith acond = Inr Boolean_a \<and> typecheck_arith athn = Inr ty' \<and>
          typecheck_arith aels = Inr ty'"
        by (simp only: if_arith_Inr_iff)
      with no show ?thesis by blast
    qed
  qed
  show "typecheck_arith acond = Inl aerr \<longrightarrow>
      typecheck_arith (Aif acond athn aels) = Inl aerr"
    using if_arith_cond_fails by blast
  show "typecheck_arith acond = Inr acondTy \<and> acondTy \<noteq> Boolean_a \<longrightarrow>
      typecheck_arith (Aif acond athn aels) = Inl (Str ''boolean expected'')"
    using if_arith_boolean_expected by blast
  show "typecheck_arith acond = Inr Boolean_a \<and> typecheck_arith athn = Inl aerr \<longrightarrow>
      typecheck_arith (Aif acond athn aels) = Inl aerr"
    using if_arith_thn_fails by blast
  show "typecheck_arith acond = Inr Boolean_a \<and> typecheck_arith athn = Inr athnTy \<and>
    typecheck_arith aels = Inl aerr \<longrightarrow>
      typecheck_arith (Aif acond athn aels) = Inl aerr"
    using if_arith_els_fails by blast
  show "typecheck_arith acond = Inr Boolean_a \<and> typecheck_arith athn = Inr athnTy \<and>
    typecheck_arith aels = Inr aelsTy \<and> athnTy \<noteq> aelsTy \<longrightarrow>
      typecheck_arith (Aif acond athn aels) = Inl (Str ''then and else have different types'')"
    using if_arith_mismatch by blast
qed

theorem C6_if_rule_witness:
  "typecheck_basic (Bif (Badd Btrue (Bnumber 1)) (Bnumber 1) (Bnumber 2)) Map.empty =
     Inl (Str ''number expected'') \<and>
   typecheck_basic (Bif (Bnumber 0) Btrue (Bvar ''x'')) Map.empty = Inl (Str ''boolean expected'') \<and>
   typecheck_basic (Bif Btrue (Bvar ''x'') (Bnumber 1)) Map.empty =
     Inl (Error ''unknown variable: x'') \<and>
   typecheck_basic (Bif Btrue (Bnumber 1) (Bvar ''x'')) Map.empty =
     Inl (Error ''unknown variable: x'') \<and>
   typecheck_basic (Bif Btrue (Bnumber 1) Bfalse) Map.empty =
     Inl (Str ''then and else must have the same type'') \<and>
   typecheck_basic (Bif Btrue (Bvar ''f'') (Bfunc [(''y'', Number_b)] (Bvar ''y'')))
       [''f'' \<mapsto> Func_b [(''x'', Number_b)] Number_b] =
     Inr (Func_b [(''x'', Number_b)] Number_b) \<and>
   (\<exists>e. typecheck_basic (Bif Btrue (Bnumber 1) (Badd Btrue (Bnumber 1))) Map.empty = Inl e) \<and>
   typecheck_arith (Aif (Aadd Atrue (Anumber 1)) (Anumber 1) (Anumber 2)) =
     Inl (Str ''number expected'') \<and>
   typecheck_arith (Aif (Anumber 0) Atrue Afalse) = Inl (Str ''boolean expected'') \<and>
   typecheck_arith (Aif Atrue (Aadd Atrue (Anumber 1)) (Anumber 1)) =
     Inl (Str ''number expected'') \<and>
   typecheck_arith (Aif Atrue (Anumber 1) (Aadd Atrue (Anumber 1))) =
     Inl (Str ''number expected'') \<and>
   typecheck_arith (Aif Atrue (Anumber 1) Afalse) =
     Inl (Str ''then and else have different types'') \<and>
   typecheck_arith (Aif Atrue (Anumber 1) (Anumber 2)) = Inr Number_a \<and>
   (\<exists>e. typecheck_arith (Aif (Aadd Atrue (Anumber 1)) (Anumber 1) (Anumber 2)) = Inl e)"
proof -
  let ?env = "[''f'' \<mapsto> Func_b [(''x'', Number_b)] Number_b]"
  have b3: "typecheck_basic (Bif (Badd Btrue (Bnumber 1)) (Bnumber 1) (Bnumber 2)) Map.empty =
      Inl (Str ''number expected'')"
    by (rule C6_if_rule [where cond = "Badd Btrue (Bnumber 1)" and tyEnv = Map.empty
          and err = "Str ''number expected''" and thn = "Bnumber 1" and els = "Bnumber 2",
          THEN conjunct2, THEN conjunct2, THEN conjunct1, THEN mp])
      simp
  have b4: "typecheck_basic (Bif (Bnumber 0) Btrue (Bvar ''x'')) Map.empty =
      Inl (Str ''boolean expected'')"
    by (rule C6_if_rule [where cond = "Bnumber 0" and tyEnv = Map.empty and condTy = Number_b
          and thn = Btrue and els = "Bvar ''x''", THEN conjunct2, THEN conjunct2, THEN conjunct2, THEN conjunct1, THEN mp])
      simp
  have b5: "typecheck_basic (Bif Btrue (Bvar ''x'') (Bnumber 1)) Map.empty =
      Inl (Error ''unknown variable: x'')"
    by (rule C6_if_rule [where cond = Btrue and tyEnv = Map.empty and thn = "Bvar ''x''"
          and els = "Bnumber 1" and err = "Error ''unknown variable: x''", THEN conjunct2, THEN conjunct2, THEN conjunct2, THEN conjunct2, THEN conjunct1, THEN mp])
      simp
  have b6: "typecheck_basic (Bif Btrue (Bnumber 1) (Bvar ''x'')) Map.empty =
      Inl (Error ''unknown variable: x'')"
    by (rule C6_if_rule [where cond = Btrue and tyEnv = Map.empty and thn = "Bnumber 1"
          and thnTy = Number_b and els = "Bvar ''x''" and err = "Error ''unknown variable: x''",
          THEN conjunct2, THEN conjunct2, THEN conjunct2, THEN conjunct2, THEN conjunct2, THEN conjunct1, THEN mp])
      simp
  have b7: "typecheck_basic (Bif Btrue (Bnumber 1) Bfalse) Map.empty =
      Inl (Str ''then and else must have the same type'')"
    by (rule C6_if_rule [where cond = Btrue and tyEnv = Map.empty and thn = "Bnumber 1"
          and thnTy = Number_b and els = Bfalse and elsTy = Boolean_b, THEN conjunct2, THEN conjunct2, THEN conjunct2, THEN conjunct2, THEN conjunct2, THEN conjunct2, THEN conjunct1, THEN mp])
      simp
  have b1: "typecheck_basic (Bif Btrue (Bvar ''f'') (Bfunc [(''y'', Number_b)] (Bvar ''y''))) ?env =
      Inr (Func_b [(''x'', Number_b)] Number_b)"
    by (rule C6_if_rule [where cond = Btrue and tyEnv = ?env and thn = "Bvar ''f''"
          and els = "Bfunc [(''y'', Number_b)] (Bvar ''y'')"
          and ty = "Func_b [(''x'', Number_b)] Number_b", THEN conjunct1, THEN iffD2])
      (simp add: extend_params_basic_def)
  have b2: "\<exists>e. typecheck_basic (Bif Btrue (Bnumber 1) (Badd Btrue (Bnumber 1))) Map.empty = Inl e"
    by (rule C6_if_rule [where cond = Btrue and tyEnv = Map.empty and thn = "Bnumber 1"
          and els = "Badd Btrue (Bnumber 1)", THEN conjunct2, THEN conjunct1, THEN mp])
      simp
  have a10: "typecheck_arith (Aif (Aadd Atrue (Anumber 1)) (Anumber 1) (Anumber 2)) =
      Inl (Str ''number expected'')"
    by (rule C6_if_rule [where acond = "Aadd Atrue (Anumber 1)" and aerr = "Str ''number expected''"
          and athn = "Anumber 1" and aels = "Anumber 2", THEN conjunct2, THEN conjunct2, THEN conjunct2, THEN conjunct2, THEN conjunct2, THEN conjunct2, THEN conjunct2, THEN conjunct2, THEN conjunct2, THEN conjunct1, THEN mp])
      simp
  have a11: "typecheck_arith (Aif (Anumber 0) Atrue Afalse) = Inl (Str ''boolean expected'')"
    by (rule C6_if_rule [where acond = "Anumber 0" and acondTy = Number_a
          and athn = Atrue and aels = Afalse, THEN conjunct2, THEN conjunct2, THEN conjunct2, THEN conjunct2, THEN conjunct2, THEN conjunct2, THEN conjunct2, THEN conjunct2, THEN conjunct2, THEN conjunct2, THEN conjunct1, THEN mp])
      simp
  have a12: "typecheck_arith (Aif Atrue (Aadd Atrue (Anumber 1)) (Anumber 1)) =
      Inl (Str ''number expected'')"
    by (rule C6_if_rule [where acond = Atrue and athn = "Aadd Atrue (Anumber 1)"
          and aels = "Anumber 1" and aerr = "Str ''number expected''", THEN conjunct2, THEN conjunct2, THEN conjunct2, THEN conjunct2, THEN conjunct2, THEN conjunct2, THEN conjunct2, THEN conjunct2, THEN conjunct2, THEN conjunct2, THEN conjunct2, THEN conjunct1, THEN mp])
      simp
  have a13: "typecheck_arith (Aif Atrue (Anumber 1) (Aadd Atrue (Anumber 1))) =
      Inl (Str ''number expected'')"
    by (rule C6_if_rule [where acond = Atrue and athn = "Anumber 1" and athnTy = Number_a
          and aels = "Aadd Atrue (Anumber 1)" and aerr = "Str ''number expected''",
          THEN conjunct2, THEN conjunct2, THEN conjunct2, THEN conjunct2, THEN conjunct2, THEN conjunct2, THEN conjunct2, THEN conjunct2, THEN conjunct2, THEN conjunct2, THEN conjunct2, THEN conjunct2, THEN conjunct1, THEN mp])
      simp
  have a14: "typecheck_arith (Aif Atrue (Anumber 1) Afalse) =
      Inl (Str ''then and else have different types'')"
    by (rule C6_if_rule [where acond = Atrue and athn = "Anumber 1" and athnTy = Number_a
          and aels = Afalse and aelsTy = Boolean_a, THEN conjunct2, THEN conjunct2, THEN conjunct2, THEN conjunct2, THEN conjunct2, THEN conjunct2, THEN conjunct2, THEN conjunct2, THEN conjunct2, THEN conjunct2, THEN conjunct2, THEN conjunct2, THEN conjunct2, THEN mp])
      simp
  have a8: "typecheck_arith (Aif Atrue (Anumber 1) (Anumber 2)) = Inr Number_a"
    by (rule C6_if_rule [where acond = Atrue and athn = "Anumber 1" and aels = "Anumber 2"
          and aty = Number_a, THEN conjunct2, THEN conjunct2, THEN conjunct2, THEN conjunct2, THEN conjunct2, THEN conjunct2, THEN conjunct2, THEN conjunct1, THEN iffD2])
      simp
  have a9: "\<exists>e. typecheck_arith (Aif (Aadd Atrue (Anumber 1)) (Anumber 1) (Anumber 2)) = Inl e"
    by (rule C6_if_rule [where acond = "Aadd Atrue (Anumber 1)" and athn = "Anumber 1"
          and aels = "Anumber 2", THEN conjunct2, THEN conjunct2, THEN conjunct2, THEN conjunct2, THEN conjunct2, THEN conjunct2, THEN conjunct2, THEN conjunct2, THEN conjunct1, THEN mp])
      simp
  show ?thesis
    by (intro conjI) (fact b1 b2 b3 b4 b5 b6 b7 a8 a9 a10 a11 a12 a13 a14)+
qed

section \<open>Equality of function types (src/basic.ts, lines 36-49)\<close>

text \<open>The loop over the parameter positions, read position by position.\<close>

lemma typeEq_params_basic_nth:
  "length params1 = length params2 \<Longrightarrow>
   typeEq_params_basic params1 params2 =
     (\<forall>i < length params1. typeEq_basic (snd (params1 ! i)) (snd (params2 ! i)))"
proof (induction params1 params2 rule: list_induct2)
  case Nil
  then show ?case by simp
next
  case (Cons p1 ps1 p2 ps2)
  obtain n1 t1 n2 t2 where p: "p1 = (n1, t1)" "p2 = (n2, t2)"
    by (cases p1, cases p2) auto
  show ?case
    using Cons.IH by (auto simp: p All_less_Suc2)
qed

lemma typeEq_params_basic_refl_aux:
  "\<forall>p \<in> set params. typeEq_basic (snd p) (snd p) \<Longrightarrow>
   typeEq_params_basic params params"
proof (induction params)
  case Nil
  then show ?case by simp
next
  case (Cons p ps)
  then show ?case by (cases p) simp
qed

text \<open>This variant has no object types, and its \<open>typeEq\<close> is reflexive.\<close>

lemma typeEq_basic_refl: "typeEq_basic ty ty"
proof (induction ty)
  case (Func_b params retType)
  have "\<forall>p \<in> set params. typeEq_basic (snd p) (snd p)"
    using Func_b.IH(1) by (auto simp: snds.simps)
  then have "typeEq_params_basic params params"
    by (rule typeEq_params_basic_refl_aux)
  with Func_b.IH(2) show ?case by simp
qed simp_all

lemma typeEq_params_basic_names:
  "map snd params1 = map snd params2 \<Longrightarrow> typeEq_params_basic params1 params2"
proof (induction params1 arbitrary: params2)
  case Nil
  then show ?case by simp
next
  case (Cons p ps)
  then obtain q qs where q: "params2 = q # qs" by (cases params2) auto
  with Cons show ?case
    by (cases p, cases q) (auto simp: typeEq_basic_refl)
qed

text \<open>
  Claim C8. \<open>typeEq(ty1, ty2)\<close> with \<open>ty2\<close> a \<open>Func\<close> is true exactly when \<open>ty1\<close> is a
  \<open>Func\<close> too, both have the same number of parameters, the parameter types are
  \<open>typeEq\<close> position by position (the names are not looked at), and the return types
  are \<open>typeEq\<close>. In particular two \<open>Func\<close> types whose parameter lists carry the same
  types in the same order, under whatever names, and the same return type are \<open>typeEq\<close>.
\<close>

theorem C8_typeEq_func:
  "typeEq_basic tyA (Func_b paramsB retTypeB) =
     (\<exists>params1 retType1.
        tyA = Func_b params1 retType1 \<and>
        length params1 = length paramsB \<and>
        (\<forall>i < length params1. typeEq_basic (snd (params1 ! i)) (snd (paramsB ! i))) \<and>
        typeEq_basic retType1 retTypeB) \<and>
   (map snd paramsA = map snd paramsB \<longrightarrow>
      typeEq_basic (Func_b paramsA retTypeB) (Func_b paramsB retTypeB))"
proof (intro conjI impI)
  show "typeEq_basic tyA (Func_b paramsB retTypeB) =
     (\<exists>params1 retType1.
        tyA = Func_b params1 retType1 \<and>
        length params1 = length paramsB \<and>
        (\<forall>i < length params1. typeEq_basic (snd (params1 ! i)) (snd (paramsB ! i))) \<and>
        typeEq_basic retType1 retTypeB)"
    by (cases tyA) (auto simp: typeEq_params_basic_nth)
next
  assume names: "map snd paramsA = map snd paramsB"
  then have "length paramsA = length paramsB"
    by (rule map_eq_imp_length_eq)
  with names show "typeEq_basic (Func_b paramsA retTypeB) (Func_b paramsB retTypeB)"
    by (simp add: typeEq_params_basic_names typeEq_basic_refl)
qed

theorem C8_typeEq_func_witness:
  "map snd [(''x'', Number_b), (''y'', Boolean_b)] = map snd [(''a'', Number_b), (''b'', Boolean_b)] \<and>
   typeEq_basic (Func_b [(''x'', Number_b), (''y'', Boolean_b)] Number_b)
                (Func_b [(''a'', Number_b), (''b'', Boolean_b)] Number_b) \<and>
   \<not> typeEq_basic (Func_b [(''x'', Boolean_b), (''y'', Number_b)] Number_b)
                  (Func_b [(''x'', Number_b), (''y'', Boolean_b)] Number_b) \<and>
   \<not> typeEq_basic Number_b (Func_b [] Number_b)"
proof -
  have same: "map snd [(''x'', Number_b), (''y'', Boolean_b)] =
      map snd [(''a'', Number_b), (''b'', Boolean_b)]"
    by simp
  have "typeEq_basic (Func_b [(''x'', Number_b), (''y'', Boolean_b)] Number_b)
                (Func_b [(''a'', Number_b), (''b'', Boolean_b)] Number_b)"
    using C8_typeEq_func [where paramsA = "[(''x'', Number_b), (''y'', Boolean_b)]"
        and paramsB = "[(''a'', Number_b), (''b'', Boolean_b)]" and retTypeB = Number_b] same
    by blast
  moreover have "\<not> typeEq_basic (Func_b [(''x'', Boolean_b), (''y'', Number_b)] Number_b)
                  (Func_b [(''x'', Number_b), (''y'', Boolean_b)] Number_b)"
    using C8_typeEq_func [where tyA = "Func_b [(''x'', Boolean_b), (''y'', Number_b)] Number_b"
        and paramsB = "[(''x'', Number_b), (''y'', Boolean_b)]" and retTypeB = Number_b]
    by simp
  moreover have "\<not> typeEq_basic Number_b (Func_b [] Number_b)"
    using C8_typeEq_func [where tyA = Number_b and paramsB = "[]" and retTypeB = Number_b]
    by simp
  ultimately show ?thesis using same by blast
qed

section \<open>Calls (src/basic.ts, lines 98-116; src/obj.ts, lines 138-156)\<close>

text \<open>
  The loop over the arguments returns normally exactly when every argument, from left to
  right, has a type that is \<open>typeEq\<close> to the parameter type at its position.
\<close>

lemma typecheck_args_basic_Inr_iff:
  "length args = length params \<Longrightarrow>
   typecheck_args_basic args params tyEnv = Inr u \<longleftrightarrow>
     (\<forall>i < length args. \<exists>ty. typecheck_basic (args ! i) tyEnv = Inr ty \<and>
        typeEq_basic ty (snd (params ! i)))"
proof (induction args params rule: list_induct2)
  case Nil
  then show ?case by simp
next
  case (Cons a as p ps)
  show ?case
  proof (cases "typecheck_basic a tyEnv")
    case (Inl e)
    then show ?thesis by auto
  next
    case (Inr ty)
    with Cons.IH show ?thesis by (auto simp: All_less_Suc2)
  qed
qed

lemma typecheck_args_Inr_iff:
  "length args = length params \<Longrightarrow>
   typecheck_args args params tyEnv t = Inr u \<longleftrightarrow>
     (\<forall>i < length args. \<exists>ty. typecheck (args ! i) tyEnv = Inr ty \<and>
        typeEq ty (snd (params ! i)))"
proof (induction args params rule: list_induct2)
  case Nil
  then show ?case by simp
next
  case (Cons a as p ps)
  show ?case
  proof (cases "typecheck a tyEnv")
    case (Inl e)
    then show ?thesis by auto
  next
    case (Inr ty)
    with Cons.IH show ?thesis by (auto simp: All_less_Suc2)
  qed
qed

text \<open>
  Otherwise the loop stops at the first argument, from the left, that fails to check or
  whose type is not \<open>typeEq\<close> to its parameter type: it throws the error of that
  argument in the first case and the mismatch error in the second. The arguments behind
  it are never checked.
\<close>

lemma typecheck_args_basic_first_bad:
  "length args = length params \<Longrightarrow> i < length args \<Longrightarrow>
   \<forall>j < i. \<exists>ty. typecheck_basic (args ! j) tyEnv = Inr ty \<and> typeEq_basic ty (snd (params ! j)) \<Longrightarrow>
   typecheck_args_basic args params tyEnv =
     (case typecheck_basic (args ! i) tyEnv of
        Inl e \<Rightarrow> Inl e
      | Inr argTy \<Rightarrow>
          if \<not> typeEq_basic argTy (snd (params ! i)) then Inl (Error ''parameter type mismatch'')
          else typecheck_args_basic (drop (Suc i) args) (drop (Suc i) params) tyEnv)"
proof (induction args params arbitrary: i rule: list_induct2)
  case Nil
  then show ?case by simp
next
  case (Cons a as p ps)
  show ?case
  proof (cases i)
    case 0
    then show ?thesis by (simp split: sum.split)
  next
    case (Suc k)
    from Cons.prems(2) Suc obtain ty0 where
      a: "typecheck_basic a tyEnv = Inr ty0" and ok: "typeEq_basic ty0 (snd p)"
      by (metis nth_Cons_0 zero_less_Suc)
    have "typecheck_args_basic as ps tyEnv =
        (case typecheck_basic (as ! k) tyEnv of
           Inl e \<Rightarrow> Inl e
         | Inr argTy \<Rightarrow>
             if \<not> typeEq_basic argTy (snd (ps ! k)) then Inl (Error ''parameter type mismatch'')
             else typecheck_args_basic (drop (Suc k) as) (drop (Suc k) ps) tyEnv)"
    proof (rule Cons.IH)
      show "k < length as" using Cons.prems(1) Suc by simp
      show "\<forall>j<k. \<exists>ty. typecheck_basic (as ! j) tyEnv = Inr ty \<and> typeEq_basic ty (snd (ps ! j))"
        using Cons.prems(2) Suc by (metis Suc_less_eq nth_Cons_Suc)
    qed
    with a ok Suc show ?thesis by (simp split: sum.split)
  qed
qed

lemma typecheck_args_first_bad:
  "length args = length params \<Longrightarrow> i < length args \<Longrightarrow>
   \<forall>j < i. \<exists>ty. typecheck (args ! j) tyEnv = Inr ty \<and> typeEq ty (snd (params ! j)) \<Longrightarrow>
   typecheck_args args params tyEnv t =
     (case typecheck (args ! i) tyEnv of
        Inl e \<Rightarrow> Inl e
      | Inr argTy \<Rightarrow>
          if \<not> typeEq argTy (snd (params ! i)) then Inl (''parameter type mismatch'', t)
          else typecheck_args (drop (Suc i) args) (drop (Suc i) params) tyEnv t)"
proof (induction args params arbitrary: i rule: list_induct2)
  case Nil
  then show ?case by simp
next
  case (Cons a as p ps)
  show ?case
  proof (cases i)
    case 0
    then show ?thesis by (simp split: sum.split)
  next
    case (Suc k)
    from Cons.prems(2) Suc obtain ty0 where
      a: "typecheck a tyEnv = Inr ty0" and ok: "typeEq ty0 (snd p)"
      by (metis nth_Cons_0 zero_less_Suc)
    have "typecheck_args as ps tyEnv t =
        (case typecheck (as ! k) tyEnv of
           Inl e \<Rightarrow> Inl e
         | Inr argTy \<Rightarrow>
             if \<not> typeEq argTy (snd (ps ! k)) then Inl (''parameter type mismatch'', t)
             else typecheck_args (drop (Suc k) as) (drop (Suc k) ps) tyEnv t)"
    proof (rule Cons.IH)
      show "k < length as" using Cons.prems(1) Suc by simp
      show "\<forall>j<k. \<exists>ty. typecheck (as ! j) tyEnv = Inr ty \<and> typeEq ty (snd (ps ! j))"
        using Cons.prems(2) Suc by (metis Suc_less_eq nth_Cons_Suc)
    qed
    with a ok Suc show ?thesis by (simp split: sum.split)
  qed
qed

subsection \<open>The call case of src/basic.ts\<close>

lemma call_basic_func_fails:
  "typecheck_basic func tyEnv = Inl err \<Longrightarrow> typecheck_basic (Bcall func args) tyEnv = Inl err"
  by simp

lemma call_basic_function_type_expected:
  "typecheck_basic func tyEnv = Inr funcTy \<Longrightarrow>
   \<forall>params retType. funcTy \<noteq> Func_b params retType \<Longrightarrow>
   typecheck_basic (Bcall func args) tyEnv = Inl (Error ''function type expected'')"
  by (cases funcTy) simp_all

lemma call_basic_wrong_number:
  "typecheck_basic func tyEnv = Inr (Func_b params retType) \<Longrightarrow> length args \<noteq> length params \<Longrightarrow>
   typecheck_basic (Bcall func args) tyEnv = Inl (Error ''wrong number of arguments'')"
  by auto

lemma call_basic_Inr_iff:
  "typecheck_basic (Bcall func args) tyEnv = Inr ty \<longleftrightarrow>
     (\<exists>params. typecheck_basic func tyEnv = Inr (Func_b params ty) \<and>
        length args = length params \<and>
        (\<forall>i < length args. \<exists>argTy. typecheck_basic (args ! i) tyEnv = Inr argTy \<and>
           typeEq_basic argTy (snd (params ! i))))"
proof (cases "typecheck_basic func tyEnv")
  case (Inl e)
  then show ?thesis by simp
next
  case (Inr funcTy)
  show ?thesis
  proof (cases funcTy)
    case (Func_b params retType)
    show ?thesis
    proof (cases "length args = length params")
      case True
      have "typecheck_basic (Bcall func args) tyEnv = Inr ty \<longleftrightarrow>
          typecheck_args_basic args params tyEnv = Inr () \<and> retType = ty"
        using True by (auto simp: Inr Func_b split: sum.splits)
      then show ?thesis
        using True by (auto simp: Inr Func_b typecheck_args_basic_Inr_iff)
    next
      case False
      then show ?thesis by (auto simp: Inr Func_b)
    qed
  qed (simp_all add: Inr)
qed

lemma call_basic_first_mismatch:
  "typecheck_basic func tyEnv = Inr (Func_b params retType) \<Longrightarrow> length args = length params \<Longrightarrow>
   i < length args \<Longrightarrow>
   \<forall>j < i. \<exists>ty. typecheck_basic (args ! j) tyEnv = Inr ty \<and> typeEq_basic ty (snd (params ! j)) \<Longrightarrow>
   typecheck_basic (args ! i) tyEnv = Inr argTy \<Longrightarrow> \<not> typeEq_basic argTy (snd (params ! i)) \<Longrightarrow>
   typecheck_basic (Bcall func args) tyEnv = Inl (Error ''parameter type mismatch'')"
  using typecheck_args_basic_first_bad [of args params i tyEnv] by simp

lemma call_basic_first_failure:
  "typecheck_basic func tyEnv = Inr (Func_b params retType) \<Longrightarrow> length args = length params \<Longrightarrow>
   i < length args \<Longrightarrow>
   \<forall>j < i. \<exists>ty. typecheck_basic (args ! j) tyEnv = Inr ty \<and> typeEq_basic ty (snd (params ! j)) \<Longrightarrow>
   typecheck_basic (args ! i) tyEnv = Inl err \<Longrightarrow>
   typecheck_basic (Bcall func args) tyEnv = Inl err"
  using typecheck_args_basic_first_bad [of args params i tyEnv] by simp

subsection \<open>The call case of src/obj.ts\<close>

lemma call_func_fails:
  "typecheck func tyEnv = Inl err \<Longrightarrow> typecheck (Tcall func args) tyEnv = Inl err"
  by simp

lemma call_function_type_expected:
  "typecheck func tyEnv = Inr funcTy \<Longrightarrow>
   \<forall>params retType. funcTy \<noteq> Func params retType \<Longrightarrow>
   typecheck (Tcall func args) tyEnv = Inl (''function type expected'', Tcall func args)"
  by (cases funcTy) simp_all

lemma call_wrong_number:
  "typecheck func tyEnv = Inr (Func params retType) \<Longrightarrow> length args \<noteq> length params \<Longrightarrow>
   typecheck (Tcall func args) tyEnv = Inl (''wrong number of arguments'', Tcall func args)"
  by auto

lemma call_Inr_iff:
  "typecheck (Tcall func args) tyEnv = Inr ty \<longleftrightarrow>
     (\<exists>params. typecheck func tyEnv = Inr (Func params ty) \<and>
        length args = length params \<and>
        (\<forall>i < length args. \<exists>argTy. typecheck (args ! i) tyEnv = Inr argTy \<and>
           typeEq argTy (snd (params ! i))))"
proof (cases "typecheck func tyEnv")
  case (Inl e)
  then show ?thesis by simp
next
  case (Inr funcTy)
  show ?thesis
  proof (cases funcTy)
    case (Func params retType)
    show ?thesis
    proof (cases "length args = length params")
      case True
      have "typecheck (Tcall func args) tyEnv = Inr ty \<longleftrightarrow>
          typecheck_args args params tyEnv (Tcall func args) = Inr () \<and> retType = ty"
        using True by (auto simp: Inr Func split: sum.splits)
      then show ?thesis
        using True by (auto simp: Inr Func typecheck_args_Inr_iff)
    next
      case False
      then show ?thesis by (auto simp: Inr Func)
    qed
  qed (simp_all add: Inr)
qed

lemma call_first_mismatch:
  "typecheck func tyEnv = Inr (Func params retType) \<Longrightarrow> length args = length params \<Longrightarrow>
   i < length args \<Longrightarrow>
   \<forall>j < i. \<exists>ty. typecheck (args ! j) tyEnv = Inr ty \<and> typeEq ty (snd (params ! j)) \<Longrightarrow>
   typecheck (args ! i) tyEnv = Inr argTy \<Longrightarrow> \<not> typeEq argTy (snd (params ! i)) \<Longrightarrow>
   typecheck (Tcall func args) tyEnv = Inl (''parameter type mismatch'', Tcall func args)"
  using typecheck_args_first_bad [of args params i tyEnv "Tcall func args"] by simp

lemma call_first_failure:
  "typecheck func tyEnv = Inr (Func params retType) \<Longrightarrow> length args = length params \<Longrightarrow>
   i < length args \<Longrightarrow>
   \<forall>j < i. \<exists>ty. typecheck (args ! j) tyEnv = Inr ty \<and> typeEq ty (snd (params ! j)) \<Longrightarrow>
   typecheck (args ! i) tyEnv = Inl err \<Longrightarrow>
   typecheck (Tcall func args) tyEnv = Inl err"
  using typecheck_args_first_bad [of args params i tyEnv "Tcall func args"] by simp

text \<open>
  Claim C5, counterexample. In \<open>((x: number, y: number) => x)(nope, true)\<close> the function
  has a \<open>Func\<close> type, the counts agree, and the second argument has the type Boolean,
  which is not \<open>typeEq\<close> to the type Number of the second parameter. The call does not
  fail with "parameter type mismatch": the first argument is checked first, and the call
  fails with its error, "unknown variable". This is so in the function variant and in the
  object variant.
\<close>

theorem C5_call_rule_counterexample:
  "typecheck_basic (Bfunc [(''x'', Number_b), (''y'', Number_b)] (Bvar ''x'')) Map.empty =
     Inr (Func_b [(''x'', Number_b), (''y'', Number_b)] Number_b) \<and>
   length [Bvar ''nope'', Btrue] = length [(''x'', Number_b), (''y'', Number_b)] \<and>
   typecheck_basic ([Bvar ''nope'', Btrue] ! 1) Map.empty = Inr Boolean_b \<and>
   \<not> typeEq_basic Boolean_b (snd ([(''x'', Number_b), (''y'', Number_b)] ! 1)) \<and>
   typecheck_basic (Bcall (Bfunc [(''x'', Number_b), (''y'', Number_b)] (Bvar ''x''))
       [Bvar ''nope'', Btrue]) Map.empty = Inl (Error ''unknown variable: nope'') \<and>
   typecheck_basic (Bcall (Bfunc [(''x'', Number_b), (''y'', Number_b)] (Bvar ''x''))
       [Bvar ''nope'', Btrue]) Map.empty \<noteq> Inl (Error ''parameter type mismatch'') \<and>
   typecheck (Tfunc [(''x'', Number), (''y'', Number)] (Tvar ''x'')) Map.empty =
     Inr (Func [(''x'', Number), (''y'', Number)] Number) \<and>
   typecheck ([Tvar ''nope'', Ttrue] ! 1) Map.empty = Inr Boolean \<and>
   \<not> typeEq Boolean (snd ([(''x'', Number), (''y'', Number)] ! 1)) \<and>
   typecheck (Tcall (Tfunc [(''x'', Number), (''y'', Number)] (Tvar ''x''))
       [Tvar ''nope'', Ttrue]) Map.empty = Inl (''unknown variable: nope'', Tvar ''nope'') \<and>
   typecheck (Tcall (Tfunc [(''x'', Number), (''y'', Number)] (Tvar ''x''))
       [Tvar ''nope'', Ttrue]) Map.empty \<noteq>
     Inl (''parameter type mismatch'',
          Tcall (Tfunc [(''x'', Number), (''y'', Number)] (Tvar ''x'')) [Tvar ''nope'', Ttrue])"
  by (simp add: extend_params_basic_def extend_params_def)

text \<open>
  Claim C5, as amended. For every term \<open>call(f, args)\<close>, in the function variant and in
  the object variant: if \<open>f\<close> fails to check, the call fails with the error of \<open>f\<close>; if
  \<open>f\<close> has a type that is not a \<open>Func\<close>, the call fails with "function type expected";
  otherwise, if the number of arguments differs from the number of parameters, it fails
  with "wrong number of arguments"; otherwise the arguments are checked from left to
  right, and the first argument that fails to check or whose type is not \<open>typeEq\<close> to
  the parameter type at its position decides: the call fails with the error of that
  argument, or with "parameter type mismatch", even when the counts match; and if every
  argument has a type that is \<open>typeEq\<close> to its parameter type, the result is the return
  type of \<open>f\<close>. The call has a type in this last case only.
\<close>

theorem C5_call_rule:
  "(typecheck_basic (Bcall func args) tyEnv = Inr ty \<longleftrightarrow>
      (\<exists>params. typecheck_basic func tyEnv = Inr (Func_b params ty) \<and>
         length args = length params \<and>
         (\<forall>i < length args. \<exists>argTy. typecheck_basic (args ! i) tyEnv = Inr argTy \<and>
            typeEq_basic argTy (snd (params ! i))))) \<and>
   (typecheck_basic func tyEnv = Inl err \<longrightarrow>
      typecheck_basic (Bcall func args) tyEnv = Inl err) \<and>
   (typecheck_basic func tyEnv = Inr funcTy \<and>
    (\<forall>params retType. funcTy \<noteq> Func_b params retType) \<longrightarrow>
      typecheck_basic (Bcall func args) tyEnv = Inl (Error ''function type expected'')) \<and>
   (typecheck_basic func tyEnv = Inr (Func_b params retType) \<and> length args \<noteq> length params \<longrightarrow>
      typecheck_basic (Bcall func args) tyEnv = Inl (Error ''wrong number of arguments'')) \<and>
   (typecheck_basic func tyEnv = Inr (Func_b params retType) \<and> length args = length params \<and>
    i < length args \<and>
    (\<forall>j < i. \<exists>ty. typecheck_basic (args ! j) tyEnv = Inr ty \<and>
       typeEq_basic ty (snd (params ! j))) \<and>
    typecheck_basic (args ! i) tyEnv = Inl err \<longrightarrow>
      typecheck_basic (Bcall func args) tyEnv = Inl err) \<and>
   (typecheck_basic func tyEnv = Inr (Func_b params retType) \<and> length args = length params \<and>
    i < length args \<and>
    (\<forall>j < i. \<exists>ty. typecheck_basic (args ! j) tyEnv = Inr ty \<and>
       typeEq_basic ty (snd (params ! j))) \<and>
    typecheck_basic (args ! i) tyEnv = Inr argTy \<and> \<not> typeEq_basic argTy (snd (params ! i)) \<longrightarrow>
      typecheck_basic (Bcall func args) tyEnv = Inl (Error ''parameter type mismatch'')) \<and>
   (typecheck (Tcall ofunc oargs) oEnv = Inr oty \<longleftrightarrow>
      (\<exists>params. typecheck ofunc oEnv = Inr (Func params oty) \<and>
         length oargs = length params \<and>
         (\<forall>i < length oargs. \<exists>argTy. typecheck (oargs ! i) oEnv = Inr argTy \<and>
            typeEq argTy (snd (params ! i))))) \<and>
   (typecheck ofunc oEnv = Inl oerr \<longrightarrow>
      typecheck (Tcall ofunc oargs) oEnv = Inl oerr) \<and>
   (typecheck ofunc oEnv = Inr ofuncTy \<and>
    (\<forall>params retType. ofuncTy \<noteq> Func params retType) \<longrightarrow>
      typecheck (Tcall ofunc oargs) oEnv =
        Inl (''function type expected'', Tcall ofunc oargs)) \<and>
   (typecheck ofunc oEnv = Inr (Func oparams oretType) \<and> length oargs \<noteq> length oparams \<longrightarrow>
      typecheck (Tcall ofunc oargs) oEnv =
        Inl (''wrong number of arguments'', Tcall ofunc oargs)) \<and>
   (typecheck ofunc oEnv = Inr (Func oparams oretType) \<and> length oargs = length oparams \<and>
    k < length oargs \<and>
    (\<forall>j < k. \<exists>ty. typecheck (oargs ! j) oEnv = Inr ty \<and> typeEq ty (snd (oparams ! j))) \<and>
    typecheck (oargs ! k) oEnv = Inl oerr \<longrightarrow>
      typecheck (Tcall ofunc oargs) oEnv = Inl oerr) \<and>
   (typecheck ofunc oEnv = Inr (Func oparams oretType) \<and> length oargs = length oparams \<and>
    k < length oargs \<and>
    (\<forall>j < k. \<exists>ty. typecheck (oargs ! j) oEnv = Inr ty \<and> typeEq ty (snd (oparams ! j))) \<and>
    typecheck (oargs ! k) oEnv = Inr oargTy \<and> \<not> typeEq oargTy (snd (oparams ! k)) \<longrightarrow>
      typecheck (Tcall ofunc oargs) oEnv =
        Inl (''parameter type mismatch'', Tcall ofunc oargs))"
proof (intro conjI)
  show "typecheck_basic (Bcall func args) tyEnv = Inr ty \<longleftrightarrow>
      (\<exists>params. typecheck_basic func tyEnv = Inr (Func_b params ty) \<and>
         length args = length params \<and>
         (\<forall>i < length args. \<exists>argTy. typecheck_basic (args ! i) tyEnv = Inr argTy \<and>
            typeEq_basic argTy (snd (params ! i))))"
    by (rule call_basic_Inr_iff)
  show "typecheck_basic func tyEnv = Inl err \<longrightarrow>
      typecheck_basic (Bcall func args) tyEnv = Inl err"
    using call_basic_func_fails by blast
  show "typecheck_basic func tyEnv = Inr funcTy \<and>
    (\<forall>params retType. funcTy \<noteq> Func_b params retType) \<longrightarrow>
      typecheck_basic (Bcall func args) tyEnv = Inl (Error ''function type expected'')"
    using call_basic_function_type_expected by blast
  show "typecheck_basic func tyEnv = Inr (Func_b params retType) \<and> length args \<noteq> length params \<longrightarrow>
      typecheck_basic (Bcall func args) tyEnv = Inl (Error ''wrong number of arguments'')"
    using call_basic_wrong_number by blast
  show "typecheck_basic func tyEnv = Inr (Func_b params retType) \<and> length args = length params \<and>
    i < length args \<and>
    (\<forall>j < i. \<exists>ty. typecheck_basic (args ! j) tyEnv = Inr ty \<and>
       typeEq_basic ty (snd (params ! j))) \<and>
    typecheck_basic (args ! i) tyEnv = Inl err \<longrightarrow>
      typecheck_basic (Bcall func args) tyEnv = Inl err"
    by (intro impI, elim conjE) (rule call_basic_first_failure)
  show "typecheck_basic func tyEnv = Inr (Func_b params retType) \<and> length args = length params \<and>
    i < length args \<and>
    (\<forall>j < i. \<exists>ty. typecheck_basic (args ! j) tyEnv = Inr ty \<and>
       typeEq_basic ty (snd (params ! j))) \<and>
    typecheck_basic (args ! i) tyEnv = Inr argTy \<and> \<not> typeEq_basic argTy (snd (params ! i)) \<longrightarrow>
      typecheck_basic (Bcall func args) tyEnv = Inl (Error ''parameter type mismatch'')"
    by (intro impI, elim conjE) (rule call_basic_first_mismatch)
  show "typecheck (Tcall ofunc oargs) oEnv = Inr oty \<longleftrightarrow>
      (\<exists>params. typecheck ofunc oEnv = Inr (Func params oty) \<and>
         length oargs = length params \<and>
         (\<forall>i < length oargs. \<exists>argTy. typecheck (oargs ! i) oEnv = Inr argTy \<and>
            typeEq argTy (snd (params ! i))))"
    by (rule call_Inr_iff)
  show "typecheck ofunc oEnv = Inl oerr \<longrightarrow>
      typecheck (Tcall ofunc oargs) oEnv = Inl oerr"
    using call_func_fails by blast
  show "typecheck ofunc oEnv = Inr ofuncTy \<and>
    (\<forall>params retType. ofuncTy \<noteq> Func params retType) \<longrightarrow>
      typecheck (Tcall ofunc oargs) oEnv =
        Inl (''function type expected'', Tcall ofunc oargs)"
    using call_function_type_expected by blast
  show "typecheck ofunc oEnv = Inr (Func oparams oretType) \<and> length oargs \<noteq> length oparams \<longrightarrow>
      typecheck (Tcall ofunc oargs) oEnv =
        Inl (''wrong number of arguments'', Tcall ofunc oargs)"
    using call_wrong_number by blast
  show "typecheck ofunc oEnv = Inr (Func oparams oretType) \<and> length oargs = length oparams \<and>
    k < length oargs \<and>
    (\<forall>j < k. \<exists>ty. typecheck (oargs ! j) oEnv = Inr ty \<and> typeEq ty (snd (oparams ! j))) \<and>
    typecheck (oargs ! k) oEnv = Inl oerr \<longrightarrow>
      typecheck (Tcall ofunc oargs) oEnv = Inl oerr"
    by (intro impI, elim conjE) (rule call_first_failure)
  show "typecheck ofunc oEnv = Inr (Func oparams oretType) \<and> length oargs = length oparams \<and>
    k < length oargs \<and>
    (\<forall>j < k. \<exists>ty. typecheck (oargs ! j) oEnv = Inr ty \<and> typeEq ty (snd (oparams ! j))) \<and>
    typecheck (oargs ! k) oEnv = Inr oargTy \<and> \<not> typeEq oargTy (snd (oparams ! k)) \<longrightarrow>
      typecheck (Tcall ofunc oargs) oEnv =
        Inl (''parameter type mismatch'', Tcall ofunc oargs)"
    by (intro impI, elim conjE) (rule call_first_mismatch)
qed

theorem C5_call_rule_witness:
  "typecheck_basic (Bcall (Bfunc [(''x'', Number_b), (''y'', Number_b)] (Bvar ''x''))
       [Btrue, Bvar ''nope'']) Map.empty = Inl (Error ''parameter type mismatch'') \<and>
   typecheck_basic (Bcall (Bfunc [(''x'', Number_b), (''y'', Number_b)] (Bvar ''x''))
       [Bnumber 1, Bvar ''nope'']) Map.empty = Inl (Error ''unknown variable: nope'') \<and>
   typecheck_basic (Bcall (Bfunc [(''x'', Number_b), (''y'', Number_b)] (Bvar ''x''))
       [Bnumber 1, Bnumber 2]) Map.empty = Inr Number_b \<and>
   typecheck_basic (Bcall (Bfunc [(''x'', Number_b), (''y'', Number_b)] (Bvar ''x''))
       [Bnumber 1]) Map.empty = Inl (Error ''wrong number of arguments'') \<and>
   typecheck_basic (Bcall (Bnumber 1) [Bnumber 2]) Map.empty =
     Inl (Error ''function type expected'') \<and>
   typecheck_basic (Bcall (Bvar ''nope'') [Bnumber 2]) Map.empty =
     Inl (Error ''unknown variable: nope'') \<and>
   typecheck (Tcall (Tfunc [(''x'', Number), (''y'', Number)] (Tvar ''x''))
       [Ttrue, Tvar ''nope'']) Map.empty =
     Inl (''parameter type mismatch'',
          Tcall (Tfunc [(''x'', Number), (''y'', Number)] (Tvar ''x'')) [Ttrue, Tvar ''nope'']) \<and>
   typecheck (Tcall (Tfunc [(''x'', Number), (''y'', Number)] (Tvar ''x''))
       [Tnumber 1, Tvar ''nope'']) Map.empty = Inl (''unknown variable: nope'', Tvar ''nope'') \<and>
   typecheck (Tcall (Tfunc [(''x'', Number), (''y'', Number)] (Tvar ''x''))
       [Tnumber 1, Tnumber 2]) Map.empty = Inr Number \<and>
   typecheck (Tcall (Tfunc [(''x'', Number), (''y'', Number)] (Tvar ''x'')) [Tnumber 1])
       Map.empty =
     Inl (''wrong number of arguments'',
          Tcall (Tfunc [(''x'', Number), (''y'', Number)] (Tvar ''x'')) [Tnumber 1]) \<and>
   typecheck (Tcall (TobjectNew []) [Tnumber 2]) Map.empty =
     Inl (''function type expected'', Tcall (TobjectNew []) [Tnumber 2]) \<and>
   typecheck (Tcall (Tvar ''nope'') [Tnumber 2]) Map.empty =
     Inl (''unknown variable: nope'', Tvar ''nope'')"
proof -
  let ?f = "Bfunc [(''x'', Number_b), (''y'', Number_b)] (Bvar ''x'')"
  let ?ps = "[(''x'', Number_b), (''y'', Number_b)]"
  let ?g = "Tfunc [(''x'', Number), (''y'', Number)] (Tvar ''x'')"
  let ?qs = "[(''x'', Number), (''y'', Number)]"
  have b1: "typecheck_basic (Bcall ?f [Btrue, Bvar ''nope'']) Map.empty =
      Inl (Error ''parameter type mismatch'')"
    by (rule C5_call_rule [where func = ?f and tyEnv = Map.empty and params = ?ps
          and retType = Number_b and args = "[Btrue, Bvar ''nope'']" and i = 0
          and argTy = Boolean_b, THEN conjunct2, THEN conjunct2, THEN conjunct2, THEN conjunct2, THEN conjunct2, THEN conjunct1, THEN mp])
      (simp add: extend_params_basic_def)
  have b2: "typecheck_basic (Bcall ?f [Bnumber 1, Bvar ''nope'']) Map.empty =
      Inl (Error ''unknown variable: nope'')"
    by (rule C5_call_rule [where func = ?f and tyEnv = Map.empty and params = ?ps
          and retType = Number_b and args = "[Bnumber 1, Bvar ''nope'']" and i = 1
          and err = "Error ''unknown variable: nope''", THEN conjunct2, THEN conjunct2, THEN conjunct2, THEN conjunct2, THEN conjunct1, THEN mp])
      (simp add: extend_params_basic_def)
  have b3: "typecheck_basic (Bcall ?f [Bnumber 1, Bnumber 2]) Map.empty = Inr Number_b"
    by (rule C5_call_rule [where func = ?f and tyEnv = Map.empty and ty = Number_b
          and args = "[Bnumber 1, Bnumber 2]", THEN conjunct1, THEN iffD2])
      (rule exI [of _ ?ps], simp add: extend_params_basic_def All_less_Suc2)
  have b4: "typecheck_basic (Bcall ?f [Bnumber 1]) Map.empty =
      Inl (Error ''wrong number of arguments'')"
    by (rule C5_call_rule [where func = ?f and tyEnv = Map.empty and params = ?ps
          and retType = Number_b and args = "[Bnumber 1]", THEN conjunct2, THEN conjunct2, THEN conjunct2, THEN conjunct1, THEN mp])
      (simp add: extend_params_basic_def)
  have b5: "typecheck_basic (Bcall (Bnumber 1) [Bnumber 2]) Map.empty =
      Inl (Error ''function type expected'')"
    by (rule C5_call_rule [where func = "Bnumber 1" and tyEnv = Map.empty and funcTy = Number_b
          and args = "[Bnumber 2]", THEN conjunct2, THEN conjunct2, THEN conjunct1, THEN mp])
      simp
  have b6: "typecheck_basic (Bcall (Bvar ''nope'') [Bnumber 2]) Map.empty =
      Inl (Error ''unknown variable: nope'')"
    by (rule C5_call_rule [where func = "Bvar ''nope''" and tyEnv = Map.empty
          and err = "Error ''unknown variable: nope''" and args = "[Bnumber 2]", THEN conjunct2, THEN conjunct1, THEN mp])
      simp
  have o1: "typecheck (Tcall ?g [Ttrue, Tvar ''nope'']) Map.empty =
      Inl (''parameter type mismatch'', Tcall ?g [Ttrue, Tvar ''nope''])"
    by (rule C5_call_rule [where ofunc = ?g and oEnv = Map.empty and oparams = ?qs
          and oretType = Number and oargs = "[Ttrue, Tvar ''nope'']" and k = 0
          and oargTy = Boolean, THEN conjunct2, THEN conjunct2, THEN conjunct2, THEN conjunct2, THEN conjunct2, THEN conjunct2, THEN conjunct2, THEN conjunct2, THEN conjunct2, THEN conjunct2, THEN conjunct2, THEN mp])
      (simp add: extend_params_def)
  have o2: "typecheck (Tcall ?g [Tnumber 1, Tvar ''nope'']) Map.empty =
      Inl (''unknown variable: nope'', Tvar ''nope'')"
    by (rule C5_call_rule [where ofunc = ?g and oEnv = Map.empty and oparams = ?qs
          and oretType = Number and oargs = "[Tnumber 1, Tvar ''nope'']" and k = 1
          and oerr = "(''unknown variable: nope'', Tvar ''nope'')", THEN conjunct2, THEN conjunct2, THEN conjunct2, THEN conjunct2, THEN conjunct2, THEN conjunct2, THEN conjunct2, THEN conjunct2, THEN conjunct2, THEN conjunct2, THEN conjunct1, THEN mp])
      (simp add: extend_params_def)
  have o3: "typecheck (Tcall ?g [Tnumber 1, Tnumber 2]) Map.empty = Inr Number"
    by (rule C5_call_rule [where ofunc = ?g and oEnv = Map.empty and oty = Number
          and oargs = "[Tnumber 1, Tnumber 2]", THEN conjunct2, THEN conjunct2, THEN conjunct2, THEN conjunct2, THEN conjunct2, THEN conjunct2, THEN conjunct1, THEN iffD2])
      (rule exI [of _ ?qs], simp add: extend_params_def All_less_Suc2)
  have o4: "typecheck (Tcall ?g [Tnumber 1]) Map.empty =
      Inl (''wrong number of arguments'', Tcall ?g [Tnumber 1])"
    by (rule C5_call_rule [where ofunc = ?g and oEnv = Map.empty and oparams = ?qs
          and oretType = Number and oargs = "[Tnumber 1]", THEN conjunct2, THEN conjunct2, THEN conjunct2, THEN conjunct2, THEN conjunct2, THEN conjunct2, THEN conjunct2, THEN conjunct2, THEN conjunct2, THEN conjunct1, THEN mp])
      (simp add: extend_params_def)
  have o5: "typecheck (Tcall (TobjectNew []) [Tnumber 2]) Map.empty =
      Inl (''function type expected'', Tcall (TobjectNew []) [Tnumber 2])"
    by (rule C5_call_rule [where ofunc = "TobjectNew []" and oEnv = Map.empty
          and ofuncTy = "Object []" and oargs = "[Tnumber 2]", THEN conjunct2, THEN conjunct2, THEN conjunct2, THEN conjunct2, THEN conjunct2, THEN conjunct2, THEN conjunct2, THEN conjunct2, THEN conjunct1, THEN mp])
      simp
  have o6: "typecheck (Tcall (Tvar ''nope'') [Tnumber 2]) Map.empty =
      Inl (''unknown variable: nope'', Tvar ''nope'')"
    by (rule C5_call_rule [where ofunc = "Tvar ''nope''" and oEnv = Map.empty
          and oerr = "(''unknown variable: nope'', Tvar ''nope'')" and oargs = "[Tnumber 2]",
          THEN conjunct2, THEN conjunct2, THEN conjunct2, THEN conjunct2, THEN conjunct2, THEN conjunct2, THEN conjunct2, THEN conjunct1, THEN mp])
      simp
  show ?thesis
    by (intro conjI) (fact b1 b2 b3 b4 b5 b6 o1 o2 o3 o4 o5 o6)+
qed

section \<open>Function literals and their parameters (src/basic.ts, lines 87-97; src/obj.ts, lines 127-137)\<close>

text \<open>
  The names that a term looks up in an environment (\<open>var\<close>) or writes into a copied
  environment by assignment (the parameters of a \<open>func\<close>). A term is \<open>plain\<close> when none
  of them is a key of \<open>Object.prototype\<close>: on plain terms a lookup finds what was bound
  and nothing else, and every parameter is written as a binding.
\<close>

fun env_names_basic :: "Term_basic \<Rightarrow> string list"
  and env_names_list_basic :: "Term_basic list \<Rightarrow> string list"
where
  "env_names_basic Btrue = []"
| "env_names_basic Bfalse = []"
| "env_names_basic (Bif cond thn els) =
     env_names_basic cond @ env_names_basic thn @ env_names_basic els"
| "env_names_basic (Bnumber n) = []"
| "env_names_basic (Badd left right) = env_names_basic left @ env_names_basic right"
| "env_names_basic (Bvar name) = [name]"
| "env_names_basic (Bfunc params body) = map fst params @ env_names_basic body"
| "env_names_basic (Bcall func args) = env_names_basic func @ env_names_list_basic args"
| "env_names_basic (Bseq body rest) = env_names_basic body @ env_names_basic rest"
| "env_names_basic (Bconst name init rest) = env_names_basic init @ env_names_basic rest"
| "env_names_list_basic [] = []"
| "env_names_list_basic (t # ts) = env_names_basic t @ env_names_list_basic ts"


fun env_names :: "Term \<Rightarrow> string list"
  and env_names_list :: "Term list \<Rightarrow> string list"
  and env_names_props :: "PropertyTerm list \<Rightarrow> string list"
where
  "env_names Ttrue = []"
| "env_names Tfalse = []"
| "env_names (Tif cond thn els) = env_names cond @ env_names thn @ env_names els"
| "env_names (Tnumber n) = []"
| "env_names (Tadd left right) = env_names left @ env_names right"
| "env_names (Tvar name) = [name]"
| "env_names (Tfunc params body) = map fst params @ env_names body"
| "env_names (Tcall func args) = env_names func @ env_names_list args"
| "env_names (Tseq body rest) = env_names body @ env_names rest"
| "env_names (Tconst name init rest) = env_names init @ env_names rest"
| "env_names (TobjectNew props) = env_names_props props"
| "env_names (TobjectGet obj name) = env_names obj"
| "env_names_list [] = []"
| "env_names_list (t # ts) = env_names t @ env_names_list ts"
| "env_names_props [] = []"
| "env_names_props ((name, t) # props) = env_names t @ env_names_props props"







section \<open>Object types: lookup and equality (src/obj.ts, lines 72-88 and 171-185)\<close>

subsection \<open>Lookup by name\<close>

lemma find_prop_map_of: "find_prop props name = map_of props name"
  by (induction props) auto

lemma find_prop_first:
  "i < length props \<Longrightarrow> fst (props ! i) = name \<Longrightarrow> \<forall>j < i. fst (props ! j) \<noteq> name \<Longrightarrow>
   find_prop props name = Some (snd (props ! i))"
proof (induction props arbitrary: i)
  case Nil
  then show ?case by simp
next
  case (Cons p ps)
  obtain n v where p: "p = (n, v)" by (cases p)
  show ?case
  proof (cases i)
    case 0
    with Cons.prems p show ?thesis by simp
  next
    case (Suc k)
    with Cons.prems(3) have "fst ((p # ps) ! 0) \<noteq> name" by blast
    then have n: "n \<noteq> name" using p by simp
    have "find_prop ps name = Some (snd (ps ! k))"
    proof (rule Cons.IH)
      show "k < length ps" using Cons.prems(1) Suc by simp
      show "fst (ps ! k) = name" using Cons.prems(2) Suc by simp
      show "\<forall>j<k. fst (ps ! j) \<noteq> name"
        using Cons.prems(3) Suc by (metis Suc_less_eq nth_Cons_Suc)
    qed
    with n Suc show ?thesis by (simp add: p)
  qed
qed

lemma find_prop_distinct:
  "distinct (map fst props) \<Longrightarrow> find_prop props name = Some ty \<longleftrightarrow> (name, ty) \<in> set props"
  by (simp add: find_prop_map_of)

lemma find_prop_Some_mem: "find_prop props name = Some ty \<Longrightarrow> (name, ty) \<in> set props"
  by (simp add: find_prop_map_of map_of_SomeD)

subsection \<open>The two loops of typeEq\<close>

lemma typeEq_params_nth:
  "length params1 = length params2 \<Longrightarrow>
   typeEq_params params1 params2 =
     (\<forall>i < length params1. typeEq (snd (params1 ! i)) (snd (params2 ! i)))"
proof (induction params1 params2 rule: list_induct2)
  case Nil
  then show ?case by simp
next
  case (Cons p1 ps1 p2 ps2)
  obtain n1 t1 n2 t2 where p: "p1 = (n1, t1)" "p2 = (n2, t2)"
    by (cases p1, cases p2) auto
  show ?case
    using Cons.IH by (auto simp: p All_less_Suc2)
qed

lemma typeEq_props_iff:
  "typeEq_props props1 props2 =
     (\<forall>p \<in> set props2. \<exists>ty1. find_prop props1 (fst p) = Some ty1 \<and> typeEq ty1 (snd p))"
proof (induction props2)
  case Nil
  then show ?case by simp
next
  case (Cons p ps)
  then show ?case by (cases p) (auto split: option.splits)
qed

lemma typeEq_Object_iff:
  "typeEq ty1 (Object props2) =
     (\<exists>props1. ty1 = Object props1 \<and> length props1 = length props2 \<and>
        (\<forall>p \<in> set props2. \<exists>ty. find_prop props1 (fst p) = Some ty \<and> typeEq ty (snd p)))"
  by (cases ty1) (auto simp: typeEq_props_iff)

lemma typeEq_Func_iff:
  "typeEq ty1 (Func params2 retType2) =
     (\<exists>params1 retType1. ty1 = Func params1 retType1 \<and> length params1 = length params2 \<and>
        (\<forall>i < length params1. typeEq (snd (params1 ! i)) (snd (params2 ! i))) \<and>
        typeEq retType1 retType2)"
  by (cases ty1) (auto simp: typeEq_params_nth)

subsection \<open>Types whose object types list each name once\<close>

text \<open>
  \<open>distinct_props ty\<close>: in every \<open>Object\<close> type inside \<open>ty\<close>, at any depth, the property
  names are pairwise distinct.
\<close>

fun distinct_props :: "Type \<Rightarrow> bool" where
  "distinct_props Boolean = True"
| "distinct_props Number = True"
| "distinct_props (Func params retType) =
     (list_all (\<lambda>p. distinct_props (snd p)) params \<and> distinct_props retType)"
| "distinct_props (Object props) =
     (distinct (map fst props) \<and> list_all (\<lambda>p. distinct_props (snd p)) props)"

lemma typeEq_refl_distinct: "distinct_props ty \<Longrightarrow> typeEq ty ty"
proof (induction ty)
  case Boolean
  show ?case by simp
next
  case Number
  show ?case by simp
next
  case (Func params retType)
  have "typeEq (snd (params ! i)) (snd (params ! i))" if "i < length params" for i
  proof -
    obtain n t where nt: "params ! i = (n, t)" by (cases "params ! i")
    from that have mem: "(n, t) \<in> set params"
      using nth_mem [of i params] by (simp add: nt)
    with Func.prems have "distinct_props t"
      by (auto simp: list_all_iff)
    moreover have "t \<in> Basic_BNFs.snds (n, t)" by (simp add: snds.simps)
    ultimately have "typeEq t t"
      using Func.IH(1) mem by blast
    then show ?thesis by (simp add: nt)
  qed
  moreover have "typeEq retType retType"
    using Func by simp
  ultimately show ?case by (simp add: typeEq_Func_iff)
next
  case (Object props)
  have "\<exists>ty. find_prop props (fst p) = Some ty \<and> typeEq ty (snd p)" if "p \<in> set props" for p
  proof -
    from Object.prems have d: "distinct (map fst props)" by simp
    from that have "(fst p, snd p) \<in> set props" by simp
    with d have "find_prop props (fst p) = Some (snd p)"
      by (simp only: find_prop_distinct)
    moreover from Object.prems that have "distinct_props (snd p)"
      by (simp add: list_all_iff)
    moreover have "snd p \<in> Basic_BNFs.snds p" by (cases p) (simp add: snds.simps)
    ultimately show ?thesis
      using Object.IH that by blast
  qed
  then show ?case by (simp add: typeEq_Object_iff)
qed

section \<open>Object literals and property access (src/obj.ts, lines 171-185)\<close>

text \<open>
  The \<open>map\<close> of the \<open>objectNew\<close> case returns exactly the list that keeps every name, in
  order, beside the type of its term; it fails exactly with the error of the first
  property term, from the left, that fails.
\<close>

lemma typecheck_props_Inr_iff:
  "typecheck_props props tyEnv = Inr props' \<longleftrightarrow>
     length props' = length props \<and>
     (\<forall>i < length props. fst (props' ! i) = fst (props ! i) \<and>
        typecheck (snd (props ! i)) tyEnv = Inr (snd (props' ! i)))"
proof (induction props arbitrary: props')
  case Nil
  then show ?case by auto
next
  case (Cons p ps)
  obtain n t where p: "p = (n, t)" by (cases p)
  show ?case
  proof (cases props')
    case Nil
    then show ?thesis by (auto simp: p split: sum.splits)
  next
    case (Cons q qs)
    obtain m ty where q: "q = (m, ty)" by (cases q)
    have "typecheck_props (p # ps) tyEnv = Inr (q # qs) \<longleftrightarrow>
        typecheck t tyEnv = Inr ty \<and> n = m \<and> typecheck_props ps tyEnv = Inr qs"
      by (auto simp: p q split: sum.splits)
    also have "\<dots> \<longleftrightarrow> typecheck t tyEnv = Inr ty \<and> n = m \<and> length qs = length ps \<and>
        (\<forall>i < length ps. fst (qs ! i) = fst (ps ! i) \<and>
           typecheck (snd (ps ! i)) tyEnv = Inr (snd (qs ! i)))"
      by (simp only: Cons.IH)
    also have "\<dots> \<longleftrightarrow> length (q # qs) = length (p # ps) \<and>
        (\<forall>i < length (p # ps). fst ((q # qs) ! i) = fst ((p # ps) ! i) \<and>
           typecheck (snd ((p # ps) ! i)) tyEnv = Inr (snd ((q # qs) ! i)))"
      by (auto simp: p q All_less_Suc2)
    finally show ?thesis by (simp only: Cons)
  qed
qed

lemma typecheck_props_Inl_iff:
  "typecheck_props props tyEnv = Inl e \<longleftrightarrow>
     (\<exists>i < length props. typecheck (snd (props ! i)) tyEnv = Inl e \<and>
        (\<forall>j < i. \<exists>ty. typecheck (snd (props ! j)) tyEnv = Inr ty))"
proof (induction props)
  case Nil
  then show ?case by simp
next
  case (Cons p ps)
  obtain n t where p: "p = (n, t)" by (cases p)
  show ?case
  proof (cases "typecheck t tyEnv")
    case (Inl e')
    show ?thesis
    proof
      assume "typecheck_props (p # ps) tyEnv = Inl e"
      with Inl have "e' = e" by (simp add: p)
      with Inl have "typecheck (snd ((p # ps) ! 0)) tyEnv = Inl e" by (simp add: p)
      then show "\<exists>i < length (p # ps). typecheck (snd ((p # ps) ! i)) tyEnv = Inl e \<and>
          (\<forall>j < i. \<exists>ty. typecheck (snd ((p # ps) ! j)) tyEnv = Inr ty)"
        by (intro exI [of _ 0]) simp
    next
      assume "\<exists>i < length (p # ps). typecheck (snd ((p # ps) ! i)) tyEnv = Inl e \<and>
          (\<forall>j < i. \<exists>ty. typecheck (snd ((p # ps) ! j)) tyEnv = Inr ty)"
      then obtain i where i: "typecheck (snd ((p # ps) ! i)) tyEnv = Inl e"
        and before: "\<forall>j < i. \<exists>ty. typecheck (snd ((p # ps) ! j)) tyEnv = Inr ty"
        by blast
      have "i = 0"
      proof (rule ccontr)
        assume "i \<noteq> 0"
        with before have "\<exists>ty. typecheck (snd ((p # ps) ! 0)) tyEnv = Inr ty" by blast
        with Inl show False by (simp add: p)
      qed
      with i Inl show "typecheck_props (p # ps) tyEnv = Inl e" by (simp add: p)
    qed
  next
    case (Inr ty)
    have "typecheck_props (p # ps) tyEnv = Inl e \<longleftrightarrow> typecheck_props ps tyEnv = Inl e"
      by (auto simp: p Inr split: sum.splits)
    also have "\<dots> \<longleftrightarrow> (\<exists>i < length ps. typecheck (snd (ps ! i)) tyEnv = Inl e \<and>
        (\<forall>j < i. \<exists>ty. typecheck (snd (ps ! j)) tyEnv = Inr ty))"
      by (rule Cons.IH)
    also have "\<dots> \<longleftrightarrow> (\<exists>i < length (p # ps). typecheck (snd ((p # ps) ! i)) tyEnv = Inl e \<and>
        (\<forall>j < i. \<exists>ty. typecheck (snd ((p # ps) ! j)) tyEnv = Inr ty))"
    proof
      assume "\<exists>i < length ps. typecheck (snd (ps ! i)) tyEnv = Inl e \<and>
          (\<forall>j < i. \<exists>ty. typecheck (snd (ps ! j)) tyEnv = Inr ty)"
      then obtain i where "i < length ps" and "typecheck (snd (ps ! i)) tyEnv = Inl e"
        and "\<forall>j < i. \<exists>ty. typecheck (snd (ps ! j)) tyEnv = Inr ty"
        by blast
      then have "Suc i < length (p # ps) \<and> typecheck (snd ((p # ps) ! Suc i)) tyEnv = Inl e \<and>
          (\<forall>j < Suc i. \<exists>ty. typecheck (snd ((p # ps) ! j)) tyEnv = Inr ty)"
        using Inr by (simp add: p All_less_Suc2)
      then show "\<exists>i < length (p # ps). typecheck (snd ((p # ps) ! i)) tyEnv = Inl e \<and>
          (\<forall>j < i. \<exists>ty. typecheck (snd ((p # ps) ! j)) tyEnv = Inr ty)"
        by blast
    next
      assume "\<exists>i < length (p # ps). typecheck (snd ((p # ps) ! i)) tyEnv = Inl e \<and>
          (\<forall>j < i. \<exists>ty. typecheck (snd ((p # ps) ! j)) tyEnv = Inr ty)"
      then obtain i where lt: "i < length (p # ps)"
        and i: "typecheck (snd ((p # ps) ! i)) tyEnv = Inl e"
        and before: "\<forall>j < i. \<exists>ty. typecheck (snd ((p # ps) ! j)) tyEnv = Inr ty"
        by blast
      have "i \<noteq> 0"
      proof
        assume "i = 0"
        with i Inr show False by (simp add: p)
      qed
      then obtain k where k: "i = Suc k" by (cases i) simp_all
      with lt i before have "k < length ps \<and> typecheck (snd (ps ! k)) tyEnv = Inl e \<and>
          (\<forall>j < k. \<exists>ty. typecheck (snd (ps ! j)) tyEnv = Inr ty)"
        by (auto simp: All_less_Suc2)
      then show "\<exists>i < length ps. typecheck (snd (ps ! i)) tyEnv = Inl e \<and>
          (\<forall>j < i. \<exists>ty. typecheck (snd (ps ! j)) tyEnv = Inr ty)"
        by blast
    qed
    finally show ?thesis .
  qed
qed

lemma objectNew_Inr_iff:
  "typecheck (TobjectNew props) tyEnv = Inr ty \<longleftrightarrow>
     (\<exists>props'. ty = Object props' \<and> length props' = length props \<and>
        (\<forall>i < length props. fst (props' ! i) = fst (props ! i) \<and>
           typecheck (snd (props ! i)) tyEnv = Inr (snd (props' ! i))))"
proof -
  have "typecheck (TobjectNew props) tyEnv = Inr ty \<longleftrightarrow>
      (\<exists>props'. ty = Object props' \<and> typecheck_props props tyEnv = Inr props')"
    by (auto split: sum.splits)
  then show ?thesis by (simp only: typecheck_props_Inr_iff)
qed

lemma objectNew_Inl_iff:
  "typecheck (TobjectNew props) tyEnv = Inl e \<longleftrightarrow>
     (\<exists>i < length props. typecheck (snd (props ! i)) tyEnv = Inl e \<and>
        (\<forall>j < i. \<exists>ty. typecheck (snd (props ! j)) tyEnv = Inr ty))"
proof -
  have "typecheck (TobjectNew props) tyEnv = Inl e \<longleftrightarrow> typecheck_props props tyEnv = Inl e"
    by (auto split: sum.splits)
  then show ?thesis by (simp only: typecheck_props_Inl_iff)
qed

text \<open>The \<open>objectGet\<close> case, in each of its four outcomes.\<close>

lemma objectGet_first:
  "typecheck obj tyEnv = Inr (Object props) \<Longrightarrow> i < length props \<Longrightarrow>
   fst (props ! i) = name \<Longrightarrow> \<forall>j < i. fst (props ! j) \<noteq> name \<Longrightarrow>
   typecheck (TobjectGet obj name) tyEnv = Inr (snd (props ! i))"
  using find_prop_first [of i props name] by simp

lemma find_prop_None: "name \<notin> fst ` set props \<Longrightarrow> find_prop props name = None"
  by (induction props) auto

lemma objectGet_unknown:
  "typecheck obj tyEnv = Inr (Object props) \<Longrightarrow> name \<notin> fst ` set props \<Longrightarrow>
   typecheck (TobjectGet obj name) tyEnv =
     Inl (''unknown property: '' @ name, TobjectGet obj name)"
  by (simp add: find_prop_None)

lemma objectGet_not_object:
  "typecheck obj tyEnv = Inr objectTy \<Longrightarrow> \<forall>props. objectTy \<noteq> Object props \<Longrightarrow>
   typecheck (TobjectGet obj name) tyEnv = Inl (''object type expected'', TobjectGet obj name)"
  by (cases objectTy) simp_all

lemma objectGet_obj_fails:
  "typecheck obj tyEnv = Inl e \<Longrightarrow> typecheck (TobjectGet obj name) tyEnv = Inl e"
  by simp

lemma objectGet_objectNew_first:
  assumes typed: "\<forall>p \<in> set props. \<exists>ty. typecheck (snd p) tyEnv = Inr ty"
    and i: "i < length props" and name: "fst (props ! i) = name"
    and first: "\<forall>j < i. fst (props ! j) \<noteq> name"
  shows "typecheck (TobjectGet (TobjectNew props) name) tyEnv = typecheck (snd (props ! i)) tyEnv"
proof -
  have "\<not> (\<exists>e. typecheck (TobjectNew props) tyEnv = Inl e)"
  proof
    assume "\<exists>e. typecheck (TobjectNew props) tyEnv = Inl e"
    then obtain e where "typecheck (TobjectNew props) tyEnv = Inl e" ..
    then obtain k where "k < length props" and "typecheck (snd (props ! k)) tyEnv = Inl e"
      unfolding objectNew_Inl_iff by blast
    with typed show False
      by (metis nth_mem sum.distinct(1))
  qed
  then obtain ty where "typecheck (TobjectNew props) tyEnv = Inr ty"
    by (cases "typecheck (TobjectNew props) tyEnv") auto
  then obtain props' where new: "typecheck (TobjectNew props) tyEnv = Inr (Object props')"
    and len: "length props' = length props"
    and each: "\<forall>i < length props. fst (props' ! i) = fst (props ! i) \<and>
      typecheck (snd (props ! i)) tyEnv = Inr (snd (props' ! i))"
    unfolding objectNew_Inr_iff by blast
  have "typecheck (TobjectGet (TobjectNew props) name) tyEnv = Inr (snd (props' ! i))"
  proof (rule objectGet_first [OF new])
    show "i < length props'" using i len by simp
    show "fst (props' ! i) = name" using each i name by simp
    show "\<forall>j < i. fst (props' ! j) \<noteq> name"
      using each first i by (metis less_trans)
  qed
  with each i show ?thesis by simp
qed

text \<open>
  Claim C2, counterexample. The literal \<open>{ a: 1, a: true }\<close> is accepted, and reading
  \<open>a\<close> from it gives \<open>Number\<close>, the type of the first \<open>a\<close>; the last \<open>a\<close> has the type
  \<open>Boolean\<close>.
\<close>

theorem C2_objectGet_last_counterexample:
  "typecheck (TobjectGet (TobjectNew [(''a'', Tnumber 1), (''a'', Ttrue)]) ''a'') Map.empty =
     Inr Number \<and>
   typecheck (snd (last [(''a'', Tnumber 1), (''a'', Ttrue)])) Map.empty = Inr Boolean \<and>
   typecheck (TobjectGet (TobjectNew [(''a'', Tnumber 1), (''a'', Ttrue)]) ''a'') Map.empty \<noteq>
     typecheck (snd (last [(''a'', Tnumber 1), (''a'', Ttrue)])) Map.empty"
  by simp

text \<open>
  Claim C2, as amended. An \<open>objectNew\<close> term is never rejected because two of its
  properties share a name: it has a type exactly when every property term has one, and
  the type is then the \<open>Object\<close> type that lists, position by position, every property
  name beside the type of its term, repeated names included (the empty literal has the
  type \<open>Object []\<close>); it fails exactly with the error of the first property term, from
  the left, that fails. An \<open>objectGet\<close> on a term of an \<open>Object\<close> type returns the type
  of the first property of the requested name (position \<open>i\<close> below, with no property of
  the same name to its left) and fails with "unknown property" when no property has the
  name; it fails with "object type expected" on a type that is not an \<open>Object\<close>, and with
  the error of the term when the term fails. In particular, an \<open>objectGet\<close> on an
  \<open>objectNew\<close> whose property terms all have a type returns the type of the first
  occurrence of the name.
\<close>

theorem C2_objectGet_first_occurrence:
  "(typecheck (TobjectNew props) tyEnv = Inr ty \<longleftrightarrow>
      (\<exists>props'. ty = Object props' \<and> length props' = length props \<and>
         (\<forall>i < length props. fst (props' ! i) = fst (props ! i) \<and>
            typecheck (snd (props ! i)) tyEnv = Inr (snd (props' ! i))))) \<and>
   (typecheck (TobjectNew props) tyEnv = Inl e \<longleftrightarrow>
      (\<exists>i < length props. typecheck (snd (props ! i)) tyEnv = Inl e \<and>
         (\<forall>j < i. \<exists>ty. typecheck (snd (props ! j)) tyEnv = Inr ty))) \<and>
   (typecheck obj tyEnv = Inr (Object oprops) \<and> i < length oprops \<and>
    fst (oprops ! i) = name \<and> (\<forall>j < i. fst (oprops ! j) \<noteq> name) \<longrightarrow>
      typecheck (TobjectGet obj name) tyEnv = Inr (snd (oprops ! i))) \<and>
   (typecheck obj tyEnv = Inr (Object oprops) \<and> name \<notin> fst ` set oprops \<longrightarrow>
      typecheck (TobjectGet obj name) tyEnv =
        Inl (''unknown property: '' @ name, TobjectGet obj name)) \<and>
   (typecheck obj tyEnv = Inr objectTy \<and> (\<forall>ps. objectTy \<noteq> Object ps) \<longrightarrow>
      typecheck (TobjectGet obj name) tyEnv =
        Inl (''object type expected'', TobjectGet obj name)) \<and>
   (typecheck obj tyEnv = Inl e \<longrightarrow> typecheck (TobjectGet obj name) tyEnv = Inl e) \<and>
   ((\<forall>p \<in> set props. \<exists>ty. typecheck (snd p) tyEnv = Inr ty) \<and>
    k < length props \<and> fst (props ! k) = name \<and> (\<forall>j < k. fst (props ! j) \<noteq> name) \<longrightarrow>
      typecheck (TobjectGet (TobjectNew props) name) tyEnv = typecheck (snd (props ! k)) tyEnv)"
proof (intro conjI)
  show "typecheck (TobjectNew props) tyEnv = Inr ty \<longleftrightarrow>
      (\<exists>props'. ty = Object props' \<and> length props' = length props \<and>
         (\<forall>i < length props. fst (props' ! i) = fst (props ! i) \<and>
            typecheck (snd (props ! i)) tyEnv = Inr (snd (props' ! i))))"
    by (rule objectNew_Inr_iff)
  show "typecheck (TobjectNew props) tyEnv = Inl e \<longleftrightarrow>
      (\<exists>i < length props. typecheck (snd (props ! i)) tyEnv = Inl e \<and>
         (\<forall>j < i. \<exists>ty. typecheck (snd (props ! j)) tyEnv = Inr ty))"
    by (rule objectNew_Inl_iff)
  show "typecheck obj tyEnv = Inr (Object oprops) \<and> i < length oprops \<and>
    fst (oprops ! i) = name \<and> (\<forall>j < i. fst (oprops ! j) \<noteq> name) \<longrightarrow>
      typecheck (TobjectGet obj name) tyEnv = Inr (snd (oprops ! i))"
    by (intro impI, elim conjE) (rule objectGet_first)
  show "typecheck obj tyEnv = Inr (Object oprops) \<and> name \<notin> fst ` set oprops \<longrightarrow>
      typecheck (TobjectGet obj name) tyEnv =
        Inl (''unknown property: '' @ name, TobjectGet obj name)"
    by (intro impI, elim conjE) (rule objectGet_unknown)
  show "typecheck obj tyEnv = Inr objectTy \<and> (\<forall>ps. objectTy \<noteq> Object ps) \<longrightarrow>
      typecheck (TobjectGet obj name) tyEnv =
        Inl (''object type expected'', TobjectGet obj name)"
    by (intro impI, elim conjE) (rule objectGet_not_object)
  show "typecheck obj tyEnv = Inl e \<longrightarrow> typecheck (TobjectGet obj name) tyEnv = Inl e"
    by (intro impI) (rule objectGet_obj_fails)
  show "(\<forall>p \<in> set props. \<exists>ty. typecheck (snd p) tyEnv = Inr ty) \<and>
    k < length props \<and> fst (props ! k) = name \<and> (\<forall>j < k. fst (props ! j) \<noteq> name) \<longrightarrow>
      typecheck (TobjectGet (TobjectNew props) name) tyEnv = typecheck (snd (props ! k)) tyEnv"
    by (intro impI, elim conjE) (rule objectGet_objectNew_first)
qed

theorem C2_objectGet_first_occurrence_witness:
  "typecheck (TobjectNew [(''b'', Tfalse), (''a'', Tnumber 1), (''a'', Ttrue)]) Map.empty =
     Inr (Object [(''b'', Boolean), (''a'', Number), (''a'', Boolean)]) \<and>
   typecheck (TobjectNew []) Map.empty = Inr (Object []) \<and>
   typecheck (TobjectNew [(''a'', Tnumber 1), (''a'', Tvar ''y''), (''c'', Tvar ''z'')]) Map.empty =
     Inl (''unknown variable: y'', Tvar ''y'') \<and>
   typecheck (TobjectGet (TobjectNew [(''b'', Tfalse), (''a'', Tnumber 1), (''a'', Ttrue)]) ''a'')
     Map.empty = Inr Number \<and>
   typecheck (TobjectGet (Tvar ''o'') ''a'')
     [''o'' \<mapsto> Object [(''b'', Boolean), (''a'', Number), (''a'', Boolean)]] = Inr Number \<and>
   typecheck (TobjectGet (Tvar ''o'') ''baz'')
     [''o'' \<mapsto> Object [(''b'', Boolean), (''a'', Number), (''a'', Boolean)]] =
     Inl (''unknown property: baz'', TobjectGet (Tvar ''o'') ''baz'') \<and>
   typecheck (TobjectGet (Tnumber 1) ''a'') Map.empty =
     Inl (''object type expected'', TobjectGet (Tnumber 1) ''a'') \<and>
   typecheck (TobjectGet (Tvar ''o'') ''a'') Map.empty =
     Inl (''unknown variable: o'', Tvar ''o'')"
proof -
  let ?props = "[(''b'', Tfalse), (''a'', Tnumber 1), (''a'', Ttrue)]"
  let ?tys = "[(''b'', Boolean), (''a'', Number), (''a'', Boolean)]"
  let ?env = "[''o'' \<mapsto> Object ?tys]"
  let ?bad = "[(''a'', Tnumber 1), (''a'', Tvar ''y''), (''c'', Tvar ''z'')]"
  have w1: "typecheck (TobjectNew ?props) Map.empty = Inr (Object ?tys)"
    by (rule C2_objectGet_first_occurrence [where props = ?props and tyEnv = Map.empty
          and ty = "Object ?tys", THEN conjunct1, THEN iffD2])
      (rule exI [of _ ?tys], simp add: All_less_Suc2)
  have w1e: "typecheck (TobjectNew []) Map.empty = Inr (Object [])"
    by (rule C2_objectGet_first_occurrence [where props = "[]" and tyEnv = Map.empty
          and ty = "Object []", THEN conjunct1, THEN iffD2])
      simp
  have w2: "typecheck (TobjectNew ?bad) Map.empty = Inl (''unknown variable: y'', Tvar ''y'')"
    by (rule C2_objectGet_first_occurrence [where props = ?bad and tyEnv = Map.empty
          and e = "(''unknown variable: y'', Tvar ''y'')", THEN conjunct2, THEN conjunct1, THEN iffD2])
      (rule exI [of _ 1], simp)
  have w7: "typecheck (TobjectGet (TobjectNew ?props) ''a'') Map.empty =
      typecheck (snd (?props ! 1)) Map.empty"
    by (rule C2_objectGet_first_occurrence [where props = ?props and tyEnv = Map.empty
          and k = 1 and name = "''a''", THEN conjunct2, THEN conjunct2, THEN conjunct2, THEN conjunct2, THEN conjunct2, THEN conjunct2, THEN mp])
      simp
  then have w7': "typecheck (TobjectGet (TobjectNew ?props) ''a'') Map.empty = Inr Number"
    by simp
  have "typecheck (TobjectGet (Tvar ''o'') ''a'') ?env = Inr (snd (?tys ! 1))"
    by (rule C2_objectGet_first_occurrence [where obj = "Tvar ''o''" and tyEnv = ?env
          and oprops = ?tys and i = 1 and name = "''a''", THEN conjunct2, THEN conjunct2, THEN conjunct1, THEN mp])
      simp
  then have w3: "typecheck (TobjectGet (Tvar ''o'') ''a'') ?env = Inr Number"
    by simp
  have "typecheck (TobjectGet (Tvar ''o'') ''baz'') ?env =
      Inl (''unknown property: '' @ ''baz'', TobjectGet (Tvar ''o'') ''baz'')"
    by (rule C2_objectGet_first_occurrence [where obj = "Tvar ''o''" and tyEnv = ?env
          and oprops = ?tys and name = "''baz''", THEN conjunct2, THEN conjunct2, THEN conjunct2, THEN conjunct1, THEN mp])
      simp
  then have w4: "typecheck (TobjectGet (Tvar ''o'') ''baz'') ?env =
      Inl (''unknown property: baz'', TobjectGet (Tvar ''o'') ''baz'')"
    by simp
  have w5: "typecheck (TobjectGet (Tnumber 1) ''a'') Map.empty =
      Inl (''object type expected'', TobjectGet (Tnumber 1) ''a'')"
    by (rule C2_objectGet_first_occurrence [where obj = "Tnumber 1" and tyEnv = Map.empty
          and objectTy = Number and name = "''a''", THEN conjunct2, THEN conjunct2, THEN conjunct2, THEN conjunct2, THEN conjunct1, THEN mp])
      simp
  have w6: "typecheck (TobjectGet (Tvar ''o'') ''a'') Map.empty =
      Inl (''unknown variable: o'', Tvar ''o'')"
    by (rule C2_objectGet_first_occurrence [where obj = "Tvar ''o''" and tyEnv = Map.empty
          and e = "(''unknown variable: o'', Tvar ''o'')" and name = "''a''", THEN conjunct2, THEN conjunct2, THEN conjunct2, THEN conjunct2, THEN conjunct2, THEN conjunct1, THEN mp])
      simp
  show ?thesis
    by (intro conjI) (fact w1 w1e w2 w7' w3 w4 w5 w6)+
qed

section \<open>typeEq on one and the same type\<close>

text \<open>
  Claim C3. The claim expects \<open>typeEq(a, a)\<close> to be true for every type the checker
  constructs, the \<open>Object\<close> types of \<open>objectNew\<close> with a repeated property name
  included, and the comments of the source say the same: \<open>typeEq\<close> is to tell whether
  \<open>ty1\<close> and \<open>ty2\<close> are the same type, and the \<open>if\<close> case is to fail when the types
  of the two branches differ. The source does otherwise. From the literal
  \<open>{ x: 1, x: true }\<close> the checker builds the type \<open>{ x: Number, x: Boolean }\<close>, and
  \<open>typeEq\<close> of this type and itself is false: the lookup for the second \<open>x\<close> finds the
  first one, a \<open>Number\<close>, and compares it with \<open>Boolean\<close>. So a conditional whose two
  branches are this same literal is rejected with "then and else must have the same
  type".
\<close>

theorem C3_typeEq_not_reflexive:
  "typecheck (TobjectNew [(''x'', Tnumber 1), (''x'', Ttrue)]) Map.empty =
     Inr (Object [(''x'', Number), (''x'', Boolean)]) \<and>
   \<not> typeEq (Object [(''x'', Number), (''x'', Boolean)]) (Object [(''x'', Number), (''x'', Boolean)]) \<and>
   typecheck (Tif Ttrue (TobjectNew [(''x'', Tnumber 1), (''x'', Ttrue)])
                        (TobjectNew [(''x'', Tnumber 1), (''x'', Ttrue)])) Map.empty =
     Inl (''then and else must have the same type'',
          Tif Ttrue (TobjectNew [(''x'', Tnumber 1), (''x'', Ttrue)])
                    (TobjectNew [(''x'', Tnumber 1), (''x'', Ttrue)]))"
  by simp

section \<open>typeEq on object types: characterisation and symmetry (src/obj.ts, lines 72-88)\<close>

lemma distinct_props_ObjectD:
  "distinct_props (Object props) \<Longrightarrow> (name, ty) \<in> set props \<Longrightarrow> distinct_props ty"
  by (auto simp: list_all_iff)

text \<open>
  Two lists of pairwise distinct names of the same length, one inside the other, hold
  the same names.
\<close>

lemma same_names:
  assumes "distinct (map fst props1)" and "distinct (map fst props2)"
    and "length props1 = length props2"
    and "fst ` set props2 \<subseteq> fst ` set props1"
  shows "fst ` set props1 = fst ` set props2"
proof -
  have "card (fst ` set props1) = length props1"
    using assms(1) distinct_card [of "map fst props1"] by simp
  moreover have "card (fst ` set props2) = length props2"
    using assms(2) distinct_card [of "map fst props2"] by simp
  ultimately have "card (fst ` set props1) = card (fst ` set props2)"
    using assms(3) by simp
  with assms(4) show ?thesis
    by (metis card_subset_eq finite_imageI finite_set)
qed

lemma typeEq_sym_distinct:
  "distinct_props a \<Longrightarrow> distinct_props b \<Longrightarrow> typeEq a b \<Longrightarrow> typeEq b a"
proof (induction a arbitrary: b)
  case Boolean
  then show ?case by (cases b) simp_all
next
  case Number
  then show ?case by (cases b) simp_all
next
  case (Func params retType)
  from Func.prems(3) obtain params' retType' where b: "b = Func params' retType'"
    by (cases b) simp_all
  from Func.prems(3) have len: "length params = length params'"
    and ps: "\<forall>i < length params. typeEq (snd (params ! i)) (snd (params' ! i))"
    and r: "typeEq retType retType'"
    by (simp_all add: b typeEq_Func_iff)
  have "typeEq (snd (params' ! i)) (snd (params ! i))" if i: "i < length params" for i
  proof -
    obtain n t where nt: "params ! i = (n, t)" by (cases "params ! i")
    from i have mem: "(n, t) \<in> set params"
      using nth_mem [of i params] by (simp add: nt)
    have in_snds: "t \<in> Basic_BNFs.snds (n, t)" by (simp add: snds.simps)
    from Func.prems(1) mem have dt: "distinct_props t"
      by (auto simp: list_all_iff)
    from i len have "params' ! i \<in> set params'" by simp
    with Func.prems(2) have dt': "distinct_props (snd (params' ! i))"
      by (simp add: b list_all_iff)
    from ps i have "typeEq (snd (params ! i)) (snd (params' ! i))" by blast
    then have "typeEq t (snd (params' ! i))" by (simp add: nt)
    with dt dt' have "typeEq (snd (params' ! i)) t"
      using Func.IH(1) [OF mem in_snds] by blast
    then show ?thesis by (simp add: nt)
  qed
  moreover have "typeEq retType' retType"
    using Func.IH(2) Func.prems r by (simp add: b)
  ultimately show ?case
    using len by (simp add: b typeEq_Func_iff)
next
  case (Object props)
  from Object.prems(3) obtain props' where b: "b = Object props'"
    by (cases b) simp_all
  from Object.prems(3) have len: "length props = length props'"
    and found: "\<forall>p \<in> set props'. \<exists>ty. find_prop props (fst p) = Some ty \<and> typeEq ty (snd p)"
    by (simp_all add: b typeEq_Object_iff)
  from Object.prems(1) have d: "distinct (map fst props)" by simp
  from Object.prems(2) have d': "distinct (map fst props')" by (simp add: b)
  have "fst ` set props' \<subseteq> fst ` set props"
  proof
    fix n assume "n \<in> fst ` set props'"
    then obtain p where p: "p \<in> set props'" and n: "n = fst p" by blast
    with found obtain ty where "find_prop props n = Some ty" by blast
    then have "(n, ty) \<in> set props" by (rule find_prop_Some_mem)
    then show "n \<in> fst ` set props" by force
  qed
  with d d' len have names: "fst ` set props = fst ` set props'"
    by (rule same_names)
  have "\<exists>ty'. find_prop props' (fst p) = Some ty' \<and> typeEq ty' (snd p)"
    if p: "p \<in> set props" for p
  proof -
    obtain n t where nt: "p = (n, t)" by (cases p)
    from p have "n \<in> fst ` set props" by (force simp: nt)
    with names obtain t' where mem': "(n, t') \<in> set props'" by force
    with d' have f': "find_prop props' n = Some t'"
      by (simp only: find_prop_distinct)
    from found mem' obtain ty where "find_prop props n = Some ty" and eq: "typeEq ty t'"
      by force
    moreover from d p have "find_prop props n = Some t"
      by (simp only: find_prop_distinct nt)
    ultimately have "typeEq t t'" by simp
    moreover have "distinct_props t"
      using Object.prems(1) p distinct_props_ObjectD nt by blast
    moreover have "distinct_props t'"
      using Object.prems(2) mem' distinct_props_ObjectD b by blast
    moreover have "t \<in> Basic_BNFs.snds p" by (simp add: nt snds.simps)
    ultimately have "typeEq t' t"
      using Object.IH [OF p] by blast
    with f' show ?thesis by (simp add: nt)
  qed
  with len show ?case
    by (simp add: b typeEq_Object_iff)
qed

text \<open>An object type with pairwise distinct names is equal to each reordering of itself.\<close>

lemma typeEq_Object_reorder:
  assumes d: "distinct_props (Object props1)" and perm: "mset props2 = mset props1"
  shows "typeEq (Object props1) (Object props2)"
proof -
  from perm have set_eq: "set props2 = set props1" by (rule mset_eq_setD)
  from perm have len: "length props1 = length props2" by (metis size_mset)
  from d have dn: "distinct (map fst props1)" by simp
  have "\<exists>ty. find_prop props1 (fst p) = Some ty \<and> typeEq ty (snd p)" if "p \<in> set props2" for p
  proof -
    from that set_eq have mem: "(fst p, snd p) \<in> set props1" by simp
    with dn have "find_prop props1 (fst p) = Some (snd p)"
      by (simp only: find_prop_distinct)
    moreover from d mem have "distinct_props (snd p)"
      by (rule distinct_props_ObjectD)
    then have "typeEq (snd p) (snd p)" by (rule typeEq_refl_distinct)
    ultimately show ?thesis by blast
  qed
  with len show ?thesis by (simp add: typeEq_Object_iff)
qed

lemma distinct_props_reorder:
  assumes d: "distinct_props (Object props1)" and perm: "mset props2 = mset props1"
  shows "distinct_props (Object props2)"
proof -
  from perm have "mset (map fst props2) = mset (map fst props1)"
    by (metis mset_map)
  with d have "distinct (map fst props2)"
    by (metis distinct_props.simps(4) mset_eq_imp_distinct_iff)
  moreover from perm have "set props2 = set props1" by (rule mset_eq_setD)
  with d have "list_all (\<lambda>p. distinct_props (snd p)) props2"
    by (simp add: list_all_iff)
  ultimately show ?thesis by simp
qed

text \<open>
  Claim C4, counterexample. First: \<open>{ x: Number, x: Boolean }\<close> and
  \<open>{ x: Boolean, x: Boolean }\<close> are both \<open>Object\<close> types with two properties, and every
  property of the second occurs by name in the first with a \<open>typeEq\<close> type, yet
  \<open>typeEq\<close> returns false: the lookup stops at the first \<open>x\<close>. Second: with
  \<open>u = { x: Number, y: Number }\<close> and \<open>v = { x: Number, x: Number }\<close>, the types
  \<open>{ p: u, p: v }\<close> and \<open>{ p: v, p: u }\<close> list the same properties in a different order,
  and \<open>typeEq\<close> is true in one direction and false in the other.
\<close>

theorem C4_typeEq_object_counterexample:
  "\<not> typeEq (Object [(''x'', Number), (''x'', Boolean)]) (Object [(''x'', Boolean), (''x'', Boolean)]) \<and>
   length [(''x'', Number), (''x'', Boolean)] = length [(''x'', Boolean), (''x'', Boolean)] \<and>
   list_all (\<lambda>p. list_ex (\<lambda>q. fst q = fst p \<and> typeEq (snd q) (snd p))
       [(''x'', Number), (''x'', Boolean)]) [(''x'', Boolean), (''x'', Boolean)] \<and>
   mset [(''p'', Object [(''x'', Number), (''x'', Number)]),
         (''p'', Object [(''x'', Number), (''y'', Number)])] =
   mset [(''p'', Object [(''x'', Number), (''y'', Number)]),
         (''p'', Object [(''x'', Number), (''x'', Number)])] \<and>
   typeEq (Object [(''p'', Object [(''x'', Number), (''y'', Number)]),
                   (''p'', Object [(''x'', Number), (''x'', Number)])])
          (Object [(''p'', Object [(''x'', Number), (''x'', Number)]),
                   (''p'', Object [(''x'', Number), (''y'', Number)])]) \<and>
   \<not> typeEq (Object [(''p'', Object [(''x'', Number), (''x'', Number)]),
                     (''p'', Object [(''x'', Number), (''y'', Number)])])
            (Object [(''p'', Object [(''x'', Number), (''y'', Number)]),
                     (''p'', Object [(''x'', Number), (''x'', Number)])])"
  by simp

text \<open>
  Claim C4, as amended. \<open>typeEq(ty1, ty2)\<close> with \<open>ty2\<close> an \<open>Object\<close> is true exactly when
  \<open>ty1\<close> is an \<open>Object\<close> too, both have the same number of properties, and for every
  property of \<open>ty2\<close> the first property of \<open>ty1\<close> with that name exists and has a
  \<open>typeEq\<close> type. When the property names of \<open>ty1\<close> are pairwise distinct, this is:
  every property of \<open>ty2\<close> occurs by name in \<open>ty1\<close> with a \<open>typeEq\<close> type. On types
  whose \<open>Object\<close> types list pairwise distinct names at every depth, \<open>typeEq\<close> is
  symmetric, and such an \<open>Object\<close> type is \<open>typeEq\<close>, in both directions, to every
  reordering of its property list.
\<close>

theorem C4_typeEq_object:
  "typeEq tyA (Object propsB) =
     (\<exists>propsA. tyA = Object propsA \<and> length propsA = length propsB \<and>
        (\<forall>p \<in> set propsB. \<exists>ty. find_prop propsA (fst p) = Some ty \<and> typeEq ty (snd p))) \<and>
   (distinct (map fst propsC) \<longrightarrow>
      typeEq (Object propsC) (Object propsB) =
        (length propsC = length propsB \<and>
         (\<forall>p \<in> set propsB. \<exists>q \<in> set propsC. fst q = fst p \<and> typeEq (snd q) (snd p)))) \<and>
   (distinct_props a \<and> distinct_props b \<longrightarrow> typeEq a b = typeEq b a) \<and>
   (distinct_props (Object propsD) \<and> mset propsE = mset propsD \<longrightarrow>
      typeEq (Object propsD) (Object propsE) \<and> typeEq (Object propsE) (Object propsD))"
proof (intro conjI impI; (elim conjE)?)
  show "typeEq tyA (Object propsB) =
     (\<exists>propsA. tyA = Object propsA \<and> length propsA = length propsB \<and>
        (\<forall>p \<in> set propsB. \<exists>ty. find_prop propsA (fst p) = Some ty \<and> typeEq ty (snd p)))"
    by (rule typeEq_Object_iff)
next
  assume d: "distinct (map fst propsC)"
  have "(\<exists>ty. find_prop propsC (fst p) = Some ty \<and> typeEq ty (snd p)) =
      (\<exists>q \<in> set propsC. fst q = fst p \<and> typeEq (snd q) (snd p))" for p
  proof
    assume "\<exists>ty. find_prop propsC (fst p) = Some ty \<and> typeEq ty (snd p)"
    then obtain ty where "find_prop propsC (fst p) = Some ty" and eq: "typeEq ty (snd p)"
      by blast
    then have "(fst p, ty) \<in> set propsC" by (simp add: find_prop_Some_mem)
    moreover have "fst (fst p, ty) = fst p \<and> typeEq (snd (fst p, ty)) (snd p)"
      using eq by simp
    ultimately show "\<exists>q \<in> set propsC. fst q = fst p \<and> typeEq (snd q) (snd p)"
      by (rule rev_bexI)
  next
    assume "\<exists>q \<in> set propsC. fst q = fst p \<and> typeEq (snd q) (snd p)"
    then obtain q where q: "q \<in> set propsC" and n: "fst q = fst p"
      and eq: "typeEq (snd q) (snd p)"
      by blast
    from q n have "(fst p, snd q) \<in> set propsC" by (metis prod.collapse)
    with d have "find_prop propsC (fst p) = Some (snd q)"
      by (simp only: find_prop_distinct)
    with eq show "\<exists>ty. find_prop propsC (fst p) = Some ty \<and> typeEq ty (snd p)"
      by blast
  qed
  then show "typeEq (Object propsC) (Object propsB) =
        (length propsC = length propsB \<and>
         (\<forall>p \<in> set propsB. \<exists>q \<in> set propsC. fst q = fst p \<and> typeEq (snd q) (snd p)))"
    by (simp add: typeEq_Object_iff)
next
  assume "distinct_props a" and "distinct_props b"
  then show "typeEq a b = typeEq b a"
    using typeEq_sym_distinct by blast
next
  assume "distinct_props (Object propsD)" and "mset propsE = mset propsD"
  then show "typeEq (Object propsD) (Object propsE)"
    by (rule typeEq_Object_reorder)
next
  assume d: "distinct_props (Object propsD)" and perm: "mset propsE = mset propsD"
  then have "distinct_props (Object propsE)"
    by (rule distinct_props_reorder)
  moreover from perm have "mset propsD = mset propsE" by simp
  ultimately show "typeEq (Object propsE) (Object propsD)"
    by (rule typeEq_Object_reorder)
qed

theorem C4_typeEq_object_witness:
  "distinct_props (Object [(''foo'', Number), (''bar'', Boolean)]) \<and>
   mset [(''bar'', Boolean), (''foo'', Number)] = mset [(''foo'', Number), (''bar'', Boolean)] \<and>
   typeEq (Object [(''foo'', Number), (''bar'', Boolean)])
          (Object [(''bar'', Boolean), (''foo'', Number)]) \<and>
   typeEq (Object [(''bar'', Boolean), (''foo'', Number)])
          (Object [(''foo'', Number), (''bar'', Boolean)]) \<and>
   distinct_props (Object [(''foo'', Boolean), (''bar'', Boolean)]) \<and>
   \<not> typeEq (Object [(''foo'', Number), (''bar'', Boolean)])
            (Object [(''foo'', Boolean), (''bar'', Boolean)]) \<and>
   \<not> typeEq (Object [(''foo'', Boolean), (''bar'', Boolean)])
            (Object [(''foo'', Number), (''bar'', Boolean)]) \<and>
   \<not> typeEq Number (Object [])"
proof -
  let ?D = "[(''foo'', Number), (''bar'', Boolean)]"
  let ?E = "[(''bar'', Boolean), (''foo'', Number)]"
  let ?F = "[(''foo'', Boolean), (''bar'', Boolean)]"
  note inst = C4_typeEq_object [where tyA = Number and propsB = "[]" and propsC = "[]"
      and a = "Object ?D" and b = "Object ?F" and propsD = ?D and propsE = ?E]
  have d: "distinct_props (Object ?D)" by simp
  have f: "distinct_props (Object ?F)" by simp
  have perm: "mset ?E = mset ?D" by simp
  have reorder: "typeEq (Object ?D) (Object ?E) \<and> typeEq (Object ?E) (Object ?D)"
    using inst d perm by blast
  have ne: "\<not> typeEq (Object ?D) (Object ?F)" by simp
  have "typeEq (Object ?D) (Object ?F) = typeEq (Object ?F) (Object ?D)"
    using inst d f by blast
  with ne have ne': "\<not> typeEq (Object ?F) (Object ?D)" by blast
  have "\<not> typeEq Number (Object [])"
    using inst by simp
  with d f perm reorder ne ne' show ?thesis by blast
qed

section \<open>Environments as mutable objects\<close>

text \<open>
  In the source a \<open>TypeEnv\<close> is a JavaScript object, passed by reference: a callee could
  write into the object of its caller. To state that \<open>typecheck\<close> never does, the
  environments are placed in a store. A store is the list of the environment objects
  allocated so far, an address is a position in it. \<open>copy_env\<close> is the object spread
  \<open>{ ...tyEnv }\<close>, which allocates a new object holding the bindings of the object at
  \<open>tyEnv\<close>; \<open>set_prop\<close> is the assignment \<open>newTyEnv[name] = type\<close>, which writes into
  the object at the given address; \<open>get_prop\<close> is the read \<open>tyEnv[name]\<close>.
\<close>

type_synonym addr = nat

definition copy_env :: "(string \<rightharpoonup> 'ty) list \<Rightarrow> addr \<Rightarrow> addr \<times> (string \<rightharpoonup> 'ty) list" where
  "copy_env store tyEnv = (length store, store @ [store ! tyEnv])"

definition set_prop ::
  "(string \<rightharpoonup> 'ty) list \<Rightarrow> addr \<Rightarrow> string \<Rightarrow> 'ty \<Rightarrow> (string \<rightharpoonup> 'ty) list" where
  "set_prop store tyEnv name ty = store[tyEnv := (store ! tyEnv)(name \<mapsto> ty)]"

definition get_prop :: "(string \<rightharpoonup> 'ty) list \<Rightarrow> addr \<Rightarrow> string \<Rightarrow> 'ty option" where
  "get_prop store tyEnv name = (store ! tyEnv) name"

text \<open>\<open>for (const { name, type } of t.params) newTyEnv[name] = type\<close>, on the store.\<close>

fun set_params :: "(string \<rightharpoonup> 'ty) list \<Rightarrow> addr \<Rightarrow> (string \<times> 'ty) list \<Rightarrow> (string \<rightharpoonup> 'ty) list" where
  "set_params store newTyEnv [] = store"
| "set_params store newTyEnv ((name, type) # params) =
     set_params (set_prop store newTyEnv name type) newTyEnv params"

subsection \<open>typecheck of src/obj.ts on the store\<close>

text \<open>
  The same function as \<open>typecheck\<close> above, statement by statement, with the environment
  given by its address and the store threaded through every call. A throw leaves the
  store as it is at that point.
\<close>

type_synonym store = "TypeEnv list"

fun typecheck_st :: "Term \<Rightarrow> addr \<Rightarrow> store \<Rightarrow> (error + Type) \<times> store"
  and typecheck_args_st ::
    "Term list \<Rightarrow> Param list \<Rightarrow> addr \<Rightarrow> Term \<Rightarrow> store \<Rightarrow> (error + unit) \<times> store"
  and typecheck_props_st ::
    "PropertyTerm list \<Rightarrow> addr \<Rightarrow> store \<Rightarrow> (error + PropertyType list) \<times> store"
where
  "typecheck_st Ttrue tyEnv s = (Inr Boolean, s)"
| "typecheck_st Tfalse tyEnv s = (Inr Boolean, s)"
| "typecheck_st (Tif cond thn els) tyEnv s =
     (case typecheck_st cond tyEnv s of
        (Inl e, s1) \<Rightarrow> (Inl e, s1)
      | (Inr condTy, s1) \<Rightarrow>
          if condTy \<noteq> Boolean then (Inl (''boolean expected'', cond), s1)
          else (case typecheck_st thn tyEnv s1 of
            (Inl e, s2) \<Rightarrow> (Inl e, s2)
          | (Inr thnTy, s2) \<Rightarrow>
              (case typecheck_st els tyEnv s2 of
                 (Inl e, s3) \<Rightarrow> (Inl e, s3)
               | (Inr elsTy, s3) \<Rightarrow>
                   if \<not> typeEq thnTy elsTy
                   then (Inl (''then and else must have the same type'', Tif cond thn els), s3)
                   else (Inr thnTy, s3))))"
| "typecheck_st (Tnumber n) tyEnv s = (Inr Number, s)"
| "typecheck_st (Tadd left right) tyEnv s =
     (case typecheck_st left tyEnv s of
        (Inl e, s1) \<Rightarrow> (Inl e, s1)
      | (Inr leftTy, s1) \<Rightarrow>
          if leftTy \<noteq> Number then (Inl (''number expected'', left), s1)
          else (case typecheck_st right tyEnv s1 of
            (Inl e, s2) \<Rightarrow> (Inl e, s2)
          | (Inr rightTy, s2) \<Rightarrow>
              if rightTy \<noteq> Number then (Inl (''number expected'', right), s2)
              else (Inr Number, s2)))"
| "typecheck_st (Tvar name) tyEnv s =
     (case get_prop s tyEnv name of
        None \<Rightarrow> (Inl (''unknown variable: '' @ name, Tvar name), s)
      | Some ty \<Rightarrow> (Inr ty, s))"
| "typecheck_st (Tfunc params body) tyEnv s =
     (case copy_env s tyEnv of
        (newTyEnv, s1) \<Rightarrow>
          (case typecheck_st body newTyEnv (set_params s1 newTyEnv params) of
             (Inl e, s2) \<Rightarrow> (Inl e, s2)
           | (Inr retType, s2) \<Rightarrow> (Inr (Func params retType), s2)))"
| "typecheck_st (Tcall func args) tyEnv s =
     (case typecheck_st func tyEnv s of
        (Inl e, s1) \<Rightarrow> (Inl e, s1)
      | (Inr funcTy, s1) \<Rightarrow>
          (case funcTy of
             Func params retType \<Rightarrow>
               if length params \<noteq> length args
               then (Inl (''wrong number of arguments'', Tcall func args), s1)
               else (case typecheck_args_st args params tyEnv (Tcall func args) s1 of
                 (Inl e, s2) \<Rightarrow> (Inl e, s2)
               | (Inr _, s2) \<Rightarrow> (Inr retType, s2))
           | _ \<Rightarrow> (Inl (''function type expected'', Tcall func args), s1)))"
| "typecheck_st (Tseq body rest) tyEnv s =
     (case typecheck_st body tyEnv s of
        (Inl e, s1) \<Rightarrow> (Inl e, s1)
      | (Inr _, s1) \<Rightarrow> typecheck_st rest tyEnv s1)"
| "typecheck_st (Tconst name init rest) tyEnv s =
     (case typecheck_st init tyEnv s of
        (Inl e, s1) \<Rightarrow> (Inl e, s1)
      | (Inr ty, s1) \<Rightarrow>
          (case copy_env s1 tyEnv of
             (newTyEnv, s2) \<Rightarrow> typecheck_st rest newTyEnv (set_prop s2 newTyEnv name ty)))"
| "typecheck_st (TobjectNew props) tyEnv s =
     (case typecheck_props_st props tyEnv s of
        (Inl e, s1) \<Rightarrow> (Inl e, s1)
      | (Inr props', s1) \<Rightarrow> (Inr (Object props'), s1))"
| "typecheck_st (TobjectGet obj propName) tyEnv s =
     (case typecheck_st obj tyEnv s of
        (Inl e, s1) \<Rightarrow> (Inl e, s1)
      | (Inr objectTy, s1) \<Rightarrow>
          (case objectTy of
             Object props \<Rightarrow>
               (case find_prop props propName of
                  None \<Rightarrow> (Inl (''unknown property: '' @ propName, TobjectGet obj propName), s1)
                | Some ty \<Rightarrow> (Inr ty, s1))
           | _ \<Rightarrow> (Inl (''object type expected'', TobjectGet obj propName), s1)))"
| "typecheck_args_st (arg # args) (param # params) tyEnv t s =
     (case typecheck_st arg tyEnv s of
        (Inl e, s1) \<Rightarrow> (Inl e, s1)
      | (Inr argTy, s1) \<Rightarrow>
          if \<not> typeEq argTy (snd param) then (Inl (''parameter type mismatch'', t), s1)
          else typecheck_args_st args params tyEnv t s1)"
| "typecheck_args_st args params tyEnv t s = (Inr (), s)"
| "typecheck_props_st [] tyEnv s = (Inr [], s)"
| "typecheck_props_st ((name, term) # props) tyEnv s =
     (case typecheck_st term tyEnv s of
        (Inl e, s1) \<Rightarrow> (Inl e, s1)
      | (Inr ty, s1) \<Rightarrow>
          (case typecheck_props_st props tyEnv s1 of
             (Inl e, s2) \<Rightarrow> (Inl e, s2)
           | (Inr props', s2) \<Rightarrow> (Inr ((name, ty) # props'), s2)))"

subsection \<open>The store only grows\<close>

lemma set_params_new_aux:
  assumes f: "\<And>n ty e. f (n, ty) e = e(n \<mapsto> ty)"
  shows "set_params (s @ [env]) (length s) params = s @ [fold f params env]"
proof (induction params arbitrary: env)
  case Nil
  then show ?case by simp
next
  case (Cons p ps)
  obtain n ty where p: "p = (n, ty)" by (cases p)
  have "set_params (s @ [env]) (length s) (p # ps) =
      set_params (set_prop (s @ [env]) (length s) n ty) (length s) ps"
    by (simp add: p)
  also have "set_prop (s @ [env]) (length s) n ty = s @ [env(n \<mapsto> ty)]"
    by (simp add: set_prop_def)
  also have "set_params (s @ [env(n \<mapsto> ty)]) (length s) ps = s @ [fold f ps (env(n \<mapsto> ty))]"
    by (rule Cons.IH)
  also have "fold f ps (env(n \<mapsto> ty)) = fold f (p # ps) env"
    by (simp add: p f)
  finally show ?case .
qed

lemma set_params_new:
  "set_params (s @ [env]) (length s) params =
     s @ [fold (\<lambda>(name, type) newTyEnv. newTyEnv(name \<mapsto> type)) params env]"
  by (rule set_params_new_aux) simp

lemma set_prop_new: "set_prop (s @ [env]) (length s) name ty = s @ [env(name \<mapsto> ty)]"
  by (simp add: set_prop_def)

text \<open>
  The loops over the arguments and over the properties, given that every element they
  check computes the result of the pure function and only appends to the store.
\<close>

lemma typecheck_args_st_grow:
  assumes elems: "\<And>arg tyEnv s. arg \<in> set args \<Longrightarrow> tyEnv < length s \<Longrightarrow>
      \<exists>new. typecheck_st arg tyEnv s = (typecheck arg (s ! tyEnv), s @ new)"
  shows "tyEnv < length s \<Longrightarrow>
    \<exists>new. typecheck_args_st args params tyEnv t s =
      (typecheck_args args params (s ! tyEnv) t, s @ new)"
  using elems
proof (induction args arbitrary: params s)
  case Nil
  then show ?case by simp
next
  case (Cons a as)
  show ?case
  proof (cases params)
    case Nil
    then show ?thesis by simp
  next
    case (Cons p ps)
    from Cons.prems obtain n1 where
      a: "typecheck_st a tyEnv s = (typecheck a (s ! tyEnv), s @ n1)"
      by (metis list.set_intros(1))
    have env1: "tyEnv < length (s @ n1)" "(s @ n1) ! tyEnv = s ! tyEnv"
      using Cons.prems(1) by (simp_all add: nth_append)
    have "\<exists>new. typecheck_args_st as ps tyEnv t (s @ n1) =
        (typecheck_args as ps ((s @ n1) ! tyEnv) t, (s @ n1) @ new)"
      using env1(1) Cons.prems(2) by (intro Cons.IH) auto
    then obtain n2 where
      as: "typecheck_args_st as ps tyEnv t (s @ n1) =
        (typecheck_args as ps (s ! tyEnv) t, s @ n1 @ n2)"
      using env1(2) by auto
    show ?thesis
      by (simp add: Cons a as split: sum.splits)
  qed
qed

lemma typecheck_props_st_grow:
  assumes elems: "\<And>p tyEnv s. p \<in> set props \<Longrightarrow> tyEnv < length s \<Longrightarrow>
      \<exists>new. typecheck_st (snd p) tyEnv s = (typecheck (snd p) (s ! tyEnv), s @ new)"
  shows "tyEnv < length s \<Longrightarrow>
    \<exists>new. typecheck_props_st props tyEnv s = (typecheck_props props (s ! tyEnv), s @ new)"
  using elems
proof (induction props arbitrary: s)
  case Nil
  then show ?case by simp
next
  case (Cons p ps)
  obtain name "term" where p: "p = (name, term)" by (cases p)
  from Cons.prems(1) Cons.prems(2) [of p tyEnv s] obtain n1 where
    t: "typecheck_st term tyEnv s = (typecheck term (s ! tyEnv), s @ n1)"
    by (auto simp: p)
  have env1: "tyEnv < length (s @ n1)" "(s @ n1) ! tyEnv = s ! tyEnv"
    using Cons.prems(1) by (simp_all add: nth_append)
  have "\<exists>new. typecheck_props_st ps tyEnv (s @ n1) =
      (typecheck_props ps ((s @ n1) ! tyEnv), (s @ n1) @ new)"
    using env1(1) Cons.prems(2) by (intro Cons.IH) auto
  then obtain n2 where
    ps: "typecheck_props_st ps tyEnv (s @ n1) = (typecheck_props ps (s ! tyEnv), s @ n1 @ n2)"
    using env1(2) by auto
  show ?case
    by (simp add: p t ps split: sum.splits)
qed

text \<open>
  Every call of \<open>typecheck\<close> on the store returns what the pure function returns on the
  bindings found at the address, and leaves a store that is the old one followed by the
  objects allocated during the call.
\<close>

lemma typecheck_st_grow:
  "tyEnv < length s \<Longrightarrow>
   \<exists>new. typecheck_st t tyEnv s = (typecheck t (s ! tyEnv), s @ new)"
proof (induction t arbitrary: tyEnv s)
  case Ttrue
  show ?case by simp
next
  case Tfalse
  show ?case by simp
next
  case (Tif cond thn els)
  from Tif.IH(1) [OF Tif.prems] obtain n1 where
    c: "typecheck_st cond tyEnv s = (typecheck cond (s ! tyEnv), s @ n1)"
    by blast
  have "tyEnv < length (s @ n1)" using Tif.prems by simp
  from Tif.IH(2) [OF this] obtain n2 where
    t: "typecheck_st thn tyEnv (s @ n1) = (typecheck thn (s ! tyEnv), s @ n1 @ n2)"
    using Tif.prems by (auto simp: nth_append)
  have "tyEnv < length (s @ n1 @ n2)" using Tif.prems by simp
  from Tif.IH(3) [OF this] obtain n3 where
    e: "typecheck_st els tyEnv (s @ n1 @ n2) = (typecheck els (s ! tyEnv), s @ n1 @ n2 @ n3)"
    using Tif.prems by (auto simp: nth_append)
  show ?case
    by (simp add: c t e split: sum.splits)
next
  case (Tnumber n)
  show ?case by simp
next
  case (Tadd left right)
  from Tadd.IH(1) [OF Tadd.prems] obtain n1 where
    l: "typecheck_st left tyEnv s = (typecheck left (s ! tyEnv), s @ n1)"
    by blast
  have "tyEnv < length (s @ n1)" using Tadd.prems by simp
  from Tadd.IH(2) [OF this] obtain n2 where
    r: "typecheck_st right tyEnv (s @ n1) = (typecheck right (s ! tyEnv), s @ n1 @ n2)"
    using Tadd.prems by (auto simp: nth_append)
  show ?case
    by (simp add: l r split: sum.splits)
next
  case (Tvar name)
  show ?case by (simp add: get_prop_def split: option.splits)
next
  case (Tfunc params body)
  have copy: "copy_env s tyEnv = (length s, s @ [s ! tyEnv])"
    by (simp add: copy_env_def)
  have written: "set_params (s @ [s ! tyEnv]) (length s) params =
      s @ [extend_params (s ! tyEnv) params]"
    by (simp add: set_params_new extend_params_def)
  have "length s < length (s @ [extend_params (s ! tyEnv) params])" by simp
  from Tfunc.IH [OF this] obtain n1 where
    b: "typecheck_st body (length s) (s @ [extend_params (s ! tyEnv) params]) =
      (typecheck body (extend_params (s ! tyEnv) params),
       s @ [extend_params (s ! tyEnv) params] @ n1)"
    by auto
  show ?case
    by (simp add: copy written b split: sum.splits)
next
  case (Tcall func args)
  from Tcall.IH(1) [OF Tcall.prems] obtain n1 where
    f: "typecheck_st func tyEnv s = (typecheck func (s ! tyEnv), s @ n1)"
    by blast
  have env1: "tyEnv < length (s @ n1)" "(s @ n1) ! tyEnv = s ! tyEnv"
    using Tcall.prems by (simp_all add: nth_append)
  have "\<exists>new. typecheck_args_st args params tyEnv (Tcall func args) (s @ n1) =
      (typecheck_args args params ((s @ n1) ! tyEnv) (Tcall func args), (s @ n1) @ new)"
    for params
    using env1(1) by (rule typecheck_args_st_grow [rotated]) (rule Tcall.IH(2))
  then have as: "\<exists>new. typecheck_args_st args params tyEnv (Tcall func args) (s @ n1) =
      (typecheck_args args params (s ! tyEnv) (Tcall func args), s @ n1 @ new)"
    for params
    using env1(2) by simp
  show ?case
  proof (cases "typecheck func (s ! tyEnv)")
    case (Inl e)
    then show ?thesis by (simp add: f)
  next
    case (Inr funcTy)
    show ?thesis
    proof (cases funcTy)
      case (Func params retType)
      from as [of params] obtain n2 where
        "typecheck_args_st args params tyEnv (Tcall func args) (s @ n1) =
          (typecheck_args args params (s ! tyEnv) (Tcall func args), s @ n1 @ n2)"
        by blast
      then show ?thesis
        by (simp add: f Inr Func split: sum.splits)
    qed (simp_all add: f Inr)
  qed
next
  case (Tseq body rest)
  from Tseq.IH(1) [OF Tseq.prems] obtain n1 where
    b: "typecheck_st body tyEnv s = (typecheck body (s ! tyEnv), s @ n1)"
    by blast
  have "tyEnv < length (s @ n1)" using Tseq.prems by simp
  from Tseq.IH(2) [OF this] obtain n2 where
    r: "typecheck_st rest tyEnv (s @ n1) = (typecheck rest (s ! tyEnv), s @ n1 @ n2)"
    using Tseq.prems by (auto simp: nth_append)
  show ?case
    by (simp add: b r split: sum.splits)
next
  case (Tconst name init rest)
  from Tconst.IH(1) [OF Tconst.prems] obtain n1 where
    i: "typecheck_st init tyEnv s = (typecheck init (s ! tyEnv), s @ n1)"
    by blast
  define s1 where "s1 = s @ n1"
  have i1: "typecheck_st init tyEnv s = (typecheck init (s ! tyEnv), s1)"
    by (simp add: i s1_def)
  have "s1 ! tyEnv = s ! tyEnv"
    using Tconst.prems by (simp add: s1_def nth_append)
  then have copy: "copy_env s1 tyEnv = (length s1, s1 @ [s ! tyEnv])"
    by (simp add: copy_env_def)
  show ?case
  proof (cases "typecheck init (s ! tyEnv)")
    case (Inl e)
    then show ?thesis by (simp add: i)
  next
    case (Inr ty)
    define env where "env = (s ! tyEnv)(name \<mapsto> ty)"
    have written: "set_prop (s1 @ [s ! tyEnv]) (length s1) name ty = s1 @ [env]"
      unfolding env_def by (rule set_prop_new)
    have "length s1 < length (s1 @ [env])" by simp
    from Tconst.IH(2) [OF this] obtain n2 where
      "typecheck_st rest (length s1) (s1 @ [env]) =
        (typecheck rest ((s1 @ [env]) ! length s1), (s1 @ [env]) @ n2)"
      by blast
    then have r: "typecheck_st rest (length s1) (s1 @ [env]) =
        (typecheck rest env, (s1 @ [env]) @ n2)"
      by (simp only: nth_append_length)
    have "typecheck (Tconst name init rest) (s ! tyEnv) = typecheck rest env"
      unfolding env_def by (simp add: Inr)
    moreover have "typecheck_st (Tconst name init rest) tyEnv s =
        (typecheck rest env, (s1 @ [env]) @ n2)"
      by (simp add: i1 Inr copy written r)
    ultimately show ?thesis
      by (simp add: s1_def)
  qed
next
  case (TobjectNew props)
  have "\<exists>new. typecheck_props_st props tyEnv s = (typecheck_props props (s ! tyEnv), s @ new)"
    using TobjectNew.prems
  proof (rule typecheck_props_st_grow [rotated])
    fix p :: PropertyTerm and tyEnv' :: addr and s' :: store
    assume "p \<in> set props" and "tyEnv' < length s'"
    moreover have "snd p \<in> Basic_BNFs.snds p" by (cases p) (simp add: snds.simps)
    ultimately show "\<exists>new. typecheck_st (snd p) tyEnv' s' =
        (typecheck (snd p) (s' ! tyEnv'), s' @ new)"
      using TobjectNew.IH by blast
  qed
  then obtain n1 where
    "typecheck_props_st props tyEnv s = (typecheck_props props (s ! tyEnv), s @ n1)"
    by blast
  then show ?case
    by (simp split: sum.splits)
next
  case (TobjectGet obj propName)
  from TobjectGet.IH [OF TobjectGet.prems] obtain n1 where
    "typecheck_st obj tyEnv s = (typecheck obj (s ! tyEnv), s @ n1)"
    by blast
  then show ?case
    by (simp split: sum.splits Type.splits option.splits)
qed

subsection \<open>typecheck of src/basic.ts on the store\<close>

type_synonym store_basic = "TypeEnv_basic list"

fun typecheck_basic_st ::
    "Term_basic \<Rightarrow> addr \<Rightarrow> store_basic \<Rightarrow> (thrown + Type_basic) \<times> store_basic"
  and typecheck_args_basic_st ::
    "Term_basic list \<Rightarrow> Param_basic list \<Rightarrow> addr \<Rightarrow> store_basic \<Rightarrow> (thrown + unit) \<times> store_basic"
where
  "typecheck_basic_st Btrue tyEnv s = (Inr Boolean_b, s)"
| "typecheck_basic_st Bfalse tyEnv s = (Inr Boolean_b, s)"
| "typecheck_basic_st (Bif cond thn els) tyEnv s =
     (case typecheck_basic_st cond tyEnv s of
        (Inl e, s1) \<Rightarrow> (Inl e, s1)
      | (Inr condTy, s1) \<Rightarrow>
          if condTy \<noteq> Boolean_b then (Inl (Str ''boolean expected''), s1)
          else (case typecheck_basic_st thn tyEnv s1 of
            (Inl e, s2) \<Rightarrow> (Inl e, s2)
          | (Inr thnTy, s2) \<Rightarrow>
              (case typecheck_basic_st els tyEnv s2 of
                 (Inl e, s3) \<Rightarrow> (Inl e, s3)
               | (Inr elsTy, s3) \<Rightarrow>
                   if \<not> typeEq_basic thnTy elsTy
                   then (Inl (Str ''then and else must have the same type''), s3)
                   else (Inr thnTy, s3))))"
| "typecheck_basic_st (Bnumber n) tyEnv s = (Inr Number_b, s)"
| "typecheck_basic_st (Badd left right) tyEnv s =
     (case typecheck_basic_st left tyEnv s of
        (Inl e, s1) \<Rightarrow> (Inl e, s1)
      | (Inr leftTy, s1) \<Rightarrow>
          if leftTy \<noteq> Number_b then (Inl (Str ''number expected''), s1)
          else (case typecheck_basic_st right tyEnv s1 of
            (Inl e, s2) \<Rightarrow> (Inl e, s2)
          | (Inr rightTy, s2) \<Rightarrow>
              if rightTy \<noteq> Number_b then (Inl (Str ''number expected''), s2)
              else (Inr Number_b, s2)))"
| "typecheck_basic_st (Bvar name) tyEnv s =
     (case get_prop s tyEnv name of
        None \<Rightarrow> (Inl (Error (''unknown variable: '' @ name)), s)
      | Some ty \<Rightarrow> (Inr ty, s))"
| "typecheck_basic_st (Bfunc params body) tyEnv s =
     (case copy_env s tyEnv of
        (newTyEnv, s1) \<Rightarrow>
          (case typecheck_basic_st body newTyEnv (set_params s1 newTyEnv params) of
             (Inl e, s2) \<Rightarrow> (Inl e, s2)
           | (Inr retType, s2) \<Rightarrow> (Inr (Func_b params retType), s2)))"
| "typecheck_basic_st (Bcall func args) tyEnv s =
     (case typecheck_basic_st func tyEnv s of
        (Inl e, s1) \<Rightarrow> (Inl e, s1)
      | (Inr funcTy, s1) \<Rightarrow>
          (case funcTy of
             Func_b params retType \<Rightarrow>
               if length params \<noteq> length args
               then (Inl (Error ''wrong number of arguments''), s1)
               else (case typecheck_args_basic_st args params tyEnv s1 of
                 (Inl e, s2) \<Rightarrow> (Inl e, s2)
               | (Inr _, s2) \<Rightarrow> (Inr retType, s2))
           | _ \<Rightarrow> (Inl (Error ''function type expected''), s1)))"
| "typecheck_basic_st (Bseq body rest) tyEnv s = (Inl (Error ''not implemented yet''), s)"
| "typecheck_basic_st (Bconst name init rest) tyEnv s = (Inl (Error ''not implemented yet''), s)"
| "typecheck_args_basic_st (arg # args) (param # params) tyEnv s =
     (case typecheck_basic_st arg tyEnv s of
        (Inl e, s1) \<Rightarrow> (Inl e, s1)
      | (Inr argTy, s1) \<Rightarrow>
          if \<not> typeEq_basic argTy (snd param) then (Inl (Error ''parameter type mismatch''), s1)
          else typecheck_args_basic_st args params tyEnv s1)"
| "typecheck_args_basic_st args params tyEnv s = (Inr (), s)"

lemma typecheck_args_basic_st_grow:
  assumes elems: "\<And>arg tyEnv s. arg \<in> set args \<Longrightarrow> tyEnv < length s \<Longrightarrow>
      \<exists>new. typecheck_basic_st arg tyEnv s = (typecheck_basic arg (s ! tyEnv), s @ new)"
  shows "tyEnv < length s \<Longrightarrow>
    \<exists>new. typecheck_args_basic_st args params tyEnv s =
      (typecheck_args_basic args params (s ! tyEnv), s @ new)"
  using elems
proof (induction args arbitrary: params s)
  case Nil
  then show ?case by simp
next
  case (Cons a as)
  show ?case
  proof (cases params)
    case Nil
    then show ?thesis by simp
  next
    case (Cons p ps)
    from Cons.prems obtain n1 where
      a: "typecheck_basic_st a tyEnv s = (typecheck_basic a (s ! tyEnv), s @ n1)"
      by (metis list.set_intros(1))
    have env1: "tyEnv < length (s @ n1)" "(s @ n1) ! tyEnv = s ! tyEnv"
      using Cons.prems(1) by (simp_all add: nth_append)
    have "\<exists>new. typecheck_args_basic_st as ps tyEnv (s @ n1) =
        (typecheck_args_basic as ps ((s @ n1) ! tyEnv), (s @ n1) @ new)"
      using env1(1) Cons.prems(2) by (intro Cons.IH) auto
    then obtain n2 where
      as: "typecheck_args_basic_st as ps tyEnv (s @ n1) =
        (typecheck_args_basic as ps (s ! tyEnv), s @ n1 @ n2)"
      using env1(2) by auto
    show ?thesis
      by (simp add: Cons a as split: sum.splits)
  qed
qed

lemma typecheck_basic_st_grow:
  "tyEnv < length s \<Longrightarrow>
   \<exists>new. typecheck_basic_st t tyEnv s = (typecheck_basic t (s ! tyEnv), s @ new)"
proof (induction t arbitrary: tyEnv s)
  case Btrue
  show ?case by simp
next
  case Bfalse
  show ?case by simp
next
  case (Bif cond thn els)
  from Bif.IH(1) [OF Bif.prems] obtain n1 where
    c: "typecheck_basic_st cond tyEnv s = (typecheck_basic cond (s ! tyEnv), s @ n1)"
    by blast
  have "tyEnv < length (s @ n1)" using Bif.prems by simp
  from Bif.IH(2) [OF this] obtain n2 where
    t: "typecheck_basic_st thn tyEnv (s @ n1) = (typecheck_basic thn (s ! tyEnv), s @ n1 @ n2)"
    using Bif.prems by (auto simp: nth_append)
  have "tyEnv < length (s @ n1 @ n2)" using Bif.prems by simp
  from Bif.IH(3) [OF this] obtain n3 where
    e: "typecheck_basic_st els tyEnv (s @ n1 @ n2) =
      (typecheck_basic els (s ! tyEnv), s @ n1 @ n2 @ n3)"
    using Bif.prems by (auto simp: nth_append)
  show ?case
    by (simp add: c t e split: sum.splits)
next
  case (Bnumber n)
  show ?case by simp
next
  case (Badd left right)
  from Badd.IH(1) [OF Badd.prems] obtain n1 where
    l: "typecheck_basic_st left tyEnv s = (typecheck_basic left (s ! tyEnv), s @ n1)"
    by blast
  have "tyEnv < length (s @ n1)" using Badd.prems by simp
  from Badd.IH(2) [OF this] obtain n2 where
    r: "typecheck_basic_st right tyEnv (s @ n1) = (typecheck_basic right (s ! tyEnv), s @ n1 @ n2)"
    using Badd.prems by (auto simp: nth_append)
  show ?case
    by (simp add: l r split: sum.splits)
next
  case (Bvar name)
  show ?case by (simp add: get_prop_def split: option.splits)
next
  case (Bfunc params body)
  have copy: "copy_env s tyEnv = (length s, s @ [s ! tyEnv])"
    by (simp add: copy_env_def)
  have written: "set_params (s @ [s ! tyEnv]) (length s) params =
      s @ [extend_params_basic (s ! tyEnv) params]"
    by (simp add: set_params_new extend_params_basic_def)
  have "length s < length (s @ [extend_params_basic (s ! tyEnv) params])" by simp
  from Bfunc.IH [OF this] obtain n1 where
    b: "typecheck_basic_st body (length s) (s @ [extend_params_basic (s ! tyEnv) params]) =
      (typecheck_basic body (extend_params_basic (s ! tyEnv) params),
       s @ [extend_params_basic (s ! tyEnv) params] @ n1)"
    by auto
  show ?case
    by (simp add: copy written b split: sum.splits)
next
  case (Bcall func args)
  from Bcall.IH(1) [OF Bcall.prems] obtain n1 where
    f: "typecheck_basic_st func tyEnv s = (typecheck_basic func (s ! tyEnv), s @ n1)"
    by blast
  have env1: "tyEnv < length (s @ n1)" "(s @ n1) ! tyEnv = s ! tyEnv"
    using Bcall.prems by (simp_all add: nth_append)
  have "\<exists>new. typecheck_args_basic_st args params tyEnv (s @ n1) =
      (typecheck_args_basic args params ((s @ n1) ! tyEnv), (s @ n1) @ new)"
    for params
    using env1(1) by (rule typecheck_args_basic_st_grow [rotated]) (rule Bcall.IH(2))
  then have as: "\<exists>new. typecheck_args_basic_st args params tyEnv (s @ n1) =
      (typecheck_args_basic args params (s ! tyEnv), s @ n1 @ new)"
    for params
    using env1(2) by simp
  show ?case
  proof (cases "typecheck_basic func (s ! tyEnv)")
    case (Inl e)
    then show ?thesis by (simp add: f)
  next
    case (Inr funcTy)
    show ?thesis
    proof (cases funcTy)
      case (Func_b params retType)
      from as [of params] obtain n2 where
        "typecheck_args_basic_st args params tyEnv (s @ n1) =
          (typecheck_args_basic args params (s ! tyEnv), s @ n1 @ n2)"
        by blast
      then show ?thesis
        by (simp add: f Inr Func_b split: sum.splits)
    qed (simp_all add: f Inr)
  qed
next
  case (Bseq body rest)
  show ?case by simp
next
  case (Bconst name init rest)
  show ?case by simp
qed

subsection \<open>typecheck of the seq2/const2 variant on the store\<close>

text \<open>
  In the \<open>seq2\<close> case the assignment \<open>tyEnv = { ...tyEnv, [term.name]: ty }\<close> allocates a
  new object, writes the binding into it, and makes the local variable \<open>tyEnv\<close> of this
  call point to it: on the store, the loop carries the address.
\<close>

type_synonym store_seq2 = "TypeEnv_seq2 list"

fun typecheck_seq2_st ::
    "Term_seq2 \<Rightarrow> addr \<Rightarrow> store_seq2 \<Rightarrow> (thrown + Type_seq2) \<times> store_seq2"
  and typecheck_args_seq2_st ::
    "Term_seq2 list \<Rightarrow> Param_seq2 list \<Rightarrow> addr \<Rightarrow> store_seq2 \<Rightarrow> (thrown + unit) \<times> store_seq2"
  and typecheck_body_st ::
    "Term_seq2 list \<Rightarrow> addr \<Rightarrow> Type_seq2 \<Rightarrow> store_seq2 \<Rightarrow> (thrown + Type_seq2) \<times> store_seq2"
where
  "typecheck_seq2_st Strue tyEnv s = (Inr Boolean_s, s)"
| "typecheck_seq2_st Sfalse tyEnv s = (Inr Boolean_s, s)"
| "typecheck_seq2_st (Sif cond thn els) tyEnv s =
     (case typecheck_seq2_st cond tyEnv s of
        (Inl e, s1) \<Rightarrow> (Inl e, s1)
      | (Inr condTy, s1) \<Rightarrow>
          if condTy = Null_s then (Inl TypeError, s1)
          else if condTy \<noteq> Boolean_s then (Inl (Str ''boolean expected''), s1)
          else (case typecheck_seq2_st thn tyEnv s1 of
            (Inl e, s2) \<Rightarrow> (Inl e, s2)
          | (Inr thnTy, s2) \<Rightarrow>
              (case typecheck_seq2_st els tyEnv s2 of
                 (Inl e, s3) \<Rightarrow> (Inl e, s3)
               | (Inr elsTy, s3) \<Rightarrow>
                   (case typeEq_seq2 thnTy elsTy of
                      Inl e \<Rightarrow> (Inl e, s3)
                    | Inr ok \<Rightarrow>
                        if \<not> ok then (Inl (Str ''then and else must have the same type''), s3)
                        else (Inr thnTy, s3)))))"
| "typecheck_seq2_st (Snumber n) tyEnv s = (Inr Number_s, s)"
| "typecheck_seq2_st (Sadd left right) tyEnv s =
     (case typecheck_seq2_st left tyEnv s of
        (Inl e, s1) \<Rightarrow> (Inl e, s1)
      | (Inr leftTy, s1) \<Rightarrow>
          if leftTy = Null_s then (Inl TypeError, s1)
          else if leftTy \<noteq> Number_s then (Inl (Str ''number expected''), s1)
          else (case typecheck_seq2_st right tyEnv s1 of
            (Inl e, s2) \<Rightarrow> (Inl e, s2)
          | (Inr rightTy, s2) \<Rightarrow>
              if rightTy = Null_s then (Inl TypeError, s2)
              else if rightTy \<noteq> Number_s then (Inl (Str ''number expected''), s2)
              else (Inr Number_s, s2)))"
| "typecheck_seq2_st (Svar name) tyEnv s =
     (case get_prop s tyEnv name of
        None \<Rightarrow> (Inl (Error (''unknown variable: '' @ name)), s)
      | Some ty \<Rightarrow> (Inr ty, s))"
| "typecheck_seq2_st (Sfunc params body) tyEnv s =
     (case copy_env s tyEnv of
        (newTyEnv, s1) \<Rightarrow>
          (case typecheck_seq2_st body newTyEnv (set_params s1 newTyEnv params) of
             (Inl e, s2) \<Rightarrow> (Inl e, s2)
           | (Inr retType, s2) \<Rightarrow> (Inr (Func_s params retType), s2)))"
| "typecheck_seq2_st (Scall func args) tyEnv s =
     (case typecheck_seq2_st func tyEnv s of
        (Inl e, s1) \<Rightarrow> (Inl e, s1)
      | (Inr funcTy, s1) \<Rightarrow>
          (case funcTy of
             Null_s \<Rightarrow> (Inl TypeError, s1)
           | Func_s params retType \<Rightarrow>
               if length params \<noteq> length args
               then (Inl (Error ''wrong number of arguments''), s1)
               else (case typecheck_args_seq2_st args params tyEnv s1 of
                 (Inl e, s2) \<Rightarrow> (Inl e, s2)
               | (Inr _, s2) \<Rightarrow> (Inr retType, s2))
           | _ \<Rightarrow> (Inl (Error ''function type expected''), s1)))"
| "typecheck_seq2_st (Sseq body rest) tyEnv s =
     (case typecheck_seq2_st body tyEnv s of
        (Inl e, s1) \<Rightarrow> (Inl e, s1)
      | (Inr _, s1) \<Rightarrow> typecheck_seq2_st rest tyEnv s1)"
| "typecheck_seq2_st (Sseq2 body) tyEnv s = typecheck_body_st body tyEnv Null_s s"
| "typecheck_seq2_st (Sconst name init rest) tyEnv s =
     (case typecheck_seq2_st init tyEnv s of
        (Inl e, s1) \<Rightarrow> (Inl e, s1)
      | (Inr ty, s1) \<Rightarrow>
          (case copy_env s1 tyEnv of
             (newTyEnv, s2) \<Rightarrow> typecheck_seq2_st rest newTyEnv (set_prop s2 newTyEnv name ty)))"
| "typecheck_seq2_st (Sconst2 name init) tyEnv s = (Inl (Error ''not implemented yet''), s)"
| "typecheck_args_seq2_st (arg # args) (param # params) tyEnv s =
     (case typecheck_seq2_st arg tyEnv s of
        (Inl e, s1) \<Rightarrow> (Inl e, s1)
      | (Inr argTy, s1) \<Rightarrow>
          (case typeEq_seq2 argTy (snd param) of
             Inl e \<Rightarrow> (Inl e, s1)
           | Inr ok \<Rightarrow>
               if \<not> ok then (Inl (Error ''parameter type mismatch''), s1)
               else typecheck_args_seq2_st args params tyEnv s1))"
| "typecheck_args_seq2_st args params tyEnv s = (Inr (), s)"
| "typecheck_body_st [] tyEnv lastTy s = (Inr lastTy, s)"
| "typecheck_body_st (Sconst2 name init # body) tyEnv lastTy s =
     (case typecheck_seq2_st init tyEnv s of
        (Inl e, s1) \<Rightarrow> (Inl e, s1)
      | (Inr ty, s1) \<Rightarrow>
          (case copy_env s1 tyEnv of
             (newTyEnv, s2) \<Rightarrow>
               typecheck_body_st body newTyEnv lastTy (set_prop s2 newTyEnv name ty)))"
| "typecheck_body_st (term # body) tyEnv lastTy s =
     (case typecheck_seq2_st term tyEnv s of
        (Inl e, s1) \<Rightarrow> (Inl e, s1)
      | (Inr ty, s1) \<Rightarrow> typecheck_body_st body tyEnv ty s1)"

lemma typecheck_args_seq2_st_grow:
  assumes elems: "\<And>arg tyEnv s. arg \<in> set args \<Longrightarrow> tyEnv < length s \<Longrightarrow>
      \<exists>new. typecheck_seq2_st arg tyEnv s = (typecheck_seq2 arg (s ! tyEnv), s @ new)"
  shows "tyEnv < length s \<Longrightarrow>
    \<exists>new. typecheck_args_seq2_st args params tyEnv s =
      (typecheck_args_seq2 args params (s ! tyEnv), s @ new)"
  using elems
proof (induction args arbitrary: params s)
  case Nil
  then show ?case by simp
next
  case (Cons a as)
  show ?case
  proof (cases params)
    case Nil
    then show ?thesis by simp
  next
    case (Cons p ps)
    from Cons.prems obtain n1 where
      a: "typecheck_seq2_st a tyEnv s = (typecheck_seq2 a (s ! tyEnv), s @ n1)"
      by (metis list.set_intros(1))
    have env1: "tyEnv < length (s @ n1)" "(s @ n1) ! tyEnv = s ! tyEnv"
      using Cons.prems(1) by (simp_all add: nth_append)
    have "\<exists>new. typecheck_args_seq2_st as ps tyEnv (s @ n1) =
        (typecheck_args_seq2 as ps ((s @ n1) ! tyEnv), (s @ n1) @ new)"
      using env1(1) Cons.prems(2) by (intro Cons.IH) auto
    then obtain n2 where
      as: "typecheck_args_seq2_st as ps tyEnv (s @ n1) =
        (typecheck_args_seq2 as ps (s ! tyEnv), s @ n1 @ n2)"
      using env1(2) by auto
    show ?thesis
      by (simp add: Cons a as split: sum.splits)
  qed
qed

text \<open>
  The loop of the \<open>seq2\<close> case. A \<open>const2\<close> element is not checked itself: its
  initialiser is, so the loop needs the property for the initialisers as well.
\<close>

lemma typecheck_body_st_grow:
  assumes elems: "\<And>term tyEnv s. term \<in> set body \<Longrightarrow> tyEnv < length s \<Longrightarrow>
      \<exists>new. typecheck_seq2_st term tyEnv s = (typecheck_seq2 term (s ! tyEnv), s @ new)"
    and inits: "\<And>name init tyEnv s. Sconst2 name init \<in> set body \<Longrightarrow> tyEnv < length s \<Longrightarrow>
      \<exists>new. typecheck_seq2_st init tyEnv s = (typecheck_seq2 init (s ! tyEnv), s @ new)"
  shows "tyEnv < length s \<Longrightarrow>
    \<exists>new. typecheck_body_st body tyEnv lastTy s =
      (typecheck_body body (s ! tyEnv) lastTy, s @ new)"
  using elems inits
proof (induction body arbitrary: tyEnv lastTy s)
  case Nil
  then show ?case by simp
next
  case (Cons t ts)
  have rest: "\<exists>new. typecheck_body_st ts a l s' = (typecheck_body ts (s' ! a) l, s' @ new)"
    if "a < length s'" for a l s'
  proof (rule Cons.IH [OF that])
    fix "term" :: Term_seq2 and e :: addr and s0 :: store_seq2
    assume "term \<in> set ts" and "e < length s0"
    then show "\<exists>new. typecheck_seq2_st term e s0 = (typecheck_seq2 term (s0 ! e), s0 @ new)"
      using Cons.prems(2) [of "term" e s0] by simp
  next
    fix name :: string and init :: Term_seq2 and e :: addr and s0 :: store_seq2
    assume "Sconst2 name init \<in> set ts" and "e < length s0"
    then show "\<exists>new. typecheck_seq2_st init e s0 = (typecheck_seq2 init (s0 ! e), s0 @ new)"
      using Cons.prems(3) [of name init e s0] by simp
  qed
  show ?case
  proof (cases "\<exists>name init. t = Sconst2 name init")
    case True
    then obtain name init where t: "t = Sconst2 name init" by blast
    from Cons.prems(3) [of name init tyEnv s] Cons.prems(1) obtain n1 where
      i: "typecheck_seq2_st init tyEnv s = (typecheck_seq2 init (s ! tyEnv), s @ n1)"
      by (auto simp: t)
    define s1 where "s1 = s @ n1"
    have i1: "typecheck_seq2_st init tyEnv s = (typecheck_seq2 init (s ! tyEnv), s1)"
      by (simp add: i s1_def)
    have "s1 ! tyEnv = s ! tyEnv"
      using Cons.prems(1) by (simp add: s1_def nth_append)
    then have copy: "copy_env s1 tyEnv = (length s1, s1 @ [s ! tyEnv])"
      by (simp add: copy_env_def)
    show ?thesis
    proof (cases "typecheck_seq2 init (s ! tyEnv)")
      case (Inl e)
      then show ?thesis by (simp add: t i)
    next
      case (Inr ty)
      define env where "env = (s ! tyEnv)(name \<mapsto> ty)"
      have written: "set_prop (s1 @ [s ! tyEnv]) (length s1) name ty = s1 @ [env]"
        unfolding env_def by (rule set_prop_new)
      have "length s1 < length (s1 @ [env])" by simp
      from rest [OF this] obtain n2 where
        "typecheck_body_st ts (length s1) lastTy (s1 @ [env]) =
          (typecheck_body ts ((s1 @ [env]) ! length s1) lastTy, (s1 @ [env]) @ n2)"
        by blast
      then have r: "typecheck_body_st ts (length s1) lastTy (s1 @ [env]) =
          (typecheck_body ts env lastTy, (s1 @ [env]) @ n2)"
        by (simp only: nth_append_length)
      have "typecheck_body (t # ts) (s ! tyEnv) lastTy = typecheck_body ts env lastTy"
        unfolding env_def by (simp add: t Inr)
      moreover have "typecheck_body_st (t # ts) tyEnv lastTy s =
          (typecheck_body ts env lastTy, (s1 @ [env]) @ n2)"
        by (simp add: t i1 Inr copy written r)
      ultimately show ?thesis
        by (simp add: s1_def)
    qed
  next
    case False
    from Cons.prems(2) [of t tyEnv s] Cons.prems(1) obtain n1 where
      e: "typecheck_seq2_st t tyEnv s = (typecheck_seq2 t (s ! tyEnv), s @ n1)"
      by auto
    have env1: "tyEnv < length (s @ n1)" "(s @ n1) ! tyEnv = s ! tyEnv"
      using Cons.prems(1) by (simp_all add: nth_append)
    have r: "\<exists>n2. typecheck_body_st ts tyEnv l (s @ n1) =
        (typecheck_body ts (s ! tyEnv) l, s @ n1 @ n2)" for l
      using rest [OF env1(1), of l] env1(2) by auto
    have st: "typecheck_body_st (t # ts) tyEnv lastTy s =
        (case typecheck_seq2_st t tyEnv s of
           (Inl e, s1) \<Rightarrow> (Inl e, s1)
         | (Inr ty, s1) \<Rightarrow> typecheck_body_st ts tyEnv ty s1)"
      using False by (cases t) simp_all
    have pure: "typecheck_body (t # ts) (s ! tyEnv) lastTy =
        (case typecheck_seq2 t (s ! tyEnv) of
           Inl e \<Rightarrow> Inl e
         | Inr ty \<Rightarrow> typecheck_body ts (s ! tyEnv) ty)"
      using False by (cases t) simp_all
    show ?thesis
    proof (cases "typecheck_seq2 t (s ! tyEnv)")
      case (Inl err)
      then show ?thesis by (simp add: st pure e)
    next
      case (Inr ty)
      from r [of ty] obtain n2 where
        "typecheck_body_st ts tyEnv ty (s @ n1) = (typecheck_body ts (s ! tyEnv) ty, s @ n1 @ n2)"
        by blast
      then show ?thesis by (simp add: st pure e Inr)
    qed
  qed
qed

lemma typecheck_seq2_st_grow_aux:
  "(\<forall>tyEnv s. tyEnv < length s \<longrightarrow>
      (\<exists>new. typecheck_seq2_st t tyEnv s = (typecheck_seq2 t (s ! tyEnv), s @ new))) \<and>
   (\<forall>name init. t = Sconst2 name init \<longrightarrow>
      (\<forall>tyEnv s. tyEnv < length s \<longrightarrow>
        (\<exists>new. typecheck_seq2_st init tyEnv s = (typecheck_seq2 init (s ! tyEnv), s @ new))))"
proof (induction t)
  case Strue
  show ?case by simp
next
  case Sfalse
  show ?case by simp
next
  case (Sif cond thn els)
  have "\<exists>new. typecheck_seq2_st (Sif cond thn els) tyEnv s =
      (typecheck_seq2 (Sif cond thn els) (s ! tyEnv), s @ new)"
    if lt: "tyEnv < length s" for tyEnv s
  proof -
    from Sif.IH(1) lt obtain n1 where
      c: "typecheck_seq2_st cond tyEnv s = (typecheck_seq2 cond (s ! tyEnv), s @ n1)"
      by blast
    have "tyEnv < length (s @ n1)" using lt by simp
    with Sif.IH(2) obtain n2 where
      "typecheck_seq2_st thn tyEnv (s @ n1) =
        (typecheck_seq2 thn ((s @ n1) ! tyEnv), (s @ n1) @ n2)"
      by blast
    then have t: "typecheck_seq2_st thn tyEnv (s @ n1) =
        (typecheck_seq2 thn (s ! tyEnv), s @ n1 @ n2)"
      using lt by (simp add: nth_append)
    have "tyEnv < length (s @ n1 @ n2)" using lt by simp
    with Sif.IH(3) obtain n3 where
      "typecheck_seq2_st els tyEnv (s @ n1 @ n2) =
        (typecheck_seq2 els ((s @ n1 @ n2) ! tyEnv), (s @ n1 @ n2) @ n3)"
      by blast
    then have e: "typecheck_seq2_st els tyEnv (s @ n1 @ n2) =
        (typecheck_seq2 els (s ! tyEnv), s @ n1 @ n2 @ n3)"
      using lt by (simp add: nth_append)
    show ?thesis
      by (simp add: c t e split: sum.splits)
  qed
  then show ?case by simp
next
  case (Snumber n)
  show ?case by simp
next
  case (Sadd left right)
  have "\<exists>new. typecheck_seq2_st (Sadd left right) tyEnv s =
      (typecheck_seq2 (Sadd left right) (s ! tyEnv), s @ new)"
    if lt: "tyEnv < length s" for tyEnv s
  proof -
    from Sadd.IH(1) lt obtain n1 where
      l: "typecheck_seq2_st left tyEnv s = (typecheck_seq2 left (s ! tyEnv), s @ n1)"
      by blast
    have "tyEnv < length (s @ n1)" using lt by simp
    with Sadd.IH(2) obtain n2 where
      "typecheck_seq2_st right tyEnv (s @ n1) =
        (typecheck_seq2 right ((s @ n1) ! tyEnv), (s @ n1) @ n2)"
      by blast
    then have r: "typecheck_seq2_st right tyEnv (s @ n1) =
        (typecheck_seq2 right (s ! tyEnv), s @ n1 @ n2)"
      using lt by (simp add: nth_append)
    show ?thesis
      by (simp add: l r split: sum.splits)
  qed
  then show ?case by simp
next
  case (Svar name)
  show ?case by (simp add: get_prop_def split: option.splits)
next
  case (Sfunc params body)
  have "\<exists>new. typecheck_seq2_st (Sfunc params body) tyEnv s =
      (typecheck_seq2 (Sfunc params body) (s ! tyEnv), s @ new)"
    if lt: "tyEnv < length s" for tyEnv s
  proof -
    have copy: "copy_env s tyEnv = (length s, s @ [s ! tyEnv])"
      by (simp add: copy_env_def)
    have written: "set_params (s @ [s ! tyEnv]) (length s) params =
        s @ [extend_params_seq2 (s ! tyEnv) params]"
      by (simp add: set_params_new extend_params_seq2_def)
    have "length s < length (s @ [extend_params_seq2 (s ! tyEnv) params])" by simp
    with Sfunc.IH obtain n1 where
      "typecheck_seq2_st body (length s) (s @ [extend_params_seq2 (s ! tyEnv) params]) =
        (typecheck_seq2 body ((s @ [extend_params_seq2 (s ! tyEnv) params]) ! length s),
         (s @ [extend_params_seq2 (s ! tyEnv) params]) @ n1)"
      by blast
    then have b: "typecheck_seq2_st body (length s) (s @ [extend_params_seq2 (s ! tyEnv) params]) =
        (typecheck_seq2 body (extend_params_seq2 (s ! tyEnv) params),
         s @ [extend_params_seq2 (s ! tyEnv) params] @ n1)"
      by simp
    show ?thesis
      by (simp add: copy written b split: sum.splits)
  qed
  then show ?case by simp
next
  case (Scall func args)
  have "\<exists>new. typecheck_seq2_st (Scall func args) tyEnv s =
      (typecheck_seq2 (Scall func args) (s ! tyEnv), s @ new)"
    if lt: "tyEnv < length s" for tyEnv s
  proof -
    from Scall.IH(1) lt obtain n1 where
      f: "typecheck_seq2_st func tyEnv s = (typecheck_seq2 func (s ! tyEnv), s @ n1)"
      by blast
    have env1: "tyEnv < length (s @ n1)" "(s @ n1) ! tyEnv = s ! tyEnv"
      using lt by (simp_all add: nth_append)
    have "\<exists>new. typecheck_args_seq2_st args params tyEnv (s @ n1) =
        (typecheck_args_seq2 args params ((s @ n1) ! tyEnv), (s @ n1) @ new)"
      for params
      using env1(1)
    proof (rule typecheck_args_seq2_st_grow [rotated])
      fix arg :: Term_seq2 and e :: addr and s0 :: store_seq2
      assume "arg \<in> set args" and "e < length s0"
      with Scall.IH(2) show "\<exists>new. typecheck_seq2_st arg e s0 =
          (typecheck_seq2 arg (s0 ! e), s0 @ new)"
        by blast
    qed
    then have as: "\<exists>new. typecheck_args_seq2_st args params tyEnv (s @ n1) =
        (typecheck_args_seq2 args params (s ! tyEnv), s @ n1 @ new)"
      for params
      using env1(2) by simp
    show ?thesis
    proof (cases "typecheck_seq2 func (s ! tyEnv)")
      case (Inl e)
      then show ?thesis by (simp add: f)
    next
      case (Inr funcTy)
      show ?thesis
      proof (cases funcTy)
        case (Func_s params retType)
        from as [of params] obtain n2 where
          "typecheck_args_seq2_st args params tyEnv (s @ n1) =
            (typecheck_args_seq2 args params (s ! tyEnv), s @ n1 @ n2)"
          by blast
        then show ?thesis
          by (simp add: f Inr Func_s split: sum.splits)
      qed (simp_all add: f Inr)
    qed
  qed
  then show ?case by simp
next
  case (Sseq body rest)
  have "\<exists>new. typecheck_seq2_st (Sseq body rest) tyEnv s =
      (typecheck_seq2 (Sseq body rest) (s ! tyEnv), s @ new)"
    if lt: "tyEnv < length s" for tyEnv s
  proof -
    from Sseq.IH(1) lt obtain n1 where
      b: "typecheck_seq2_st body tyEnv s = (typecheck_seq2 body (s ! tyEnv), s @ n1)"
      by blast
    have "tyEnv < length (s @ n1)" using lt by simp
    with Sseq.IH(2) obtain n2 where
      "typecheck_seq2_st rest tyEnv (s @ n1) =
        (typecheck_seq2 rest ((s @ n1) ! tyEnv), (s @ n1) @ n2)"
      by blast
    then have r: "typecheck_seq2_st rest tyEnv (s @ n1) =
        (typecheck_seq2 rest (s ! tyEnv), s @ n1 @ n2)"
      using lt by (simp add: nth_append)
    show ?thesis
      by (simp add: b r split: sum.splits)
  qed
  then show ?case by simp
next
  case (Sconst name init rest)
  have "\<exists>new. typecheck_seq2_st (Sconst name init rest) tyEnv s =
      (typecheck_seq2 (Sconst name init rest) (s ! tyEnv), s @ new)"
    if lt: "tyEnv < length s" for tyEnv s
  proof -
    from Sconst.IH(1) lt obtain n1 where
      i: "typecheck_seq2_st init tyEnv s = (typecheck_seq2 init (s ! tyEnv), s @ n1)"
      by blast
    define s1 where "s1 = s @ n1"
    have i1: "typecheck_seq2_st init tyEnv s = (typecheck_seq2 init (s ! tyEnv), s1)"
      by (simp add: i s1_def)
    have "s1 ! tyEnv = s ! tyEnv"
      using lt by (simp add: s1_def nth_append)
    then have copy: "copy_env s1 tyEnv = (length s1, s1 @ [s ! tyEnv])"
      by (simp add: copy_env_def)
    show ?thesis
    proof (cases "typecheck_seq2 init (s ! tyEnv)")
      case (Inl e)
      then show ?thesis by (simp add: i)
    next
      case (Inr ty)
      define env where "env = (s ! tyEnv)(name \<mapsto> ty)"
      have written: "set_prop (s1 @ [s ! tyEnv]) (length s1) name ty = s1 @ [env]"
        unfolding env_def by (rule set_prop_new)
      have "length s1 < length (s1 @ [env])" by simp
      with Sconst.IH(2) obtain n2 where
        "typecheck_seq2_st rest (length s1) (s1 @ [env]) =
          (typecheck_seq2 rest ((s1 @ [env]) ! length s1), (s1 @ [env]) @ n2)"
        by blast
      then have r: "typecheck_seq2_st rest (length s1) (s1 @ [env]) =
          (typecheck_seq2 rest env, (s1 @ [env]) @ n2)"
        by (simp only: nth_append_length)
      have "typecheck_seq2 (Sconst name init rest) (s ! tyEnv) = typecheck_seq2 rest env"
        unfolding env_def by (simp add: Inr)
      moreover have "typecheck_seq2_st (Sconst name init rest) tyEnv s =
          (typecheck_seq2 rest env, (s1 @ [env]) @ n2)"
        by (simp add: i1 Inr copy written r)
      ultimately show ?thesis
        by (simp add: s1_def)
    qed
  qed
  then show ?case by simp
next
  case (Sseq2 body)
  have "\<exists>new. typecheck_seq2_st (Sseq2 body) tyEnv s =
      (typecheck_seq2 (Sseq2 body) (s ! tyEnv), s @ new)"
    if lt: "tyEnv < length s" for tyEnv s
  proof -
    have "\<exists>new. typecheck_body_st body tyEnv Null_s s =
        (typecheck_body body (s ! tyEnv) Null_s, s @ new)"
      using lt
    proof (rule typecheck_body_st_grow [rotated 2])
      fix "term" :: Term_seq2 and e :: addr and s0 :: store_seq2
      assume "term \<in> set body" and "e < length s0"
      with Sseq2.IH show "\<exists>new. typecheck_seq2_st term e s0 =
          (typecheck_seq2 term (s0 ! e), s0 @ new)"
        by blast
    next
      fix name :: string and init :: Term_seq2 and e :: addr and s0 :: store_seq2
      assume "Sconst2 name init \<in> set body" and "e < length s0"
      with Sseq2.IH show "\<exists>new. typecheck_seq2_st init e s0 =
          (typecheck_seq2 init (s0 ! e), s0 @ new)"
        by blast
    qed
    then show ?thesis by simp
  qed
  then show ?case by simp
next
  case (Sconst2 name init)
  then show ?case by simp
qed

lemma typecheck_seq2_st_grow:
  "tyEnv < length s \<Longrightarrow>
   \<exists>new. typecheck_seq2_st t tyEnv s = (typecheck_seq2 t (s ! tyEnv), s @ new)"
  using typecheck_seq2_st_grow_aux [of t] by blast

section \<open>typecheck never writes into the environment it is given\<close>

text \<open>
  Claim C7. Run \<open>typecheck\<close> on a term with the environment object at address
  \<open>tyEnv\<close> of a store \<open>s\<close>, and let \<open>sAfter\<close> be the store when the call returns or
  throws. Then every object of \<open>s\<close>, the caller's environment among them, holds in
  \<open>sAfter\<close> exactly the bindings it held in \<open>s\<close>: all that \<open>func\<close>, \<open>const\<close> and the
  \<open>const2\<close> statements of a \<open>seq2\<close> write goes into objects allocated during the call,
  which lie behind the old ones. The result is the one the pure function computes from
  the bindings at \<open>tyEnv\<close>. Hence a binding made by \<open>const\<close>, by \<open>const2\<close> or for a
  parameter is visible only to the sub-terms checked with the new object. This holds in
  the object variant, in the function variant and in the seq2/const2 variant.
\<close>

theorem C7_typecheck_leaves_env:
  "(tyEnv < length s \<and> typecheck_st t tyEnv s = (r, sAfter) \<longrightarrow>
      r = typecheck t (s ! tyEnv) \<and> length s \<le> length sAfter \<and>
      (\<forall>a < length s. sAfter ! a = s ! a)) \<and>
   (bEnv < length bs \<and> typecheck_basic_st bt bEnv bs = (br, bsAfter) \<longrightarrow>
      br = typecheck_basic bt (bs ! bEnv) \<and> length bs \<le> length bsAfter \<and>
      (\<forall>a < length bs. bsAfter ! a = bs ! a)) \<and>
   (qEnv < length qs \<and> typecheck_seq2_st qt qEnv qs = (qr, qsAfter) \<longrightarrow>
      qr = typecheck_seq2 qt (qs ! qEnv) \<and> length qs \<le> length qsAfter \<and>
      (\<forall>a < length qs. qsAfter ! a = qs ! a))"
proof (intro conjI)
  show "tyEnv < length s \<and> typecheck_st t tyEnv s = (r, sAfter) \<longrightarrow>
      r = typecheck t (s ! tyEnv) \<and> length s \<le> length sAfter \<and>
      (\<forall>a < length s. sAfter ! a = s ! a)"
  proof (intro impI, elim conjE)
    assume "tyEnv < length s" and run: "typecheck_st t tyEnv s = (r, sAfter)"
    then obtain new where "typecheck_st t tyEnv s = (typecheck t (s ! tyEnv), s @ new)"
      using typecheck_st_grow by blast
    with run have "r = typecheck t (s ! tyEnv)" and "sAfter = s @ new" by simp_all
    then show "r = typecheck t (s ! tyEnv) \<and> length s \<le> length sAfter \<and>
        (\<forall>a < length s. sAfter ! a = s ! a)"
      by (simp add: nth_append)
  qed
next
  show "bEnv < length bs \<and> typecheck_basic_st bt bEnv bs = (br, bsAfter) \<longrightarrow>
      br = typecheck_basic bt (bs ! bEnv) \<and> length bs \<le> length bsAfter \<and>
      (\<forall>a < length bs. bsAfter ! a = bs ! a)"
  proof (intro impI, elim conjE)
    assume "bEnv < length bs" and run: "typecheck_basic_st bt bEnv bs = (br, bsAfter)"
    then obtain new where
      "typecheck_basic_st bt bEnv bs = (typecheck_basic bt (bs ! bEnv), bs @ new)"
      using typecheck_basic_st_grow by blast
    with run have "br = typecheck_basic bt (bs ! bEnv)" and "bsAfter = bs @ new" by simp_all
    then show "br = typecheck_basic bt (bs ! bEnv) \<and> length bs \<le> length bsAfter \<and>
        (\<forall>a < length bs. bsAfter ! a = bs ! a)"
      by (simp add: nth_append)
  qed
next
  show "qEnv < length qs \<and> typecheck_seq2_st qt qEnv qs = (qr, qsAfter) \<longrightarrow>
      qr = typecheck_seq2 qt (qs ! qEnv) \<and> length qs \<le> length qsAfter \<and>
      (\<forall>a < length qs. qsAfter ! a = qs ! a)"
  proof (intro impI, elim conjE)
    assume "qEnv < length qs" and run: "typecheck_seq2_st qt qEnv qs = (qr, qsAfter)"
    then obtain new where
      "typecheck_seq2_st qt qEnv qs = (typecheck_seq2 qt (qs ! qEnv), qs @ new)"
      using typecheck_seq2_st_grow by blast
    with run have "qr = typecheck_seq2 qt (qs ! qEnv)" and "qsAfter = qs @ new" by simp_all
    then show "qr = typecheck_seq2 qt (qs ! qEnv) \<and> length qs \<le> length qsAfter \<and>
        (\<forall>a < length qs. qsAfter ! a = qs ! a)"
      by (simp add: nth_append)
  qed
qed

text \<open>
  An instance, in a store holding the one environment \<open>{ z: Number }\<close>:
  \<open>(const x = 1; (y: boolean) => x); x\<close> in the object variant, where the last \<open>x\<close> is
  outside the \<open>const\<close> and unknown; \<open>(z: boolean) => z\<close> in the function variant; and the
  sequence \<open>[const2 x = true; x]\<close> followed by \<open>z\<close> in the seq2/const2 variant.
\<close>

theorem C7_typecheck_leaves_env_witness:
  "fst (typecheck_st
      (Tseq (Tconst ''x'' (Tnumber 1) (Tfunc [(''y'', Boolean)] (Tvar ''x''))) (Tvar ''x''))
      0 [[''z'' \<mapsto> Number]]) = Inl (''unknown variable: x'', Tvar ''x'') \<and>
   length (snd (typecheck_st
      (Tseq (Tconst ''x'' (Tnumber 1) (Tfunc [(''y'', Boolean)] (Tvar ''x''))) (Tvar ''x''))
      0 [[''z'' \<mapsto> Number]])) = 3 \<and>
   snd (typecheck_st
      (Tseq (Tconst ''x'' (Tnumber 1) (Tfunc [(''y'', Boolean)] (Tvar ''x''))) (Tvar ''x''))
      0 [[''z'' \<mapsto> Number]]) ! 0 = [''z'' \<mapsto> Number] \<and>
   fst (typecheck_basic_st (Bfunc [(''z'', Boolean_b)] (Bvar ''z'')) 0 [[''z'' \<mapsto> Number_b]]) =
     Inr (Func_b [(''z'', Boolean_b)] Boolean_b) \<and>
   snd (typecheck_basic_st (Bfunc [(''z'', Boolean_b)] (Bvar ''z'')) 0 [[''z'' \<mapsto> Number_b]]) ! 0 =
     [''z'' \<mapsto> Number_b] \<and>
   fst (typecheck_seq2_st (Sseq (Sseq2 [Sconst2 ''x'' Strue, Svar ''x'']) (Svar ''z''))
      0 [[''z'' \<mapsto> Number_s]]) = Inr Number_s \<and>
   snd (typecheck_seq2_st (Sseq (Sseq2 [Sconst2 ''x'' Strue, Svar ''x'']) (Svar ''z''))
      0 [[''z'' \<mapsto> Number_s]]) ! 0 = [''z'' \<mapsto> Number_s]"
proof -
  let ?t = "Tseq (Tconst ''x'' (Tnumber 1) (Tfunc [(''y'', Boolean)] (Tvar ''x''))) (Tvar ''x'')"
  let ?s = "[[''z'' \<mapsto> Number]]"
  let ?bt = "Bfunc [(''z'', Boolean_b)] (Bvar ''z'')"
  let ?bs = "[[''z'' \<mapsto> Number_b]]"
  let ?qt = "Sseq (Sseq2 [Sconst2 ''x'' Strue, Svar ''x'']) (Svar ''z'')"
  let ?qs = "[[''z'' \<mapsto> Number_s]]"
  note inst = C7_typecheck_leaves_env [where t = ?t and tyEnv = 0 and s = ?s
      and r = "fst (typecheck_st ?t 0 ?s)" and sAfter = "snd (typecheck_st ?t 0 ?s)"
      and bt = ?bt and bEnv = 0 and bs = ?bs
      and br = "fst (typecheck_basic_st ?bt 0 ?bs)" and bsAfter = "snd (typecheck_basic_st ?bt 0 ?bs)"
      and qt = ?qt and qEnv = 0 and qs = ?qs
      and qr = "fst (typecheck_seq2_st ?qt 0 ?qs)" and qsAfter = "snd (typecheck_seq2_st ?qt 0 ?qs)"]
  have o: "fst (typecheck_st ?t 0 ?s) = typecheck ?t (?s ! 0) \<and>
      snd (typecheck_st ?t 0 ?s) ! 0 = ?s ! 0"
    using inst by simp
  have b: "fst (typecheck_basic_st ?bt 0 ?bs) = typecheck_basic ?bt (?bs ! 0) \<and>
      snd (typecheck_basic_st ?bt 0 ?bs) ! 0 = ?bs ! 0"
    using inst by simp
  have q: "fst (typecheck_seq2_st ?qt 0 ?qs) = typecheck_seq2 ?qt (?qs ! 0) \<and>
      snd (typecheck_seq2_st ?qt 0 ?qs) ! 0 = ?qs ! 0"
    using inst by simp
  have len: "length (snd (typecheck_st ?t 0 ?s)) = 3"
    by (simp add: copy_env_def set_prop_def get_prop_def)
  have "typecheck ?t (?s ! 0) = Inl (''unknown variable: x'', Tvar ''x'')"
    by (simp add: extend_params_def)
  moreover have "typecheck_basic ?bt (?bs ! 0) = Inr (Func_b [(''z'', Boolean_b)] Boolean_b)"
    by (simp add: extend_params_basic_def)
  moreover have "typecheck_seq2 ?qt (?qs ! 0) = Inr Number_s"
    by simp
  ultimately show ?thesis
    using o b q len by simp
qed

end
